theory Spec2Isabelle
  imports Complex_Main
begin

section \<open>Longitudinal MPC (long\_mpc.py): constants and errors\<close>

text \<open>
  Numbers of the source are Python floats; they are modelled as mathematical reals, so
  rounding, overflow to infinity and NaN are outside the model, with one exception:
  \<open>dynamic_lead_constraint_weight\<close>, whose range depends on rounding, is modelled in
  binary64 arithmetic (every operation rounded to the nearest double). Exceptions of the
  source are values of \<open>error\<close>, returned as \<open>Inl\<close>.
\<close>

datatype error = NotImplementedError | ZeroDivisionError | TypeError | UnboundLocalError
  | AttributeError | IndexError | ValueError

datatype personality = Relaxed | Standard | Aggressive | OtherPersonality

datatype source = Lead0 | Lead1 | Cruise | E2e

definition SOURCES :: "source list" where
  "SOURCES = [Lead0, Lead1, Cruise, E2e]"

definition X_DIM :: nat where "X_DIM = 3"
definition U_DIM :: nat where "U_DIM = 1"
definition PARAM_DIM :: nat where "PARAM_DIM = 6"
definition COST_E_DIM :: nat where "COST_E_DIM = 5"
definition COST_DIM :: nat where "COST_DIM = COST_E_DIM + 1"
definition CONSTR_DIM :: nat where "CONSTR_DIM = 4"

definition X_EGO_OBSTACLE_COST :: real where "X_EGO_OBSTACLE_COST = 3"
definition X_EGO_COST :: real where "X_EGO_COST = 0"
definition V_EGO_COST :: real where "V_EGO_COST = 0"
definition A_EGO_COST :: real where "A_EGO_COST = 0"
definition J_EGO_COST :: real where "J_EGO_COST = 12.0"
definition A_CHANGE_COST :: real where "A_CHANGE_COST = 300"
definition DANGER_ZONE_COST :: real where "DANGER_ZONE_COST = 100"

definition CRASH_DISTANCE :: real where "CRASH_DISTANCE = 0.25"
definition LEAD_DANGER_FACTOR :: real where "LEAD_DANGER_FACTOR = 0.75"
definition LIMIT_COST :: real where "LIMIT_COST = 1000000"
definition LEAD_ACCEL_TAU :: real where "LEAD_ACCEL_TAU = 1.5"

definition N :: nat where "N = 12"
definition MAX_T :: real where "MAX_T = 10.0"

definition COMFORT_BRAKE :: real where "COMFORT_BRAKE = 2.5"
definition STOP_DISTANCE :: real where "STOP_DISTANCE = 6.0"
definition DISCOMFORT_BRAKE :: real where "DISCOMFORT_BRAKE = 5.5"
definition OHSHIT_STOP_DISTANCE :: real where "OHSHIT_STOP_DISTANCE = 2.0"

subsection \<open>numpy and numpy\_fast helpers\<close>

text \<open>\<open>np.clip(a, a_min, a_max)\<close> is \<open>minimum(maximum(a, a_min), a_max)\<close>.\<close>

definition np_clip :: "real \<Rightarrow> real \<Rightarrow> real \<Rightarrow> real" where
  "np_clip a a_min a_max = min (max a a_min) a_max"

text \<open>
  Modelled from the spec: \<open>openpilot.common.numpy_fast.clip\<close> is not under src; it clamps
  \<open>x\<close> to \<open>[lo, hi]\<close> as \<open>max(lo, min(hi, x))\<close>.
\<close>

definition clip :: "real \<Rightarrow> real \<Rightarrow> real \<Rightarrow> real" where
  "clip x lo hi = max lo (min hi x)"

text \<open>
  \<open>np.min\<close> of a row and \<open>np.argmin\<close> (the first index of the minimum). numpy raises
  on an empty array; the rows below are never empty.
\<close>

definition np_min :: "real list \<Rightarrow> real" where
  "np_min row = (case row of [] \<Rightarrow> 0 | y # ys \<Rightarrow> fold min ys y)"

fun argmin_acc :: "nat \<Rightarrow> real \<Rightarrow> nat \<Rightarrow> real list \<Rightarrow> nat" where
  "argmin_acc best_i best i [] = best_i"
| "argmin_acc best_i best i (y # ys) =
     (if y < best then argmin_acc i y (Suc i) ys else argmin_acc best_i best (Suc i) ys)"

definition argmin :: "real list \<Rightarrow> nat" where
  "argmin row = (case row of [] \<Rightarrow> 0 | y # ys \<Rightarrow> argmin_acc 0 y 1 ys)"

fun fold_err :: "('a \<Rightarrow> 'b \<Rightarrow> error + 'b) \<Rightarrow> 'a list \<Rightarrow> 'b \<Rightarrow> error + 'b" where
  "fold_err f [] b = Inr b"
| "fold_err f (y # ys) b = (case f y b of Inl e \<Rightarrow> Inl e | Inr b' \<Rightarrow> fold_err f ys b')"

text \<open>\<open>np.cumsum\<close>, with the running total as accumulator.\<close>

fun cumsum_from :: "real \<Rightarrow> real list \<Rightarrow> real list" where
  "cumsum_from acc [] = []"
| "cumsum_from acc (x # xs) = (acc + x) # cumsum_from (acc + x) xs"

definition cumsum :: "real list \<Rightarrow> real list" where
  "cumsum xs = cumsum_from 0 xs"

text \<open>\<open>np.diff(xs, prepend=[0.])\<close>: each sample minus its predecessor, the first minus 0.\<close>

fun diff_from :: "real \<Rightarrow> real list \<Rightarrow> real list" where
  "diff_from prev [] = []"
| "diff_from prev (x # xs) = (x - prev) # diff_from x xs"

definition T_DIFFS :: "real list \<Rightarrow> real list" where
  "T_DIFFS T_IDXS = diff_from 0 T_IDXS"

text \<open>
  Modelled from the spec: \<open>T_IDXS\<close> is built by \<open>index_function\<close> of modeld.constants,
  which is not under src, so every function below takes the grid as a parameter. The spec
  has it as a fixed, non-uniform, monotonically increasing time grid of \<open>N+1\<close> samples
  spanning 0 to 10 s with front-loaded resolution; the quadratic spacing
  \<open>10\<cdot>(i/12)\<^sup>2\<close> is such a grid, and is the concrete one used where one is needed.
\<close>

definition T_IDXS_LST :: "real list" where
  "T_IDXS_LST = [0, 5/72, 5/18, 5/8, 10/9, 125/72, 5/2, 245/72, 40/9, 45/8, 125/18,
                 605/72, 10]"

text \<open>
  \<open>np.interp(x, xp, fp)\<close> for an increasing grid \<open>xp\<close>: the first value left of the
  grid, the last value right of it, linear in between.
\<close>

fun interp_seg :: "real \<Rightarrow> real \<Rightarrow> real \<Rightarrow> (real \<times> real) list \<Rightarrow> real" where
  "interp_seg x x0 f0 [] = f0"
| "interp_seg x x0 f0 ((x1, f1) # rest) =
     (if x < x1 then f0 + (x - x0) * (f1 - f0) / (x1 - x0)
      else interp_seg x x1 f1 rest)"

definition interp :: "real \<Rightarrow> real list \<Rightarrow> real list \<Rightarrow> real" where
  "interp x xp fp =
     (case zip xp fp of
        [] \<Rightarrow> 0
      | (x0, f0) # rest \<Rightarrow> (if x \<le> x0 then f0 else interp_seg x x0 f0 rest))"

subsection \<open>Personality and following distance\<close>

definition get_jerk_factor ::
  "real \<Rightarrow> real \<Rightarrow> real \<Rightarrow> real \<Rightarrow> real \<Rightarrow> real \<Rightarrow> real \<Rightarrow> real \<Rightarrow> real \<Rightarrow> bool \<Rightarrow> personality
     \<Rightarrow> error + (real \<times> real \<times> real)" where
  "get_jerk_factor aggressive_jerk_acceleration aggressive_jerk_danger aggressive_jerk_speed
       standard_jerk_acceleration standard_jerk_danger standard_jerk_speed
       relaxed_jerk_acceleration relaxed_jerk_danger relaxed_jerk_speed
       custom_personalities p =
     (if custom_personalities then
        (case p of
           Relaxed \<Rightarrow> Inr (relaxed_jerk_acceleration, relaxed_jerk_danger, relaxed_jerk_speed)
         | Standard \<Rightarrow> Inr (standard_jerk_acceleration, standard_jerk_danger, standard_jerk_speed)
         | Aggressive \<Rightarrow>
             Inr (aggressive_jerk_acceleration, aggressive_jerk_danger, aggressive_jerk_speed)
         | OtherPersonality \<Rightarrow> Inl NotImplementedError)
      else
        (case p of
           Relaxed \<Rightarrow> Inr (1.0, 1.0, 1.0)
         | Standard \<Rightarrow> Inr (1.0, 1.0, 1.0)
         | Aggressive \<Rightarrow> Inr (0.5, 0.5, 0.5)
         | OtherPersonality \<Rightarrow> Inl NotImplementedError))"

definition get_T_FOLLOW :: "real \<Rightarrow> real \<Rightarrow> real \<Rightarrow> bool \<Rightarrow> personality \<Rightarrow> error + real" where
  "get_T_FOLLOW aggressive_follow standard_follow relaxed_follow custom_personalities p =
     (if custom_personalities then
        (case p of
           Relaxed \<Rightarrow> Inr relaxed_follow
         | Standard \<Rightarrow> Inr standard_follow
         | Aggressive \<Rightarrow> Inr aggressive_follow
         | OtherPersonality \<Rightarrow> Inl NotImplementedError)
      else
        (case p of
           Relaxed \<Rightarrow> Inr 1.75
         | Standard \<Rightarrow> Inr 1.45
         | Aggressive \<Rightarrow> Inr 1.25
         | OtherPersonality \<Rightarrow> Inl NotImplementedError))"

definition get_stopped_equivalence_factor :: "real \<Rightarrow> real" where
  "get_stopped_equivalence_factor v_lead = (v_lead ^ 2) / (2 * COMFORT_BRAKE)"

definition get_safe_obstacle_distance :: "real \<Rightarrow> real \<Rightarrow> real" where
  "get_safe_obstacle_distance v_ego t_follow =
     (v_ego ^ 2) / (2 * COMFORT_BRAKE) + t_follow * v_ego + STOP_DISTANCE"

text \<open>
  \<open>t_follow=None\<close> takes \<open>get_T_FOLLOW()\<close> with all its defaults (standard personality).
\<close>

definition desired_follow_distance :: "real \<Rightarrow> real \<Rightarrow> real option \<Rightarrow> error + real" where
  "desired_follow_distance v_ego v_lead t_follow =
     (case (case t_follow of
              None \<Rightarrow> get_T_FOLLOW 1.25 1.45 1.75 False Standard
            | Some t \<Rightarrow> Inr t) of
        Inl e \<Rightarrow> Inl e
      | Inr t \<Rightarrow>
          Inr (get_safe_obstacle_distance v_ego t - get_stopped_equivalence_factor v_lead))"

definition get_ohshit_equivalence_factor :: "real \<Rightarrow> real" where
  "get_ohshit_equivalence_factor v_lead = (v_lead ^ 2) / (2 * DISCOMFORT_BRAKE)"

definition get_unsafe_obstacle_distance :: "real \<Rightarrow> real \<Rightarrow> real" where
  "get_unsafe_obstacle_distance v_ego t_follow =
     (v_ego ^ 2) / (2 * DISCOMFORT_BRAKE) + t_follow * v_ego + OHSHIT_STOP_DISTANCE"

subsection \<open>binary64 arithmetic\<close>

text \<open>
  A Python float is an IEEE 754 binary64 number: a 53-bit integer significand times a
  power of two. Every arithmetic operation returns the exact result rounded to the
  nearest such number, ties to the even significand. \<open>rne\<close> rounds a real to the nearest
  integer, ties to even; \<open>f64\<close> rounds a real to the nearest double, the spacing of the
  doubles around \<open>x\<close> being \<open>2\<close> to the power \<open>\<lfloor>log\<^sub>2 |x|\<rfloor> - 52\<close>. The exponent is
  unbounded: overflow to infinity, subnormal numbers and NaN are outside the model.
\<close>

definition rne :: "real \<Rightarrow> int" where
  "rne q = (let f = \<lfloor>q\<rfloor>; r = q - of_int f
            in if r < 1 / 2 then f else if r > 1 / 2 then f + 1
               else if even f then f else f + 1)"

definition f64_ulp_exp :: "real \<Rightarrow> int" where
  "f64_ulp_exp x = \<lfloor>log 2 \<bar>x\<bar>\<rfloor> - 52"

definition f64 :: "real \<Rightarrow> real" where
  "f64 x = (if x = 0 then 0
            else of_int (rne (x / 2 powi f64_ulp_exp x)) * 2 powi f64_ulp_exp x)"

text \<open>The reals that are doubles.\<close>

definition is_f64 :: "real \<Rightarrow> bool" where
  "is_f64 x \<longleftrightarrow> (\<exists>m k :: int. \<bar>m\<bar> < 2 ^ 53 \<and> x = of_int m * 2 powi k)"

text \<open>
  \<open>np.exp\<close> on a double, taken as the exponential rounded to the nearest double. The
  properties below use only that its value is a double on the same side of every double
  as the exact exponential.
\<close>

definition np_exp :: "real \<Rightarrow> real" where
  "np_exp x = f64 (exp x)"

text \<open>\<open>get_safe_obstacle_distance\<close> as the doubles compute it, operation by operation.\<close>

definition get_safe_obstacle_distance_f64 :: "real \<Rightarrow> real \<Rightarrow> real" where
  "get_safe_obstacle_distance_f64 v_ego t_follow =
     f64 (f64 (f64 (f64 (v_ego ^ 2) / f64 (2 * COMFORT_BRAKE)) + f64 (t_follow * v_ego))
          + STOP_DISTANCE)"

subsection \<open>Dynamic cost modifiers\<close>

definition logistic :: "real \<Rightarrow> real" where
  "logistic z = 1.0 / (1.0 + exp (- z))"

definition soft_approach_distance_factor ::
  "real \<Rightarrow> real \<Rightarrow> real \<Rightarrow> real \<Rightarrow> real \<Rightarrow> real \<Rightarrow> real \<Rightarrow> real \<Rightarrow> error + real" where
  "soft_approach_distance_factor x_obstacle_i x_ego_i v_ego_i v_lead_i t_follow_i
       approach_margin max_approach_mult logistic_k =
     (case desired_follow_distance v_ego_i v_lead_i (Some t_follow_i) of
        Inl e \<Rightarrow> Inl e
      | Inr desired_dist \<Rightarrow>
          (let actual_gap = x_obstacle_i - x_ego_i;
               gap_deficit = desired_dist - actual_gap
           in if gap_deficit \<le> 0 then Inr 1.0
              else
                (let z = gap_deficit / max 0.000001 approach_margin;
                     z_scaled = logistic_k * (z - 0.5);
                     factor = 1.0 + (max_approach_mult - 1.0) / (1.0 + exp (- z_scaled))
                 in Inr factor)))"

text \<open>
  \<open>dynamic_lead_constraint_weight\<close> in binary64 arithmetic: each operation of the source
  is followed by its rounding. The divisions by \<open>dist_margin\<close> and \<open>speed_margin\<close> raise
  ZeroDivisionError on a zero margin when the operands are Python floats (with the numpy
  scalars of the call site a zero margin gives an infinity or NaN instead; the call site
  passes 2.0). \<open>max_penalty\<close> is a parameter of the source that its body never reads.
\<close>

definition dynamic_lead_constraint_weight ::
  "real \<Rightarrow> real \<Rightarrow> real \<Rightarrow> real \<Rightarrow> real \<Rightarrow> real \<Rightarrow> real \<Rightarrow> real \<Rightarrow> real \<Rightarrow> error + real" where
  "dynamic_lead_constraint_weight x_obstacle_i x_ego_i v_ego_i v_lead_i t_follow_i
       min_penalty max_penalty dist_margin speed_margin =
     (let desired_dist = get_safe_obstacle_distance_f64 v_ego_i t_follow_i;
          actual_gap = f64 (x_obstacle_i - x_ego_i);
          gap_error = f64 (desired_dist - actual_gap);
          closing_speed = f64 (v_ego_i - v_lead_i)
      in if dist_margin = 0 \<or> speed_margin = 0 then Inl ZeroDivisionError
         else
           (let z = f64 (f64 (gap_error / dist_margin) + f64 (closing_speed / speed_margin));
                logistic_k = 1.5;
                z_scaled = f64 (logistic_k * f64 (z - 0.5));
                logistic_val = f64 (1.0 / f64 (1.0 + np_exp (- z_scaled)));
                safe_upper = 10000.0;
                penalty = f64 (min_penalty
                                 + f64 (logistic_val * f64 (safe_upper - min_penalty)))
            in Inr penalty))"

text \<open>
  The early return comes before the divisions, so a zero margin raises only when the
  lead is pulling away; \<open>z_dist\<close> is computed first.
\<close>

definition dynamic_lead_pullaway_distance_cost ::
  "real \<Rightarrow> real \<Rightarrow> real \<Rightarrow> real \<Rightarrow> real \<Rightarrow> real \<Rightarrow> real \<Rightarrow> real \<Rightarrow> real \<Rightarrow> error + real" where
  "dynamic_lead_pullaway_distance_cost x_ego_i v_ego_i x_lead_i v_lead_i t_follow_i
       base_cost pullaway_dist_margin pullaway_speed_margin pullaway_max_factor0 =
     (let pullaway_max_factor = min 1.3 pullaway_max_factor0
      in case desired_follow_distance v_ego_i v_lead_i (Some t_follow_i) of
           Inl e \<Rightarrow> Inl e
         | Inr desired_dist \<Rightarrow>
             (let actual_gap = x_lead_i - x_ego_i;
                  gap_excess = actual_gap - desired_dist;
                  speed_diff = v_lead_i - v_ego_i
              in if gap_excess \<le> 0 \<or> speed_diff \<le> 0 then Inr base_cost
                 else if pullaway_dist_margin = 0 \<or> pullaway_speed_margin = 0
                   then Inl ZeroDivisionError
                 else
                   (let z_dist = gap_excess / pullaway_dist_margin;
                        z_speed = speed_diff / pullaway_speed_margin;
                        z = min z_dist z_speed;
                        factor = 1.0 + z * (pullaway_max_factor - 1.0);
                        factor' = np_clip factor 1.0 pullaway_max_factor
                    in Inr (base_cost * factor'))))"

text \<open>
  \<open>get_smooth_dynamic_j_ego_cost_array\<close> on arrays of one length (its only caller passes
  columns of \<open>N+1\<close> stages); \<open>desired_follow_distance\<close> is applied element by element with
  \<open>t_follow\<close> given. numpy array division does not raise.
\<close>

definition get_smooth_dynamic_j_ego_cost_array ::
  "real list \<Rightarrow> real list \<Rightarrow> real list \<Rightarrow> real list \<Rightarrow> real list \<Rightarrow> real list
     \<Rightarrow> real \<Rightarrow> real \<Rightarrow> real \<Rightarrow> real \<Rightarrow> real \<Rightarrow> real \<Rightarrow> bool \<Rightarrow> real \<Rightarrow> real list" where
  "get_smooth_dynamic_j_ego_cost_array T_IDXS x_obstacle x_ego v_ego v_lead t_follow
       base_jerk_cost low_jerk_cost logistic_k_dist logistic_k_speed min_speed_for_closing
       distance_smoothing time_taper speed_factor =
     (let n_steps = length x_obstacle
      in map (\<lambda>i.
           let desired_dist = get_safe_obstacle_distance (v_ego ! i) (t_follow ! i)
                 - get_stopped_equivalence_factor (v_lead ! i);
               current_dist = x_obstacle ! i - x_ego ! i;
               dist_ratio = (desired_dist - current_dist) / (desired_dist + distance_smoothing);
               dist_logistic = logistic (logistic_k_dist * dist_ratio);
               closing_speed = v_ego ! i - v_lead ! i;
               closing_shifted = closing_speed - min_speed_for_closing;
               speed_logistic = logistic (logistic_k_speed * closing_shifted);
               combined_factor = dist_logistic * speed_logistic;
               jerk_cost = low_jerk_cost + combined_factor * (base_jerk_cost - low_jerk_cost);
               t = T_IDXS ! i;
               factor_t = (if t \<le> 2.0 then 1.2 + (1.0 - 1.2) * (t / 2.0) else 1.0);
               jerk_cost' = (if time_taper then jerk_cost * factor_t else jerk_cost)
           in jerk_cost' * speed_factor) [0..<n_steps])"

section \<open>The MPC class\<close>

subsection \<open>The injected solver\<close>

text \<open>
  The acados solver is an external capability. The record holds what the MPC writes
  to it, stage by stage; a weight matrix \<open>W\<close> is always diagonal in the source and is kept
  as its diagonal. \<open>solver.reset()\<close> clears the solver's own iterate, which is not part
  of the record. One \<open>solve()\<close> is a function from what was written to the status, the
  stage states and controls, and the timing statistics.
\<close>

record solver =
  sv_yref :: "nat \<Rightarrow> real list"
  sv_W :: "nat \<Rightarrow> real list"
  sv_Zl :: "nat \<Rightarrow> real list"
  sv_x :: "nat \<Rightarrow> real list"
  sv_p :: "nat \<Rightarrow> real list"
  sv_lbx :: "real list"
  sv_ubx :: "real list"

record solve_out =
  so_status :: int
  so_x :: "nat \<Rightarrow> real list"
  so_u :: "nat \<Rightarrow> real list"
  so_time_tot :: real
  so_time_qp :: real
  so_time_lin :: real
  so_time_sim :: real

definition solver_reset :: "solver \<Rightarrow> solver" where
  "solver_reset sv = sv"

definition cost_set_yref :: "nat \<Rightarrow> real list \<Rightarrow> solver \<Rightarrow> solver" where
  "cost_set_yref i v sv = sv\<lparr>sv_yref := (sv_yref sv)(i := v)\<rparr>"

definition cost_set_W :: "nat \<Rightarrow> real list \<Rightarrow> solver \<Rightarrow> solver" where
  "cost_set_W i v sv = sv\<lparr>sv_W := (sv_W sv)(i := v)\<rparr>"

definition cost_set_Zl :: "nat \<Rightarrow> real list \<Rightarrow> solver \<Rightarrow> solver" where
  "cost_set_Zl i v sv = sv\<lparr>sv_Zl := (sv_Zl sv)(i := v)\<rparr>"

definition solver_set_x :: "nat \<Rightarrow> real list \<Rightarrow> solver \<Rightarrow> solver" where
  "solver_set_x i v sv = sv\<lparr>sv_x := (sv_x sv)(i := v)\<rparr>"

definition solver_set_p :: "nat \<Rightarrow> real list \<Rightarrow> solver \<Rightarrow> solver" where
  "solver_set_p i v sv = sv\<lparr>sv_p := (sv_p sv)(i := v)\<rparr>"

subsection \<open>State of a LongitudinalMpc\<close>

text \<open>
  A lead as the perception interface reports it, and the fields of the class.
  A two-dimensional array is a list of rows. \<open>status\<close> of the class is \<open>mpc_status\<close>
  here (the lead has a field of that name). \<open>cruise_min_a\<close> and \<open>max_a\<close> exist only
  after \<open>set_accel_limits\<close>. \<open>cloudlog\<close> is the trace of the warnings sent to the
  logger, each with the clock and the status it reports; \<open>mode\<close> is the source's string.
\<close>

record lead =
  status :: bool
  dRel :: real
  vLead :: real
  aLeadK :: real
  aLeadTau :: real
  prob :: real
  modelProb :: real

record mpc =
  approach_factor_last :: real
  mode :: string
  dt :: real
  solver :: solver
  v_solution :: "real list"
  a_solution :: "real list"
  prev_a :: "real list"
  j_solution :: "real list"
  yref :: "real list list"
  x_sol :: "real list list"
  u_sol :: "real list list"
  params :: "real list list"
  last_cloudlog_t :: real
  mpc_status :: bool
  crash_cnt :: real
  solution_status :: int
  solve_time :: real
  time_qp_solution :: real
  time_linearization :: real
  time_integrator :: real
  x0 :: "real list"
  acceleration_jerk_factor :: real
  danger_jerk_factor :: real
  speed_jerk_factor :: real
  base_cost_weights :: "real list"
  base_constraint_cost_weights :: "real list"
  source :: source
  cruise_min_a :: "real option"
  max_a :: "real option"
  cloudlog :: "(real \<times> int) list"

text \<open>
  The shapes that \<open>reset\<close> establishes and every method keeps; numpy raises on any other
  shape, and the indexing below is read under them.
\<close>

definition shapes_ok :: "mpc \<Rightarrow> bool" where
  "shapes_ok s \<longleftrightarrow>
     length (params s) = N + 1 \<and> list_all (\<lambda>row. length row = PARAM_DIM) (params s)
     \<and> length (yref s) = N + 1 \<and> list_all (\<lambda>row. length row = COST_DIM) (yref s)
     \<and> length (x_sol s) = N + 1 \<and> list_all (\<lambda>row. length row = X_DIM) (x_sol s)
     \<and> length (u_sol s) = N \<and> length (prev_a s) = N + 1 \<and> length (x0 s) = X_DIM
     \<and> length (base_cost_weights s) = COST_DIM"

subsection \<open>Weights\<close>

text \<open>
  \<open>W\<close> is one array mutated in the loop, so the terminal stage gets the first
  \<open>COST_E_DIM\<close> entries of the matrix as the last loop iteration left it.
\<close>

definition set_cost_weights :: "real list \<Rightarrow> real list \<Rightarrow> real list \<Rightarrow> solver \<Rightarrow> solver" where
  "set_cost_weights T_IDXS cost_weights constraint_cost_weights sv =
     (let W_at = (\<lambda>i. cost_weights[4 := cost_weights ! 4
                         * interp (T_IDXS ! i) [0.0, 1.0, 2.0] [1.0, 1.0, 0.3]]);
          sv1 = fold (\<lambda>i sv. cost_set_W i (W_at i) sv) [0..<N] sv;
          sv2 = cost_set_W N (take COST_E_DIM (W_at (N - 1))) sv1;
          Zl = constraint_cost_weights
      in fold (\<lambda>i sv. cost_set_Zl i Zl sv) [0..<N] sv2)"

definition set_weights ::
  "real list \<Rightarrow> real \<Rightarrow> real \<Rightarrow> real \<Rightarrow> bool \<Rightarrow> personality \<Rightarrow> real \<Rightarrow> mpc \<Rightarrow> error + mpc" where
  "set_weights T_IDXS acceleration_jerk danger_jerk speed_jerk prev_accel_constraint
       personality speed_scaling s =
     (let s1 = s\<lparr>acceleration_jerk_factor := acceleration_jerk,
                 danger_jerk_factor := danger_jerk,
                 speed_jerk_factor := speed_jerk\<rparr>
      in if mode s1 = ''acc'' then
           (let a_change_cost = (if prev_accel_constraint then A_CHANGE_COST else 0.0);
                j_cost = J_EGO_COST * acceleration_jerk_factor s1;
                bcw = [X_EGO_OBSTACLE_COST, X_EGO_COST, V_EGO_COST, A_EGO_COST,
                       a_change_cost, j_cost];
                bccw = [LIMIT_COST, LIMIT_COST, LIMIT_COST, danger_jerk]
            in Inr (s1\<lparr>base_cost_weights := bcw, base_constraint_cost_weights := bccw,
                       solver := set_cost_weights T_IDXS bcw bccw (solver s1)\<rparr>))
         else if mode s1 = ''blended'' then
           (let a_change_cost = (if prev_accel_constraint then 40.0 else 0.0);
                j_cost = 1.0 * acceleration_jerk_factor s1;
                cost_weights = [0, 0.1, 0.2, 5.0, a_change_cost, j_cost];
                constraint_cost_weights = [LIMIT_COST, LIMIT_COST, LIMIT_COST, 50.0]
            in Inr (s1\<lparr>base_cost_weights := cost_weights,
                       base_constraint_cost_weights := constraint_cost_weights,
                       solver := set_cost_weights T_IDXS cost_weights constraint_cost_weights
                                   (solver s1)\<rparr>))
         else Inl NotImplementedError)"

subsection \<open>reset\<close>

definition reset :: "real list \<Rightarrow> mpc \<Rightarrow> error + mpc" where
  "reset T_IDXS s =
     (let yref0 = replicate (N + 1) (replicate COST_DIM 0);
          sv1 = solver_reset (solver s);
          sv2 = fold (\<lambda>i sv. cost_set_yref i (yref0 ! i) sv) [0..<N] sv1;
          sv3 = cost_set_yref N (take COST_E_DIM (yref0 ! N)) sv2;
          sv4 = fold (\<lambda>i sv. solver_set_x i (replicate X_DIM 0) sv) [0..<N + 1] sv3;
          s1 = s\<lparr>solver := sv4,
                 v_solution := replicate (N + 1) 0,
                 a_solution := replicate (N + 1) 0,
                 prev_a := replicate (N + 1) 0,
                 j_solution := replicate N 0,
                 yref := yref0,
                 x_sol := replicate (N + 1) (replicate X_DIM 0),
                 u_sol := replicate N (replicate 1 0),
                 params := replicate (N + 1) (replicate PARAM_DIM 0),
                 last_cloudlog_t := 0,
                 mpc_status := False,
                 crash_cnt := 0.0,
                 solution_status := 0,
                 solve_time := 0.0,
                 time_qp_solution := 0.0,
                 time_linearization := 0.0,
                 time_integrator := 0.0,
                 x0 := replicate X_DIM 0,
                 acceleration_jerk_factor := 1.0,
                 danger_jerk_factor := 1.0,
                 speed_jerk_factor := 1.0\<rparr>
      in set_weights T_IDXS 1.0 1.0 1.0 True Standard 1.0 s1)"

text \<open>
  \<open>__init__\<close>: a fresh solver, \<open>reset\<close>, and the cruise source. Before \<open>reset\<close> the
  fields it assigns do not exist; the accel limits are unset and nothing has been logged.
\<close>

definition new_solver :: solver where
  "new_solver = \<lparr>sv_yref = (\<lambda>_. []), sv_W = (\<lambda>_. []), sv_Zl = (\<lambda>_. []), sv_x = (\<lambda>_. []),
                  sv_p = (\<lambda>_. []), sv_lbx = [], sv_ubx = []\<rparr>"

definition mpc_init :: "real list \<Rightarrow> string \<Rightarrow> real \<Rightarrow> error + mpc" where
  "mpc_init T_IDXS mode' dt' =
     (let s = \<lparr>approach_factor_last = 1.0, mode = mode', dt = dt', solver = new_solver,
                v_solution = [], a_solution = [], prev_a = [], j_solution = [], yref = [],
                x_sol = [], u_sol = [], params = [], last_cloudlog_t = 0, mpc_status = False,
                crash_cnt = 0, solution_status = 0, solve_time = 0, time_qp_solution = 0,
                time_linearization = 0, time_integrator = 0, x0 = [],
                acceleration_jerk_factor = 1.0, danger_jerk_factor = 1.0,
                speed_jerk_factor = 1.0, base_cost_weights = [],
                base_constraint_cost_weights = [], source = Cruise, cruise_min_a = None,
                max_a = None, cloudlog = []\<rparr>
      in case reset T_IDXS s of
           Inl e \<Rightarrow> Inl e
         | Inr s' \<Rightarrow> Inr (s'\<lparr>source := SOURCES ! 2\<rparr>))"

subsection \<open>Current state and leads\<close>

definition set_cur_state :: "real \<Rightarrow> real \<Rightarrow> mpc \<Rightarrow> mpc" where
  "set_cur_state v a s =
     (let v_prev = x0 s ! 1;
          s1 = s\<lparr>x0 := (x0 s)[1 := v, 2 := a]\<rparr>
      in if \<bar>v_prev - v\<bar> > 2 then
           s1\<lparr>solver := fold (\<lambda>i sv. solver_set_x i (x0 s1) sv) [0..<N + 1] (solver s1)\<rparr>
         else s1)"

text \<open>The result is the two-column array of the source, a row \<open>(x, v)\<close> per stage.\<close>

definition extrapolate_lead ::
  "real list \<Rightarrow> real \<Rightarrow> real \<Rightarrow> real \<Rightarrow> real \<Rightarrow> (real \<times> real) list" where
  "extrapolate_lead T_IDXS x_lead v_lead a_lead a_lead_tau =
     (let a_lead_traj = map (\<lambda>t. a_lead * exp (- a_lead_tau * (t ^ 2) / 2)) T_IDXS;
          v_lead_traj = map (\<lambda>c. np_clip (v_lead + c) 0.0 100000000)
                          (cumsum (map2 (*) (T_DIFFS T_IDXS) a_lead_traj));
          x_lead_traj = map (\<lambda>c. x_lead + c)
                          (cumsum (map2 (*) (T_DIFFS T_IDXS) v_lead_traj))
      in zip x_lead_traj v_lead_traj)"

text \<open>
  \<open>ACCEL_MIN\<close> (car.interfaces) is not under src and is a parameter; it is a negative
  constant of the platform, so the division by \<open>-ACCEL_MIN * 2\<close> does not raise.
\<close>

definition process_lead :: "real list \<Rightarrow> real \<Rightarrow> mpc \<Rightarrow> lead option \<Rightarrow> (real \<times> real) list" where
  "process_lead T_IDXS ACCEL_MIN s ld =
     (let v_ego = x0 s ! 1;
          (x_lead, v_lead, a_lead, a_lead_tau) =
            (case ld of
               Some l \<Rightarrow>
                 (if status l then (dRel l, vLead l, aLeadK l, aLeadTau l)
                  else (50.0, v_ego + 10.0, 0.0, LEAD_ACCEL_TAU))
             | None \<Rightarrow> (50.0, v_ego + 10.0, 0.0, LEAD_ACCEL_TAU));
          min_x_lead = ((v_ego + v_lead) / 2) * (v_ego - v_lead) / (- ACCEL_MIN * 2);
          x_lead' = clip x_lead min_x_lead 100000000;
          v_lead' = clip v_lead 0.0 100000000;
          a_lead' = clip a_lead (- 10) 5
      in extrapolate_lead T_IDXS x_lead' v_lead' a_lead' a_lead_tau)"

definition set_accel_limits :: "real \<Rightarrow> real \<Rightarrow> mpc \<Rightarrow> mpc" where
  "set_accel_limits min_a max_a' s = s\<lparr>cruise_min_a := Some min_a, max_a := Some max_a'\<rparr>"

subsection \<open>Dynamic costs of one update\<close>

text \<open>
  One iteration of the loop of \<open>_apply_dynamic_costs\<close>: the weights of stage \<open>i\<close>, from
  the previous solution \<open>x_sol\<close> and the parameters just filled.
\<close>

definition dynamic_cost_stage ::
  "real list \<Rightarrow> mpc \<Rightarrow> (real \<times> real) list \<Rightarrow> real list \<Rightarrow> nat \<Rightarrow> solver \<Rightarrow> error + solver" where
  "dynamic_cost_stage T_IDXS s lead_xv dyn_j_ego_array i sv =
     (let dist_cost_base = base_cost_weights s ! 0;
          a_change_cost = base_cost_weights s ! 4;
          W_step = base_cost_weights s;
          W_step = W_step[4 := a_change_cost
                     * interp (T_IDXS ! i) [0.0, 1.0, 2.0] [1.0, 1.0, 0.3]];
          W_step = W_step[5 := dyn_j_ego_array ! i];
          x_ego_i = x_sol s ! i ! 0;
          v_ego_i_iter = x_sol s ! i ! 1;
          (x_lead_i, v_lead_i) = (if i < length lead_xv then lead_xv ! i else last lead_xv);
          t_follow_i = params s ! i ! 4
      in case dynamic_lead_pullaway_distance_cost x_ego_i v_ego_i_iter x_lead_i v_lead_i
                t_follow_i dist_cost_base 5.0 2.0 2.0 of
           Inl e \<Rightarrow> Inl e
         | Inr pullaway_dist_cost \<Rightarrow>
             (case soft_approach_distance_factor x_lead_i x_ego_i v_ego_i_iter v_lead_i
                     t_follow_i 5.0 1.5 1.0 of
                Inl e \<Rightarrow> Inl e
              | Inr approach_factor \<Rightarrow>
                  (let combined_factor = pullaway_dist_cost * approach_factor;
                       clamped_factor = np_clip combined_factor 1.0 1.3;
                       W_step = W_step[0 := dist_cost_base * clamped_factor]
                   in case dynamic_lead_constraint_weight (params s ! i ! 2) x_ego_i
                             v_ego_i_iter v_lead_i t_follow_i 5.0 100000 2.0 2.0 of
                        Inl e \<Rightarrow> Inl e
                      | Inr last_constraint_penalty \<Rightarrow>
                          (let Zl = [LIMIT_COST, LIMIT_COST, LIMIT_COST,
                                     last_constraint_penalty]
                           in Inr (cost_set_W i W_step (cost_set_Zl i Zl sv))))))"

text \<open>
  \<open>self.acceleration_jerk_factor or 1.0\<close> takes 1.0 for a factor of zero. The lead array
  always has its two columns, so \<open>v_lead\<close> is its second one. The result is the solver
  with the new weights; no field of the class changes.
\<close>

definition apply_dynamic_costs ::
  "real list \<Rightarrow> mpc \<Rightarrow> (real \<times> real) list \<Rightarrow> error + solver" where
  "apply_dynamic_costs T_IDXS s lead_xv =
     (let base_j_cost = 12.0 * (if acceleration_jerk_factor s \<noteq> 0
                                 then acceleration_jerk_factor s else 1.0);
          dyn_j_ego_array = get_smooth_dynamic_j_ego_cost_array T_IDXS
             (map (\<lambda>row. row ! 2) (params s))
             (map (\<lambda>row. row ! 0) (x_sol s))
             (map (\<lambda>row. row ! 1) (x_sol s))
             (map snd lead_xv)
             (map (\<lambda>row. row ! 4) (params s))
             base_j_cost 0.5 5.0 2.0 0.3 4.0 True 1.0
      in case fold_err (dynamic_cost_stage T_IDXS s lead_xv dyn_j_ego_array) [0..<N]
                (solver s) of
           Inl e \<Rightarrow> Inl e
         | Inr sv \<Rightarrow> Inr (cost_set_W N (take COST_E_DIM (base_cost_weights s)) sv))"

subsection \<open>run\<close>

text \<open>
  \<open>solve\<close> is the solver's answer to what was written to it, and \<open>t\<close> the reading of
  \<open>time.monotonic()\<close> in this call.
\<close>

definition run_solver_input :: "mpc \<Rightarrow> solver" where
  "run_solver_input s =
     (let sv1 = fold (\<lambda>i sv. solver_set_p i (params s ! i) sv) [0..<N + 1] (solver s)
      in sv1\<lparr>sv_lbx := x0 s, sv_ubx := x0 s\<rparr>)"

definition run :: "real list \<Rightarrow> (solver \<Rightarrow> solve_out) \<Rightarrow> real \<Rightarrow> mpc \<Rightarrow> error + mpc" where
  "run T_IDXS solve t s =
     (let sv2 = run_solver_input s;
          out = solve sv2;
          x_sol' = fold (\<lambda>i rows. rows[i := so_x out i]) [0..<N + 1] (x_sol s);
          u_sol' = fold (\<lambda>i rows. rows[i := so_u out i]) [0..<N] (u_sol s);
          s1 = s\<lparr>solver := sv2,
                 solution_status := so_status out,
                 solve_time := so_time_tot out,
                 time_qp_solution := so_time_qp out,
                 time_linearization := so_time_lin out,
                 time_integrator := so_time_sim out,
                 x_sol := x_sol',
                 u_sol := u_sol',
                 v_solution := map (\<lambda>row. row ! 1) x_sol',
                 a_solution := map (\<lambda>row. row ! 2) x_sol',
                 j_solution := map (\<lambda>row. row ! 0) u_sol'\<rparr>;
          s2 = s1\<lparr>prev_a := map (\<lambda>ti. interp (ti + dt s1) T_IDXS (a_solution s1)) T_IDXS\<rparr>
      in if solution_status s2 \<noteq> 0 then
           (let s3 = (if t > last_cloudlog_t s2 + 5.0
                      then s2\<lparr>last_cloudlog_t := t,
                              cloudlog := cloudlog s2 @ [(t, solution_status s2)]\<rparr>
                      else s2)
            in reset T_IDXS s3)
         else Inr s2)"

subsection \<open>update\<close>

definition lead_obstacle :: "(real \<times> real) list \<Rightarrow> real list" where
  "lead_obstacle lead_xv = map (\<lambda>(xl, vl). xl + get_stopped_equivalence_factor vl) lead_xv"

text \<open>The synthetic cruise obstacle of ACC mode.\<close>

definition cruise_obstacle :: "real list \<Rightarrow> real \<Rightarrow> real \<Rightarrow> real \<Rightarrow> real \<Rightarrow> real \<Rightarrow> real list" where
  "cruise_obstacle T_IDXS v_ego min_a mx_a v_cruise t_follow =
     (let v_lower = map (\<lambda>t. v_ego + (t * min_a * 1.05)) T_IDXS;
          v_upper = map (\<lambda>t. v_ego + (t * mx_a * 1.05)) T_IDXS;
          v_cruise_clipped = map2 (\<lambda>lo hi. np_clip v_cruise lo hi) v_lower v_upper
      in map2 (+) (cumsum (map2 (*) (T_DIFFS T_IDXS) v_cruise_clipped))
           (map (\<lambda>vc. get_safe_obstacle_distance vc t_follow) v_cruise_clipped))"

text \<open>
  The branch on the mode: the danger factor, the obstacle columns (a row of candidates
  per stage), the source and the reference path.
\<close>

definition update_mode ::
  "real list \<Rightarrow> mpc \<Rightarrow> real \<Rightarrow> real \<Rightarrow> real \<Rightarrow> real list \<Rightarrow> real list \<Rightarrow> real \<Rightarrow> real
     \<Rightarrow> real list \<Rightarrow> real list \<Rightarrow> real list \<Rightarrow> real list
     \<Rightarrow> error + (mpc \<times> real list list \<times> real list \<times> real list \<times> real list \<times> real list)" where
  "update_mode T_IDXS s v_ego min_a mx_a lead_0_obstacle lead_1_obstacle v_cruise t_follow
       x v a j =
     (if mode s = ''acc'' then
        (let s1 = s\<lparr>params := map (\<lambda>row. row[5 := LEAD_DANGER_FACTOR]) (params s)\<rparr>;
             cruise_obs = cruise_obstacle T_IDXS v_ego min_a mx_a v_cruise t_follow;
             x_obstacles = map (\<lambda>i. [lead_0_obstacle ! i, lead_1_obstacle ! i, cruise_obs ! i])
                             [0..<N + 1];
             s2 = s1\<lparr>source := SOURCES ! argmin (x_obstacles ! 0)\<rparr>
         in Inr (s2, x_obstacles, map (\<lambda>_. 0.0) x, map (\<lambda>_. 0.0) v, map (\<lambda>_. 0.0) a,
                 map (\<lambda>_. 0.0) j))
      else if mode s = ''blended'' then
        (let s1 = s\<lparr>params := map (\<lambda>row. row[5 := 1.0]) (params s)\<rparr>;
             x_obstacles = map (\<lambda>i. [lead_0_obstacle ! i, lead_1_obstacle ! i]) [0..<N + 1]
         in if x = [] then Inl IndexError
            else
              (let cruise_target = map (\<lambda>t. t * np_clip v_cruise (v_ego - 2.0) 1000 + x ! 0)
                                     T_IDXS;
                   xforward = map2 (*) (map (\<lambda>c. c / 2) (map2 (+) (tl v) (butlast v)))
                                (map2 (-) (tl T_IDXS) (butlast T_IDXS));
                   x1 = cumsum (x ! 0 # xforward);
                   x_and_cruise = map (\<lambda>i. [x1 ! i, cruise_target ! i]) [0..<N + 1];
                   x2 = map np_min x_and_cruise;
                   s2 = s1\<lparr>source := (if x_and_cruise ! 1 ! 0 < x_and_cruise ! 1 ! 1
                                       then E2e else Cruise)\<rparr>
               in Inr (s2, x_obstacles, x2, v, a, j)))
      else Inl NotImplementedError)"

text \<open>
  \<open>any((obstacle - get_safe_obstacle_distance(x_sol[:,1], t_follow)) - x_sol[:,0] < 0.0)\<close>:
  the solution is inside the safe gap to the obstacle at some stage.
\<close>

definition safe_gap_violated :: "real list \<Rightarrow> real list list \<Rightarrow> real \<Rightarrow> bool" where
  "safe_gap_violated obstacle xsol t_follow =
     list_ex (\<lambda>i. (obstacle ! i - get_safe_obstacle_distance (xsol ! i ! 1) t_follow)
                    - xsol ! i ! 0 < 0.0) [0..<N + 1]"

text \<open>What follows the solve: the forward-collision counter and the blended re-attribution.\<close>

definition update_post ::
  "real list \<Rightarrow> mpc \<Rightarrow> lead \<Rightarrow> bool \<Rightarrow> real \<Rightarrow> (real \<times> real) list \<Rightarrow> real list \<Rightarrow> real list
     \<Rightarrow> mpc" where
  "update_post T_IDXS s lead_one radarless_model t_follow lead_xv_0 lead_0_obstacle
       lead_1_obstacle =
     (let lead_probability = (if radarless_model then prob lead_one else modelProb lead_one);
          s1 = (if list_ex (\<lambda>i. T_IDXS ! i < 5.0
                               \<and> fst (lead_xv_0 ! i) - x_sol s ! i ! 0 < CRASH_DISTANCE)
                     [0..<N + 1]
                   \<and> lead_probability > 0.9
                then s\<lparr>crash_cnt := crash_cnt s + 1\<rparr>
                else s\<lparr>crash_cnt := 0\<rparr>)
      in if mode s1 = ''blended'' then
           (let s2 = (if safe_gap_violated lead_0_obstacle (x_sol s1) t_follow
                      then s1\<lparr>source := Lead0\<rparr> else s1)
            in if safe_gap_violated lead_1_obstacle (x_sol s2) t_follow
                  \<and> lead_1_obstacle ! 0 - lead_0_obstacle ! 0 \<noteq> 0
               then s2\<lparr>source := Lead1\<rparr> else s2)
         else s1)"

text \<open>
  \<open>update\<close>. \<open>(lead_1_obstacle[0] - lead_0_obstacle[0])\<close> is used as a truth value in
  the source: a float is true when it is not zero.
\<close>

definition update ::
  "real list \<Rightarrow> real \<Rightarrow> (solver \<Rightarrow> solve_out) \<Rightarrow> real \<Rightarrow> mpc \<Rightarrow> lead \<Rightarrow> lead \<Rightarrow> real
     \<Rightarrow> real list \<Rightarrow> real list \<Rightarrow> real list \<Rightarrow> real list \<Rightarrow> bool \<Rightarrow> real \<Rightarrow> bool \<Rightarrow> personality
     \<Rightarrow> error + mpc" where
  "update T_IDXS ACCEL_MIN solve t s lead_one lead_two v_cruise x v a j radarless_model
       t_follow trafficModeActive personality =
     (let v_ego = x0 s ! 1;
          s1 = s\<lparr>mpc_status := (status lead_one \<or> status lead_two)\<rparr>;
          lead_xv_0 = process_lead T_IDXS ACCEL_MIN s1 (Some lead_one);
          lead_xv_1 = process_lead T_IDXS ACCEL_MIN s1 (Some lead_two);
          lead_0_obstacle = lead_obstacle lead_xv_0;
          lead_1_obstacle = lead_obstacle lead_xv_1
      in case (cruise_min_a s1, max_a s1) of
           (Some min_a, Some mx_a) \<Rightarrow>
             (let s2 = s1\<lparr>params := map (\<lambda>row. row[0 := min_a, 1 := mx_a]) (params s1)\<rparr>
              in case update_mode T_IDXS s2 v_ego min_a mx_a lead_0_obstacle lead_1_obstacle
                        v_cruise t_follow x v a j of
                   Inl e \<Rightarrow> Inl e
                 | Inr (s3, x_obstacles, x', v', a', j') \<Rightarrow>
                     (let yref' = map (\<lambda>i. (yref s3 ! i)[1 := x' ! i, 2 := v' ! i,
                                                          3 := a' ! i, 5 := j' ! i])
                                    [0..<N + 1];
                          sv1 = fold (\<lambda>i sv. cost_set_yref i (yref' ! i) sv) [0..<N] (solver s3);
                          sv2 = cost_set_yref N (take COST_E_DIM (yref' ! N)) sv1;
                          params' = map (\<lambda>i. (params s3 ! i)[2 := np_min (x_obstacles ! i),
                                                              3 := prev_a s3 ! i,
                                                              4 := t_follow])
                                      [0..<N + 1];
                          s4 = s3\<lparr>yref := yref', solver := sv2, params := params'\<rparr>;
                          chosen_lead_xv = lead_xv_0
                      in case apply_dynamic_costs T_IDXS s4 chosen_lead_xv of
                           Inl e \<Rightarrow> Inl e
                         | Inr sv3 \<Rightarrow>
                             (case run T_IDXS solve t (s4\<lparr>solver := sv3\<rparr>) of
                                Inl e \<Rightarrow> Inl e
                              | Inr s5 \<Rightarrow>
                                  Inr (update_post T_IDXS s5 lead_one radarless_model t_follow
                                         lead_xv_0 lead_0_obstacle lead_1_obstacle))))
         | _ \<Rightarrow> Inl AttributeError)"

subsection \<open>Concrete leads and solver answers\<close>

text \<open>
  Inputs for the examples: a tracked lead standing still at a range, a lead message
  without detection, a solver that answers with the all-zero trajectory and status 0, and
  one that reports failure (acados status 4, a failed QP) at every call.
\<close>

definition lead_stopped_at :: "real \<Rightarrow> lead" where
  "lead_stopped_at d = \<lparr>status = True, dRel = d, vLead = 0, aLeadK = 0,
                         aLeadTau = LEAD_ACCEL_TAU, prob = 1, modelProb = 1\<rparr>"

definition no_lead :: lead where
  "no_lead = \<lparr>status = False, dRel = 0, vLead = 0, aLeadK = 0, aLeadTau = 0, prob = 0,
              modelProb = 0\<rparr>"

definition solve_still :: "solver \<Rightarrow> solve_out" where
  "solve_still sv = \<lparr>so_status = 0, so_x = (\<lambda>_. [0, 0, 0]), so_u = (\<lambda>_. [0]),
                     so_time_tot = 0, so_time_qp = 0, so_time_lin = 0, so_time_sim = 0\<rparr>"

definition solve_diverged :: "solver \<Rightarrow> solve_out" where
  "solve_diverged sv = \<lparr>so_status = 4, so_x = (\<lambda>_. [0, 0, 0]), so_u = (\<lambda>_. [0]),
                        so_time_tot = 0, so_time_qp = 0, so_time_lin = 0, so_time_sim = 0\<rparr>"

section \<open>Cruise speed arbiter (frogpilot\_vcruise.py)\<close>

text \<open>
  Constants imported from modules that are not under src, taken as parameters:
  \<open>DT_MDL\<close> (common.realtime), \<open>PLANNER_TIME\<close> (frogpilot\_variables),
  \<open>V_CRUISE_UNSET\<close> (drive\_helpers) and the unit conversions of \<open>CV\<close>.
  \<open>CRUISING_SPEED\<close> is rebound to 6.7 by the constructor.
\<close>

record ext_consts =
  DT_MDL :: real
  PLANNER_TIME :: real
  V_CRUISE_UNSET :: real
  KPH_TO_MS :: real
  MS_TO_MPH :: real

definition CRUISING_SPEED :: real where "CRUISING_SPEED = 6.7"

text \<open>
  What one call of \<open>update\<close> reads: the toggles, the planner's fields, the car and
  control messages, and the answers of the two external advisors in this tick
  (\<open>mtsc.target_speed(...)\<close>, and \<open>slc.desired_speed_limit\<close> after \<open>slc.update(...)\<close>).
\<close>

record inputs =
  force_stops :: bool
  force_standstill :: bool
  map_turn_speed_controller :: bool
  mtsc_curvature_check :: bool
  show_speed_limits :: bool
  speed_limit_controller :: bool
  speed_limit_changed_alert :: bool
  speed_limit_confirmation :: bool
  speed_limit_confirmation_lower :: bool
  speed_limit_confirmation_higher :: bool
  speed_limit_controller_override_manual :: bool
  speed_limit_controller_override_set_speed :: bool
  vision_turn_controller :: bool
  turn_aggressiveness :: real
  stop_light_detected :: bool
  model_length :: real
  tracking_lead :: bool
  road_curvature :: real
  planner_v_cruise :: real
  upcoming_curve_dist :: real
  upcoming_curvature :: real
  enabled :: bool
  vCruiseCluster :: real
  standstill :: bool
  gasPressed :: bool
  vEgoCluster :: real
  aEgo :: real
  longActive :: bool
  accelPressed :: bool
  decelPressed :: bool
  mtsc_target_speed :: real
  slc_desired_speed_limit :: real

text \<open>
  The fields of a FrogPilotVCruise. \<open>SLCConfirmed\<close> is the flag of that name in
  \<open>params_memory\<close>, which \<open>update\<close> reads and removes.
\<close>

record vcruise =
  forcing_stop :: bool
  override_force_stop :: bool
  override_slc :: bool
  speed_limit_changed :: bool
  force_stop_timer :: real
  override_force_stop_timer :: real
  speed_limit_timer :: real
  mtsc_target :: real
  slc_target :: real
  vtsc_target :: real
  overridden_speed :: real
  previous_speed_limit :: real
  tracked_model_length :: real
  turn_lat_acc_threshold :: real
  vtsc_target_prev :: real
  MAX_DECEL :: real
  MAX_JERK :: real
  LOW_LAT_ACC :: real
  HIGH_LAT_ACC :: real
  LOOKAHEAD_DIST :: real
  current_decel :: real
  turn_smoothing_alpha_chauffeur :: real
  reaccel_alpha_chauffeur :: real
  SLCConfirmed :: bool

definition vcruise_init :: vcruise where
  "vcruise_init =
     \<lparr>forcing_stop = False, override_force_stop = False, override_slc = False,
      speed_limit_changed = False, force_stop_timer = 0, override_force_stop_timer = 0,
      speed_limit_timer = 0, mtsc_target = 0, slc_target = 0, vtsc_target = 0,
      overridden_speed = 0, previous_speed_limit = 0, tracked_model_length = 0,
      turn_lat_acc_threshold = 0.3, vtsc_target_prev = 0.0, MAX_DECEL = 2.0, MAX_JERK = 1.0,
      LOW_LAT_ACC = 0.20, HIGH_LAT_ACC = 0.40, LOOKAHEAD_DIST = 150.0, current_decel = 0.0,
      turn_smoothing_alpha_chauffeur = 0.3, reaccel_alpha_chauffeur = 0.2,
      SLCConfirmed = False\<rparr>"

text \<open>\<open>math.exp\<close> cannot overflow where this is called (\<open>v_ego > CRUISING_SPEED\<close>).\<close>

definition nonlinear_lat_accel :: "ext_consts \<Rightarrow> real \<Rightarrow> real \<Rightarrow> real" where
  "nonlinear_lat_accel C v_ego_ms turn_aggr =
     (let v_ego_mph = v_ego_ms * MS_TO_MPH C;
          base = 1.7;
          span = 1.9;
          center = 45.0;
          k = 0.14;
          lat_acc = base + span / (1.0 + exp (- k * (v_ego_mph - center)));
          lat_acc' = min lat_acc 3.2
      in lat_acc' * turn_aggr)"

subsection \<open>Force stop: debounce and override\<close>

text \<open>The first block of \<open>update\<close>; the result carries \<open>force_stop_enabled\<close>.\<close>

definition force_stop_logic :: "ext_consts \<Rightarrow> vcruise \<Rightarrow> inputs \<Rightarrow> vcruise \<times> bool" where
  "force_stop_logic C s inp =
     (let force_stop = (force_stops inp \<and> stop_light_detected inp \<and> enabled inp);
          force_stop = (force_stop \<and> model_length inp < 100);
          force_stop = (force_stop \<and> override_force_stop_timer s \<le> 0);
          s1 = s\<lparr>force_stop_timer := (if force_stop then force_stop_timer s + DT_MDL C else 0)\<rparr>;
          force_stop_enabled = (force_stop_timer s1 \<ge> 1);
          s2 = s1\<lparr>override_force_stop :=
                    (override_force_stop s1
                     \<or> ((\<not> force_standstill inp \<and> standstill inp \<and> tracking_lead inp)
                         \<or> gasPressed inp \<or> accelPressed inp))\<rparr>;
          s3 = s2\<lparr>override_force_stop := (override_force_stop s2 \<and> force_stop_enabled)\<rparr>;
          s4 = (if override_force_stop s3 then s3\<lparr>override_force_stop_timer := 10\<rparr>
                else if override_force_stop_timer s3 > 0
                then s3\<lparr>override_force_stop_timer := override_force_stop_timer s3 - DT_MDL C\<rparr>
                else s3)
      in (s4, force_stop_enabled))"

subsection \<open>Map turn speed controller\<close>

text \<open>
  \<open>(1 / road_curvature) ** 0.5 < v_ego\<close> raises ZeroDivisionError for a curvature of
  zero, and TypeError for a negative one (the power is a complex number, which has no
  order).
\<close>

definition mtsc_update ::
  "ext_consts \<Rightarrow> vcruise \<Rightarrow> inputs \<Rightarrow> real \<Rightarrow> real \<Rightarrow> error + vcruise" where
  "mtsc_update C s inp v_cruise v_ego =
     (if map_turn_speed_controller inp \<and> v_ego > CRUISING_SPEED \<and> longActive inp then
        (let mtsc_active = (mtsc_target s < v_cruise);
             s1 = s\<lparr>mtsc_target := clip (mtsc_target_speed inp) CRUISING_SPEED v_cruise\<rparr>
         in if road_curvature inp = 0 then Inl ZeroDivisionError
            else if road_curvature inp < 0 then Inl TypeError
            else
              (let curve_detected = (sqrt (1 / road_curvature inp) < v_ego);
                   s2 = (if curve_detected \<and> mtsc_active
                         then s1\<lparr>mtsc_target := planner_v_cruise inp\<rparr>
                         else if \<not> curve_detected \<and> mtsc_curvature_check inp
                         then s1\<lparr>mtsc_target := v_cruise\<rparr>
                         else s1)
               in Inr (if mtsc_target s2 = CRUISING_SPEED then s2\<lparr>mtsc_target := v_cruise\<rparr>
                       else s2)))
      else Inr (s\<lparr>mtsc_target := (if v_cruise \<noteq> V_CRUISE_UNSET C then v_cruise else 0)\<rparr>))"

subsection \<open>Speed limit controller and its confirmation\<close>

text \<open>
  The confirmation state machine (the block under "user-confirmation logic").
  \<open>unconfirmed_slc_target\<close> is the advisor's desired limit of this tick.
\<close>

definition slc_confirmation :: "ext_consts \<Rightarrow> vcruise \<Rightarrow> inputs \<Rightarrow> real \<Rightarrow> vcruise" where
  "slc_confirmation C s inp unconfirmed_slc_target =
     (let s1 = s\<lparr>speed_limit_changed :=
                   (\<bar>slc_target s - unconfirmed_slc_target\<bar> > 1
                    \<and> slc_target s \<noteq> 0 \<and> unconfirmed_slc_target > 1)\<rparr>;
          speed_limit_accepted =
            (speed_limit_changed s1
             \<and> ((accelPressed inp \<and> longActive inp) \<or> SLCConfirmed s1));
          speed_limit_denied =
            (speed_limit_changed s1
             \<and> ((decelPressed inp \<and> longActive inp) \<or> speed_limit_timer s1 \<ge> 30));
          speed_limit_decreased =
            (speed_limit_changed s1 \<and> (slc_target s1 - unconfirmed_slc_target) > 1);
          speed_limit_increased =
            (speed_limit_changed s1 \<and> (unconfirmed_slc_target - slc_target s1) > 1);
          s2 = (if speed_limit_accepted then
                  s1\<lparr>slc_target := unconfirmed_slc_target, speed_limit_changed := False,
                      SLCConfirmed := False\<rparr>
                else if speed_limit_denied then
                  s1\<lparr>speed_limit_changed := False\<rparr>
                else if speed_limit_decreased \<and> \<not> speed_limit_confirmation_lower inp then
                  s1\<lparr>slc_target := unconfirmed_slc_target, speed_limit_changed := False\<rparr>
                else if speed_limit_increased \<and> \<not> speed_limit_confirmation_higher inp then
                  s1\<lparr>slc_target := unconfirmed_slc_target, speed_limit_changed := False\<rparr>
                else s1)
      in if speed_limit_changed s2
         then s2\<lparr>speed_limit_timer := speed_limit_timer s2 + DT_MDL C\<rparr>
         else s2\<lparr>speed_limit_timer := 0\<rparr>)"

definition slc_update ::
  "ext_consts \<Rightarrow> vcruise \<Rightarrow> inputs \<Rightarrow> real \<Rightarrow> real \<Rightarrow> real \<Rightarrow> real \<Rightarrow> vcruise" where
  "slc_update C s inp v_cruise v_ego v_cruise_cluster v_ego_cluster =
     (if show_speed_limits inp \<or> speed_limit_controller inp then
        (let unconfirmed_slc_target = slc_desired_speed_limit inp;
             s1 = (if (speed_limit_changed_alert inp \<or> speed_limit_confirmation inp)
                      \<and> slc_target s \<noteq> 0
                   then slc_confirmation C s inp unconfirmed_slc_target
                   else s\<lparr>slc_target := unconfirmed_slc_target\<rparr>)
         in if speed_limit_controller inp then
              (let s2 = s1\<lparr>override_slc := (overridden_speed s1 > slc_target s1)\<rparr>;
                   s3 = s2\<lparr>override_slc :=
                             (override_slc s2 \<or> (gasPressed inp \<and> v_ego > slc_target s2))\<rparr>;
                   s4 = s3\<lparr>override_slc := (override_slc s3 \<and> enabled inp)\<rparr>
               in if override_slc s4 then
                    (if speed_limit_controller_override_manual inp then
                       (let s5 = (if gasPressed inp
                                  then s4\<lparr>overridden_speed := v_ego_cluster\<rparr> else s4)
                        in s5\<lparr>overridden_speed :=
                                clip (overridden_speed s5) (slc_target s5) v_cruise\<rparr>)
                     else if speed_limit_controller_override_set_speed inp then
                       s4\<lparr>overridden_speed := v_cruise_cluster\<rparr>
                     else s4)
                  else s4\<lparr>overridden_speed := 0\<rparr>)
            else s1\<lparr>override_slc := False, overridden_speed := 0\<rparr>)
      else s\<lparr>slc_target := 0\<rparr>)"

subsection \<open>Vision turn speed controller\<close>

text \<open>
  The speed the curvature allows. \<open>lat_acc\<close> is assigned only when the curvature is
  not below \<open>1e-9\<close>; the result carries it as an option. \<open>math.sqrt\<close> raises ValueError
  on a negative argument.
\<close>

definition vtsc_curvature_speed ::
  "ext_consts \<Rightarrow> inputs \<Rightarrow> real \<Rightarrow> real \<Rightarrow> error + (real option \<times> real)" where
  "vtsc_curvature_speed C inp v_cruise v_ego =
     (let c = \<bar>road_curvature inp\<bar>
      in if c < 0.000000001 then Inr (None, v_cruise)
         else
           (let lat_acc = nonlinear_lat_accel C v_ego (turn_aggressiveness inp)
            in if lat_acc / c < 0 then Inl ValueError
               else Inr (Some lat_acc, sqrt (lat_acc / c))))"

text \<open>The multi-stage smoothing: the target before look-ahead and jerk limiting.\<close>

definition vtsc_smoothed_target :: "vcruise \<Rightarrow> inputs \<Rightarrow> real \<Rightarrow> real \<Rightarrow> real \<Rightarrow> real" where
  "vtsc_smoothed_target s inp v_cruise v_ego v_curvature_ms =
     (let c = \<bar>road_curvature inp\<bar>;
          current_lat_acc = c * (v_ego ^ 2)
      in if current_lat_acc > LOW_LAT_ACC s then
           (let alpha = (if current_lat_acc < HIGH_LAT_ACC s then 0.1
                         else turn_smoothing_alpha_chauffeur s);
                target_speed_unsmoothed = v_curvature_ms
            in alpha * vtsc_target_prev s + (1.0 - alpha) * target_speed_unsmoothed)
         else
           (let alpha = reaccel_alpha_chauffeur s
            in alpha * vtsc_target_prev s + (1.0 - alpha) * v_cruise))"

text \<open>
  The look-ahead blend. It reads \<open>lat_acc\<close>, which is unbound when the curvature was
  below \<open>1e-9\<close>: UnboundLocalError.
\<close>

definition vtsc_lookahead :: "vcruise \<Rightarrow> inputs \<Rightarrow> real option \<Rightarrow> real \<Rightarrow> error + real" where
  "vtsc_lookahead s inp lat_acc v_target =
     (let dist_to_curve = upcoming_curve_dist inp;
          next_curv = upcoming_curvature inp
      in if dist_to_curve < LOOKAHEAD_DIST s \<and> next_curv > 0.0005 then
           (case lat_acc of
              None \<Rightarrow> Inl UnboundLocalError
            | Some la \<Rightarrow>
                if la / next_curv < 0 then Inl ValueError
                else if LOOKAHEAD_DIST s = 0 then Inl ZeroDivisionError
                else
                  (let v_curve_ahead = sqrt (la / next_curv);
                       fraction = max 0.0 (1.0 - dist_to_curve / LOOKAHEAD_DIST s);
                       pre_slow_target = v_curve_ahead + fraction * (v_curve_ahead - v_target)
                   in Inr (min v_target pre_slow_target)))
         else Inr v_target)"

text \<open>The jerk-limited deceleration tracker and the controller's output.\<close>

definition vtsc_jerk_limit :: "ext_consts \<Rightarrow> vcruise \<Rightarrow> real \<Rightarrow> real \<Rightarrow> vcruise" where
  "vtsc_jerk_limit C s v_ego v_target =
     (let desired_decel = (if v_target < v_ego then clip (v_ego - v_target) 0.0 (MAX_DECEL s)
                           else 0.0);
          decel_diff = desired_decel - current_decel s;
          max_delta = MAX_JERK s * DT_MDL C;
          s1 = (if decel_diff > max_delta
                then s\<lparr>current_decel := current_decel s + max_delta\<rparr>
                else if decel_diff < - max_delta
                then s\<lparr>current_decel := current_decel s - max_delta\<rparr>
                else s\<lparr>current_decel := desired_decel\<rparr>);
          jerk_limited_target = v_ego - current_decel s1 * DT_MDL C;
          jerk_limited_target = min jerk_limited_target v_target;
          s2 = s1\<lparr>vtsc_target := jerk_limited_target\<rparr>
      in s2\<lparr>vtsc_target_prev := vtsc_target s2\<rparr>)"

definition vtsc_update ::
  "ext_consts \<Rightarrow> vcruise \<Rightarrow> inputs \<Rightarrow> real \<Rightarrow> real \<Rightarrow> error + vcruise" where
  "vtsc_update C s inp v_cruise v_ego =
     (if vision_turn_controller inp \<and> v_ego > CRUISING_SPEED \<and> longActive inp then
        (case vtsc_curvature_speed C inp v_cruise v_ego of
           Inl e \<Rightarrow> Inl e
         | Inr (lat_acc, v_curvature_ms) \<Rightarrow>
             (let v_curvature_ms = clip v_curvature_ms CRUISING_SPEED v_cruise;
                  v_target = vtsc_smoothed_target s inp v_cruise v_ego v_curvature_ms
              in case vtsc_lookahead s inp lat_acc v_target of
                   Inl e \<Rightarrow> Inl e
                 | Inr v_target \<Rightarrow> Inr (vtsc_jerk_limit C s v_ego v_target)))
      else
        (let s1 = s\<lparr>vtsc_target := v_cruise\<rparr>;
             s2 = s1\<lparr>vtsc_target_prev := vtsc_target s1\<rparr>
         in Inr (s2\<lparr>current_decel := 0.0\<rparr>)))"

subsection \<open>Force standstill, forced stop and the final arbitration\<close>

text \<open>
  \<open>//\<close> is Python's floor division; on floats it raises ZeroDivisionError for a zero
  divisor. The result is the new state and the commanded cruise speed.
\<close>

definition final_target ::
  "ext_consts \<Rightarrow> vcruise \<Rightarrow> inputs \<Rightarrow> bool \<Rightarrow> real \<Rightarrow> real \<Rightarrow> real \<Rightarrow> error + (vcruise \<times> real)" where
  "final_target C s inp force_stop_enabled v_cruise v_ego v_ego_diff =
     (if force_standstill inp \<and> standstill inp \<and> \<not> override_force_stop s \<and> enabled inp then
        Inr (s\<lparr>forcing_stop := True\<rparr>, - 1)
      else if force_stop_enabled \<and> \<not> override_force_stop s then
        (let s1 = s\<lparr>forcing_stop := (forcing_stop s \<or> \<not> standstill inp)\<rparr>;
             s2 = s1\<lparr>tracked_model_length :=
                       max (tracked_model_length s1 - v_ego * DT_MDL C) 0\<rparr>
         in if PLANNER_TIME C = 0 then Inl ZeroDivisionError
            else Inr (s2, min (of_int \<lfloor>tracked_model_length s2 / PLANNER_TIME C\<rfloor>) v_cruise))
      else
        (let s1 = (if \<not> stop_light_detected inp then s\<lparr>override_force_stop := False\<rparr> else s);
             s2 = s1\<lparr>forcing_stop := False\<rparr>;
             s3 = s2\<lparr>tracked_model_length := model_length inp\<rparr>;
             targets = (if speed_limit_controller inp
                        then [mtsc_target s3,
                              max (overridden_speed s3) (slc_target s3) - v_ego_diff,
                              vtsc_target s3]
                        else [mtsc_target s3, vtsc_target s3])
         in Inr (s3, np_min (map (\<lambda>t. if t > CRUISING_SPEED then t else v_cruise) targets))))"

subsection \<open>update\<close>

definition vcruise_update ::
  "ext_consts \<Rightarrow> vcruise \<Rightarrow> inputs \<Rightarrow> real \<Rightarrow> real \<Rightarrow> error + (vcruise \<times> real)" where
  "vcruise_update C s inp v_cruise v_ego =
     (let (s1, force_stop_enabled) = force_stop_logic C s inp;
          v_cruise_cluster = max (vCruiseCluster inp * KPH_TO_MS C) v_cruise;
          v_cruise_diff = v_cruise_cluster - v_cruise;
          v_ego_cluster = max (vEgoCluster inp) v_ego;
          v_ego_diff = v_ego_cluster - v_ego
      in case mtsc_update C s1 inp v_cruise v_ego of
           Inl e \<Rightarrow> Inl e
         | Inr s2 \<Rightarrow>
             (let s3 = slc_update C s2 inp v_cruise v_ego v_cruise_cluster v_ego_cluster
              in case vtsc_update C s3 inp v_cruise v_ego of
                   Inl e \<Rightarrow> Inl e
                 | Inr s4 \<Rightarrow>
                     (case final_target C s4 inp force_stop_enabled v_cruise v_ego v_ego_diff of
                        Inl e \<Rightarrow> Inl e
                      | Inr (s5, v_cruise') \<Rightarrow>
                          Inr (s5\<lparr>mtsc_target := mtsc_target s5 + v_cruise_diff,
                                   vtsc_target := vtsc_target s5 + v_cruise_diff\<rparr>,
                               v_cruise'))))"

text \<open>
  The driver calls \<open>update\<close> once per tick; \<open>ticks\<close> is \<open>n\<close> calls in a row with the same
  inputs and the same requested cruise and ego speed.
\<close>

fun ticks :: "nat \<Rightarrow> ext_consts \<Rightarrow> inputs \<Rightarrow> real \<Rightarrow> real \<Rightarrow> vcruise \<Rightarrow> error + vcruise" where
  "ticks 0 C inp v_cruise v_ego s = Inr s"
| "ticks (Suc n) C inp v_cruise v_ego s =
     (case vcruise_update C s inp v_cruise v_ego of
        Inl e \<Rightarrow> Inl e
      | Inr (s', _) \<Rightarrow> ticks n C inp v_cruise v_ego s')"

text \<open>
  The forced-stop branch of the final block is the one taken: the stop trigger has been
  held for at least 1 s (\<open>force_stop_enabled\<close>), no override is in force, and the hard
  standstill branch before it does not apply.
\<close>

definition forced_stop_active :: "ext_consts \<Rightarrow> vcruise \<Rightarrow> inputs \<Rightarrow> bool" where
  "forced_stop_active C s inp =
     (case force_stop_logic C s inp of
        (s1, force_stop_enabled) \<Rightarrow>
          force_stop_enabled \<and> \<not> override_force_stop s1
          \<and> \<not> (force_standstill inp \<and> standstill inp \<and> enabled inp))"

subsection \<open>Concrete constants and inputs\<close>

text \<open>
  Values for the constants that are not under src (a 20 Hz tick, a planning time of
  10 s, the unset cruise sentinel 255, km/h to m/s and m/s to mph), and input messages
  for the examples: everything off, a held stop trigger, a pending speed limit of 25
  with both confirmations required, and the vision turn controller on a straight road.
\<close>

definition example_consts :: ext_consts where
  "example_consts = \<lparr>DT_MDL = 0.05, PLANNER_TIME = 10, V_CRUISE_UNSET = 255,
                      KPH_TO_MS = 1 / 3.6, MS_TO_MPH = 2.23694\<rparr>"

definition inputs_off :: inputs where
  "inputs_off =
     \<lparr>force_stops = False, force_standstill = False, map_turn_speed_controller = False,
      mtsc_curvature_check = False, show_speed_limits = False, speed_limit_controller = False,
      speed_limit_changed_alert = False, speed_limit_confirmation = False,
      speed_limit_confirmation_lower = False, speed_limit_confirmation_higher = False,
      speed_limit_controller_override_manual = False,
      speed_limit_controller_override_set_speed = False, vision_turn_controller = False,
      turn_aggressiveness = 1, stop_light_detected = False, model_length = 200,
      tracking_lead = False, road_curvature = 0, planner_v_cruise = 0,
      upcoming_curve_dist = 1000, upcoming_curvature = 0, enabled = True, vCruiseCluster = 0,
      standstill = False, gasPressed = False, vEgoCluster = 0, aEgo = 0, longActive = True,
      accelPressed = False, decelPressed = False, mtsc_target_speed = 0,
      slc_desired_speed_limit = 0\<rparr>"

definition inputs_stop :: inputs where
  "inputs_stop = inputs_off\<lparr>force_stops := True, stop_light_detected := True,
                             model_length := 50\<rparr>"

definition inputs_limit :: inputs where
  "inputs_limit = inputs_off\<lparr>speed_limit_controller := True, speed_limit_confirmation := True,
                              speed_limit_confirmation_lower := True,
                              speed_limit_confirmation_higher := True,
                              slc_desired_speed_limit := 25\<rparr>"

definition inputs_straight :: inputs where
  "inputs_straight = inputs_off\<lparr>vision_turn_controller := True\<rparr>"

text \<open>
  An arbiter whose stop trigger has already been held for 1 s, with \<open>L\<close> metres of
  tracked model length left.
\<close>

definition state_holding :: "real \<Rightarrow> vcruise" where
  "state_holding L = vcruise_init\<lparr>force_stop_timer := 1, tracked_model_length := L\<rparr>"

section \<open>Rounding to binary64\<close>

text \<open>
  Rounding to the nearest integer fixes the integers, does not cross an integer, and is
  within one half of its argument; a value within one half of an even integer rounds
  to it.
\<close>

lemma rne_of_int: "rne (of_int n) = n"
  by (simp add: rne_def)

lemma rne_le: "q \<le> of_int n \<Longrightarrow> rne q \<le> n"
  unfolding rne_def Let_def by (auto simp: floor_le_iff)

lemma rne_ge: "of_int n \<le> q \<Longrightarrow> n \<le> rne q"
  unfolding rne_def Let_def by (auto simp: le_floor_iff) linarith+

lemma rne_near_even:
  assumes "even n" and "\<bar>q - of_int n\<bar> \<le> 1 / 2"
  shows "rne q = n"
proof (cases "of_int n \<le> q")
  case True
  then have "\<lfloor>q\<rfloor> = n" using assms(2) by (intro floor_unique) auto
  then show ?thesis using assms True by (auto simp: rne_def Let_def)
next
  case False
  then have "\<lfloor>q\<rfloor> = n - 1" using assms(2) by (intro floor_unique) auto
  then show ?thesis using assms False by (auto simp: rne_def Let_def)
qed

lemma rne_error: "\<bar>of_int (rne q) - q\<bar> \<le> 1 / 2"
  unfolding rne_def Let_def by auto

text \<open>
  The doubles around \<open>x\<close> are the multiples of \<open>2\<close> to the power \<open>\<lfloor>log\<^sub>2 |x|\<rfloor> - 52\<close>,
  and a double of larger magnitude is one of them. So rounding does not cross a double:
  a bound that is a double is still a bound after rounding, and doubles round to
  themselves.
\<close>

lemma two_powi_less_cancel: "(2::real) powi a < 2 powi b \<Longrightarrow> a < b"
  using power_int_increasing [of b a "2::real"] by (cases "a < b") auto

lemma two_powi_pos: "0 < (2::real) powi k"
  by (simp add: zero_less_power_int)

lemma two_powr_int: "(2::real) powr of_int k = 2 powi k"
  by (simp add: powr_real_of_int')

lemma f64_binade:
  assumes "x \<noteq> 0"
  shows "2 powi \<lfloor>log 2 \<bar>x\<bar>\<rfloor> \<le> \<bar>x\<bar>" and "\<bar>x\<bar> < 2 powi (\<lfloor>log 2 \<bar>x\<bar>\<rfloor> + 1)"
proof -
  have p: "0 < \<bar>x\<bar>" using assms by simp
  have "2 powr of_int \<lfloor>log 2 \<bar>x\<bar>\<rfloor> \<le> \<bar>x\<bar>"
    by (subst le_log_iff [symmetric]) (use p in auto)
  then show "2 powi \<lfloor>log 2 \<bar>x\<bar>\<rfloor> \<le> \<bar>x\<bar>" by (simp add: two_powr_int)
  have "log 2 \<bar>x\<bar> < of_int (\<lfloor>log 2 \<bar>x\<bar>\<rfloor> + 1)" by linarith
  then have "\<bar>x\<bar> < 2 powr of_int (\<lfloor>log 2 \<bar>x\<bar>\<rfloor> + 1)"
    by (subst log_less_iff [symmetric]) (use p in auto)
  then show "\<bar>x\<bar> < 2 powi (\<lfloor>log 2 \<bar>x\<bar>\<rfloor> + 1)" by (simp only: two_powr_int)
qed

lemma floor_log_unique:
  assumes "2 powi e \<le> \<bar>x\<bar>" and "\<bar>x\<bar> < 2 powi (e + 1)"
  shows "\<lfloor>log 2 \<bar>x\<bar>\<rfloor> = e"
proof -
  have p: "0 < \<bar>x\<bar>" using assms(1) two_powi_pos [of e] by linarith
  have 1: "of_int e \<le> log 2 \<bar>x\<bar>"
    using assms(1) p by (simp add: le_log_iff two_powr_int)
  have "\<bar>x\<bar> < 2 powr of_int (e + 1)" using assms(2) by (simp only: two_powr_int)
  then have 2: "log 2 \<bar>x\<bar> < of_int (e + 1)" using p by (simp add: log_less_iff)
  show ?thesis using 1 2 by (intro floor_unique) auto
qed


lemma f64_unfold:
  "x \<noteq> 0 \<Longrightarrow> f64 x = of_int (rne (x / 2 powi (\<lfloor>log 2 \<bar>x\<bar>\<rfloor> - 52)))
                        * 2 powi (\<lfloor>log 2 \<bar>x\<bar>\<rfloor> - 52)"
  by (simp add: f64_def f64_ulp_exp_def)

lemma is_f64_grid:
  assumes "is_f64 c" and "2 powi e \<le> \<bar>c\<bar>"
  shows "\<exists>n::int. c = of_int n * 2 powi (e - 52)"
proof -
  obtain m k :: int where m: "\<bar>m\<bar> < 2 ^ 53" and c: "c = of_int m * 2 powi k"
    using assms(1) unfolding is_f64_def by blast
  have "\<bar>c\<bar> = of_int \<bar>m\<bar> * 2 powi k"
    using two_powi_pos [of k] by (simp add: c abs_mult)
  also have "\<dots> < 2 ^ 53 * 2 powi k"
  proof -
    have "(of_int \<bar>m\<bar> :: real) < of_int (2 ^ 53)" using m by (simp only: of_int_less_iff)
    then show ?thesis using two_powi_pos [of k] by simp
  qed
  also have "\<dots> = 2 powi (53 + k)"
    by (simp add: power_int_add)
  finally have "(2::real) powi e < 2 powi (53 + k)" using assms(2) by simp
  then have "e < 53 + k" by (rule two_powi_less_cancel)
  then have j: "0 \<le> k - (e - 52)" by simp
  have "(2::real) powi k = 2 powi ((k - (e - 52)) + (e - 52))" by simp
  also have "\<dots> = 2 powi (k - (e - 52)) * 2 powi (e - 52)"
    by (rule power_int_add) simp
  also have "(2::real) powi (k - (e - 52)) = 2 ^ nat (k - (e - 52))"
    using j by (simp add: power_int_def)
  finally have "c = of_int (m * 2 ^ nat (k - (e - 52))) * 2 powi (e - 52)"
    by (simp add: c)
  then show ?thesis by blast
qed

lemma f64_le:
  assumes "is_f64 c" and "x \<le> c"
  shows "f64 x \<le> c"
proof (cases "x = 0")
  case True
  then show ?thesis using assms(2) by (simp add: f64_def)
next
  case False
  define e where "e = \<lfloor>log 2 \<bar>x\<bar>\<rfloor>"
  define u :: real where "u = 2 powi (e - 52)"
  have u: "0 < u" by (simp add: u_def two_powi_pos)
  have fx: "f64 x = of_int (rne (x / u)) * u"
    using f64_unfold [OF False] by (simp add: e_def u_def)
  have lo: "2 powi e \<le> \<bar>x\<bar>" using f64_binade(1) [OF False] by (simp add: e_def)
  have pe: "(2::real) powi e = 2 ^ 52 * u"
  proof -
    have "(2::real) powi e = 2 powi (52 + (e - 52))" by simp
    also have "\<dots> = 2 powi 52 * 2 powi (e - 52)" by (rule power_int_add) simp
    finally show ?thesis by (simp add: u_def)
  qed
  show ?thesis
  proof (cases "2 powi e \<le> \<bar>c\<bar>")
    case True
    then obtain n :: int where n: "c = of_int n * u"
      using is_f64_grid [OF assms(1)] unfolding u_def by blast
    have "x / u \<le> of_int n" using assms(2) u by (simp add: n field_simps)
    then have "rne (x / u) \<le> n" by (rule rne_le)
    then have "of_int (rne (x / u)) * u \<le> of_int n * u"
      using u by simp
    then show ?thesis by (simp add: fx n)
  next
    case False
    then have c: "\<bar>c\<bar> < 2 ^ 52 * u" by (simp add: pe)
    have xl: "2 ^ 52 * u \<le> \<bar>x\<bar>" using lo by (simp add: pe)
    have neg: "x \<le> - (2 ^ 52 * u)" using c xl assms(2) by linarith
    have "x / u \<le> of_int (- (2 ^ 52))" using neg u by (simp add: field_simps)
    then have "rne (x / u) \<le> - (2 ^ 52)" by (rule rne_le)
    then have "(of_int (rne (x / u)) :: real) \<le> of_int (- (2 ^ 52))"
      by (simp only: of_int_le_iff)
    then have "of_int (rne (x / u)) * u \<le> of_int (- (2 ^ 52)) * u"
      using u by (simp only: mult_le_cancel_right_pos)
    then show ?thesis using c by (simp add: fx)
  qed
qed

lemma f64_ge:
  assumes "is_f64 c" and "c \<le> x"
  shows "c \<le> f64 x"
proof (cases "x = 0")
  case True
  then show ?thesis using assms(2) by (simp add: f64_def)
next
  case False
  define e where "e = \<lfloor>log 2 \<bar>x\<bar>\<rfloor>"
  define u :: real where "u = 2 powi (e - 52)"
  have u: "0 < u" by (simp add: u_def two_powi_pos)
  have fx: "f64 x = of_int (rne (x / u)) * u"
    using f64_unfold [OF False] by (simp add: e_def u_def)
  have lo: "2 powi e \<le> \<bar>x\<bar>" using f64_binade(1) [OF False] by (simp add: e_def)
  have pe: "(2::real) powi e = 2 ^ 52 * u"
  proof -
    have "(2::real) powi e = 2 powi (52 + (e - 52))" by simp
    also have "\<dots> = 2 powi 52 * 2 powi (e - 52)" by (rule power_int_add) simp
    finally show ?thesis by (simp add: u_def)
  qed
  show ?thesis
  proof (cases "2 powi e \<le> \<bar>c\<bar>")
    case True
    then obtain n :: int where n: "c = of_int n * u"
      using is_f64_grid [OF assms(1)] unfolding u_def by blast
    have "of_int n \<le> x / u" using assms(2) u by (simp add: n field_simps)
    then have "n \<le> rne (x / u)" by (rule rne_ge)
    then have "of_int n * u \<le> of_int (rne (x / u)) * u"
      using u by simp
    then show ?thesis by (simp add: fx n)
  next
    case False
    then have c: "\<bar>c\<bar> < 2 ^ 52 * u" by (simp add: pe)
    have xl: "2 ^ 52 * u \<le> \<bar>x\<bar>" using lo by (simp add: pe)
    have pos: "2 ^ 52 * u \<le> x" using c xl assms(2) by linarith
    have "of_int (2 ^ 52) \<le> x / u" using pos u by (simp add: field_simps)
    then have "2 ^ 52 \<le> rne (x / u)" by (rule rne_ge)
    then have "(of_int (2 ^ 52) :: real) \<le> of_int (rne (x / u))"
      by (simp only: of_int_le_iff)
    then have "of_int (2 ^ 52) * u \<le> of_int (rne (x / u)) * u"
      using u by (simp only: mult_le_cancel_right_pos)
    then show ?thesis using c by (simp add: fx)
  qed
qed

lemma f64_exact: "is_f64 x \<Longrightarrow> f64 x = x"
  using f64_le [of x x] f64_ge [of x x] by simp

lemma f64_near_even:
  assumes "2 powi e \<le> \<bar>x\<bar>" and "\<bar>x\<bar> < 2 powi (e + 1)" and "even n"
    and "\<bar>x / 2 powi (e - 52) - of_int n\<bar> \<le> 1 / 2"
  shows "f64 x = of_int n * 2 powi (e - 52)"
proof -
  have x: "x \<noteq> 0" using assms(1) two_powi_pos [of e] by (cases "x = 0") simp_all
  have e: "\<lfloor>log 2 \<bar>x\<bar>\<rfloor> = e" using assms(1,2) by (rule floor_log_unique)
  show ?thesis
    using rne_near_even [OF assms(3,4)] by (simp add: f64_unfold [OF x] e)
qed

lemma f64_error:
  assumes "x \<noteq> 0"
  shows "\<bar>f64 x - x\<bar> \<le> 2 powi (\<lfloor>log 2 \<bar>x\<bar>\<rfloor> - 53)"
proof -
  define u :: real where "u = 2 powi (\<lfloor>log 2 \<bar>x\<bar>\<rfloor> - 52)"
  have u: "0 < u" by (simp add: u_def two_powi_pos)
  have "f64 x - x = (of_int (rne (x / u)) - x / u) * u"
    using u by (simp add: f64_unfold [OF assms] u_def field_simps)
  then have "\<bar>f64 x - x\<bar> = \<bar>of_int (rne (x / u)) - x / u\<bar> * u"
    using u by (simp add: abs_mult)
  also have "\<dots> \<le> 1 / 2 * u"
    using rne_error [of "x / u"] u by (simp only: mult_le_cancel_right_pos)
  also have "1 / 2 * u = 2 powi (\<lfloor>log 2 \<bar>x\<bar>\<rfloor> - 53)"
  proof -
    have "(2::real) powi (\<lfloor>log 2 \<bar>x\<bar>\<rfloor> - 52) = 2 powi ((\<lfloor>log 2 \<bar>x\<bar>\<rfloor> - 53) + 1)" by simp
    also have "\<dots> = 2 powi (\<lfloor>log 2 \<bar>x\<bar>\<rfloor> - 53) * 2" by (rule power_int_add_1) simp
    finally show ?thesis by (simp add: u_def)
  qed
  finally show ?thesis .
qed

text \<open>Integers and dyadic fractions below \<open>2\<^sup>5\<^sup>3\<close> are doubles, and so is every rounded value.\<close>

lemma is_f64_int: "\<bar>n\<bar> < 2 ^ 53 \<Longrightarrow> is_f64 (of_int n)"
  unfolding is_f64_def by (rule exI [of _ n], rule exI [of _ 0]) simp

lemma is_f64_dyadic: "\<bar>n\<bar> < 2 ^ 53 \<Longrightarrow> is_f64 (of_int n * 2 powi k)"
  unfolding is_f64_def by blast

lemma is_f64_consts: "is_f64 0" "is_f64 1" "is_f64 5" "is_f64 10000"
  using is_f64_int [of 0] is_f64_int [of 1] is_f64_int [of 5] is_f64_int [of 10000]
  by simp_all

lemma is_f64_f64: "is_f64 (f64 x)"
proof (cases "x = 0")
  case True
  then show ?thesis by (simp add: f64_def is_f64_consts)
next
  case False
  define e where "e = \<lfloor>log 2 \<bar>x\<bar>\<rfloor>"
  define u :: real where "u = 2 powi (e - 52)"
  define n where "n = rne (x / u)"
  have u: "0 < u" by (simp add: u_def two_powi_pos)
  have fx: "f64 x = of_int n * u"
    using f64_unfold [OF False] by (simp add: e_def u_def n_def)
  have hi: "\<bar>x\<bar> < 2 powi (e + 1)" using f64_binade(2) [OF False] by (simp add: e_def)
  have pe: "(2::real) powi (e + 1) = 2 ^ 53 * u"
  proof -
    have "e + 1 = 53 + (e - 52)" by simp
    then have "(2::real) powi (e + 1) = 2 powi (53 + (e - 52))" by (rule arg_cong)
    also have "\<dots> = 2 powi 53 * 2 powi (e - 52)" by (rule power_int_add) simp
    finally show ?thesis by (simp add: u_def)
  qed
  have b: "\<bar>x\<bar> < 2 ^ 53 * u" using hi by (simp add: pe)
  have "x / u \<le> of_int (2 ^ 53)" using b u by (simp add: field_simps)
  then have n1: "n \<le> 2 ^ 53" unfolding n_def by (rule rne_le)
  have "of_int (- (2 ^ 53)) \<le> x / u" using b u by (simp add: field_simps)
  then have n2: "- (2 ^ 53) \<le> n" unfolding n_def by (rule rne_ge)
  consider "\<bar>n\<bar> < 2 ^ 53" | "n = 2 ^ 53" | "n = - (2 ^ 53)" using n1 n2 by linarith
  then show ?thesis
  proof cases
    case 1
    then show ?thesis unfolding fx u_def by (rule is_f64_dyadic)
  next
    case 2
    have "(2::real) powi (e - 51) = 2 powi ((e - 52) + 1)" by simp
    also have "\<dots> = 2 powi (e - 52) * 2" by (rule power_int_add_1) simp
    finally have "f64 x = of_int (2 ^ 52) * 2 powi (e - 51)"
      by (simp add: fx 2 u_def)
    then show ?thesis using is_f64_dyadic [of "2 ^ 52" "e - 51"] by simp
  next
    case 3
    have "(2::real) powi (e - 51) = 2 powi ((e - 52) + 1)" by simp
    also have "\<dots> = 2 powi (e - 52) * 2" by (rule power_int_add_1) simp
    finally have "f64 x = of_int (- (2 ^ 52)) * 2 powi (e - 51)"
      by (simp add: fx 3 u_def)
    then show ?thesis using is_f64_dyadic [of "- (2 ^ 52)" "e - 51"] by simp
  qed
qed

text \<open>Evaluation of \<open>f64\<close> on numerals.\<close>

lemma f64_numeral: "(numeral w :: int) < 2 ^ 53 \<Longrightarrow> f64 (numeral w) = numeral w"
  using f64_exact [OF is_f64_int [of "numeral w"]] by simp

lemma f64_neg_numeral:
  "(numeral w :: int) < 2 ^ 53 \<Longrightarrow> f64 (- numeral w) = - numeral w"
  using f64_exact [OF is_f64_int [of "- numeral w"]] by simp

lemma f64_zero: "f64 0 = 0"
  by (simp add: f64_def)

lemma f64_one: "f64 1 = 1"
  by (simp add: f64_exact is_f64_consts)

lemma f64_numeral_half:
  "(numeral w :: int) < 2 ^ 53 \<Longrightarrow> f64 (numeral w / 2) = numeral w / 2"
  "(numeral w :: int) < 2 ^ 53 \<Longrightarrow> f64 (- (numeral w / 2)) = - (numeral w / 2)"
  using f64_exact [OF is_f64_dyadic [of "numeral w" "- 1"]]
    f64_exact [OF is_f64_dyadic [of "- numeral w" "- 1"]]
  by (simp_all add: power_int_minus field_simps)

lemma f64_numeral_quarter:
  "(numeral w :: int) < 2 ^ 53 \<Longrightarrow> f64 (numeral w / 4) = numeral w / 4"
  using f64_exact [OF is_f64_dyadic [of "numeral w" "- 2"]]
  by (simp_all add: power_int_minus field_simps)

lemma f64_half: "f64 (1 / 2) = 1 / 2"
  using f64_exact [OF is_f64_dyadic [of 1 "- 1"]] by (simp add: power_int_minus)

lemma np_exp_zero: "np_exp 0 = 1"
  by (simp add: np_exp_def f64_one)

lemmas f64_eval = f64_numeral f64_neg_numeral f64_zero f64_one f64_numeral_half
  f64_numeral_quarter f64_half np_exp_zero

text \<open>
  The rounded logistic value lies in \<open>[0, 1]\<close>. For \<open>-6384 < min_penalty \<le> 10000\<close> the
  difference \<open>10000 - min_penalty\<close> is below \<open>2\<^sup>1\<^sup>4\<close>, so its rounding is off by at most
  \<open>2\<^sup>-\<^sup>4\<^sup>0\<close>, half the spacing of the doubles at 10000, and a sum that exceeds 10000 by no
  more than that rounds to 10000 (a tie goes to the even significand of 10000).
\<close>

lemma np_exp_nonneg: "0 \<le> np_exp x"
  unfolding np_exp_def by (rule f64_ge) (simp_all add: is_f64_consts)

lemma logistic_f64_range:
  "0 \<le> f64 (1 / f64 (1 + np_exp x))" "f64 (1 / f64 (1 + np_exp x)) \<le> 1"
proof -
  have s: "1 \<le> f64 (1 + np_exp x)"
    by (rule f64_ge) (use np_exp_nonneg [of x] in \<open>simp_all add: is_f64_consts\<close>)
  show "0 \<le> f64 (1 / f64 (1 + np_exp x))"
    by (rule f64_ge) (use s in \<open>simp_all add: is_f64_consts\<close>)
  show "f64 (1 / f64 (1 + np_exp x)) \<le> 1"
    by (rule f64_le) (use s in \<open>simp_all add: is_f64_consts\<close>)
qed

lemma f64_sub_error:
  assumes "0 \<le> x" and "x < 16384"
  shows "f64 x \<le> x + 2 powi (- 40)"
proof (cases "x = 0")
  case True
  then show ?thesis by (simp add: f64_def)
next
  case False
  have lo: "2 powi \<lfloor>log 2 \<bar>x\<bar>\<rfloor> \<le> \<bar>x\<bar>" by (rule f64_binade(1) [OF False])
  have "\<bar>x\<bar> < 2 powi 14" using assms by simp
  then have "(2::real) powi \<lfloor>log 2 \<bar>x\<bar>\<rfloor> < 2 powi 14" using lo by linarith
  then have "\<lfloor>log 2 \<bar>x\<bar>\<rfloor> < 14" by (rule two_powi_less_cancel)
  then have "\<lfloor>log 2 \<bar>x\<bar>\<rfloor> - 53 \<le> - 40" by simp
  then have "(2::real) powi (\<lfloor>log 2 \<bar>x\<bar>\<rfloor> - 53) \<le> 2 powi (- 40)"
    by (rule power_int_increasing) simp
  then show ?thesis using f64_error [OF False] by linarith
qed

lemma f64_just_above_10000:
  assumes "10000 < y" and "y \<le> 10000 + 2 powi (- 40)"
  shows "f64 y = 10000"
proof -
  have 1: "2 powi 13 \<le> \<bar>y\<bar>" using assms(1) by simp
  have 2: "\<bar>y\<bar> < 2 powi (13 + 1)" using assms by simp
  have 3: "even (10000 * 2 ^ 39 :: int)" by simp
  have 4: "\<bar>y / 2 powi (13 - 52) - of_int (10000 * 2 ^ 39)\<bar> \<le> 1 / 2"
    using assms by (simp add: power_int_minus field_simps)
  show ?thesis
    using f64_near_even [OF 1 2 3 4] by (simp add: power_int_minus)
qed

lemma penalty_f64_range:
  assumes "is_f64 mn" and "- 6384 < mn" and "mn \<le> 10000" and "0 \<le> l" and "l \<le> 1"
  shows "mn \<le> f64 (mn + f64 (l * f64 (10000 - mn)))"
    and "f64 (mn + f64 (l * f64 (10000 - mn))) \<le> 10000"
proof -
  define d where "d = f64 (10000 - mn)"
  define p where "p = f64 (l * d)"
  have d0: "0 \<le> d" unfolding d_def
    by (rule f64_ge) (use assms in \<open>simp_all add: is_f64_consts\<close>)
  have d1: "d \<le> 10000 - mn + 2 powi (- 40)" unfolding d_def
    by (rule f64_sub_error) (use assms in simp_all)
  have p0: "0 \<le> p" unfolding p_def
    by (rule f64_ge) (use assms d0 in \<open>simp_all add: is_f64_consts\<close>)
  have "l * d \<le> 1 * d" using assms(5) d0 by (rule mult_right_mono)
  then have p1: "p \<le> d" unfolding p_def
    by (intro f64_le) (simp_all add: d_def is_f64_f64)
  show "mn \<le> f64 (mn + f64 (l * f64 (10000 - mn)))"
    unfolding d_def [symmetric] p_def [symmetric]
    by (rule f64_ge) (use assms p0 in simp_all)
  have y: "mn + p \<le> 10000 + 2 powi (- 40)" using p1 d1 by linarith
  have "f64 (mn + p) \<le> 10000"
  proof (cases "mn + p \<le> 10000")
    case True
    then show ?thesis by (intro f64_le) (simp_all add: is_f64_consts)
  next
    case False
    then show ?thesis using f64_just_above_10000 [of "mn + p"] y by simp
  qed
  then show "f64 (mn + f64 (l * f64 (10000 - mn))) \<le> 10000"
    by (simp add: d_def p_def)
qed

text \<open>
  Saturation: \<open>e\<^sup>x \<ge> 2\<^sup>n\<close> for \<open>x \<ge> n\<close>, so \<open>exp(-89.25)\<close> is below \<open>2\<^sup>-\<^sup>5\<^sup>4\<close> and
  \<open>1 + exp(-89.25)\<close> rounds to 1, while \<open>exp(90)\<close> is above \<open>2\<^sup>9\<^sup>0\<close> and the product of the
  logistic value with 9995 is below \<open>2\<^sup>-\<^sup>7\<^sup>6\<close>, which \<open>5 +\<close> rounds away.
\<close>

lemma exp_ge_two_power: "real n \<le> x \<Longrightarrow> 2 ^ n \<le> exp x"
proof -
  assume a: "real n \<le> x"
  have "(2::real) \<le> exp 1" using exp_ge_add_one_self [of "1::real"] by simp
  then have "(2::real) ^ n \<le> exp 1 ^ n" by (rule power_mono) simp
  also have "\<dots> = exp (real n)" using exp_of_nat_mult [of n "1::real"] by simp
  also have "\<dots> \<le> exp x" using a by simp
  finally show ?thesis .
qed

lemma weight_upper_step: "f64 (1 + np_exp (- (357 / 4))) = 1"
proof -
  define E where "E = np_exp (- (357 / 4))"
  have e0: "0 \<le> E" unfolding E_def by (rule np_exp_nonneg)
  have "(2::real) ^ 54 \<le> exp (357 / 4 :: real)" by (rule exp_ge_two_power) simp
  then have "exp (- (357 / 4) :: real) \<le> 1 / 2 ^ 54"
    by (simp add: exp_minus field_simps)
  then have "exp (- (357 / 4) :: real) \<le> of_int 1 * 2 powi (- 54)"
    by (simp add: power_int_minus field_simps)
  then have e1: "E \<le> of_int 1 * 2 powi (- 54)"
    unfolding E_def np_exp_def by (intro f64_le is_f64_dyadic) simp_all
  then have e2: "E \<le> 1 / 2 ^ 54" by (simp add: power_int_minus field_simps)
  have 1: "2 powi 0 \<le> \<bar>1 + E\<bar>" using e0 by simp
  have 2: "\<bar>1 + E\<bar> < 2 powi (0 + 1)" using e0 e2 by simp
  have 3: "even (2 ^ 52 :: int)" by simp
  have 4: "\<bar>(1 + E) / 2 powi (0 - 52) - of_int (2 ^ 52)\<bar> \<le> 1 / 2"
    using e0 e2 by (simp add: power_int_minus field_simps)
  show ?thesis
    using f64_near_even [OF 1 2 3 4] by (simp add: power_int_minus E_def)
qed

lemma weight_lower_step: "f64 (5 + f64 (f64 (1 / f64 (1 + np_exp 90)) * 9995)) = 5"
proof -
  define E where "E = np_exp 90"
  define s where "s = f64 (1 + E)"
  define l where "l = f64 (1 / s)"
  define p where "p = f64 (l * 9995)"
  have big: "is_f64 (of_int 1 * 2 powi 90)" "is_f64 (of_int 1 * 2 powi (- 90))"
    "is_f64 (of_int 1 * 2 powi (- 76))"
    by (rule is_f64_dyadic, simp)+
  have "(2::real) ^ 90 \<le> exp (90::real)" by (rule exp_ge_two_power) simp
  then have "of_int 1 * 2 powi 90 \<le> exp (90::real)" by simp
  then have e: "of_int 1 * 2 powi 90 \<le> E" unfolding E_def np_exp_def
    by (intro f64_ge big)
  then have "of_int 1 * 2 powi 90 \<le> 1 + E" by simp
  then have s: "of_int 1 * 2 powi 90 \<le> s" unfolding s_def by (intro f64_ge big)
  then have s': "2 ^ 90 \<le> s" by simp
  have "(0::real) < 2 ^ 90" by simp
  then have sp: "0 < s" using s' by linarith
  have "1 / s \<le> 1 / 2 ^ 90" using s' by (intro divide_left_mono) simp_all
  then have "1 / s \<le> of_int 1 * 2 powi (- 90)" by (simp add: power_int_minus field_simps)
  then have l1: "l \<le> of_int 1 * 2 powi (- 90)" unfolding l_def by (intro f64_le big)
  have l0: "0 \<le> l" unfolding l_def
    by (rule f64_ge) (use sp in \<open>simp_all add: is_f64_consts\<close>)
  have "l * 9995 \<le> (1 / 2 ^ 90) * 2 ^ 14"
    using l0 l1 by (intro mult_mono) (simp_all add: power_int_minus field_simps)
  then have "l * 9995 \<le> of_int 1 * 2 powi (- 76)" by (simp add: power_int_minus)
  then have p1: "p \<le> of_int 1 * 2 powi (- 76)" unfolding p_def by (intro f64_le big)
  then have p2: "p \<le> 1 / 2 ^ 76" by (simp add: power_int_minus field_simps)
  have p0: "0 \<le> p" unfolding p_def
    by (rule f64_ge) (use l0 in \<open>simp_all add: is_f64_consts\<close>)
  have 1: "2 powi 2 \<le> \<bar>5 + p\<bar>" using p0 by simp
  have 2: "\<bar>5 + p\<bar> < 2 powi (2 + 1)" using p0 p2 by simp
  have 3: "even (5 * 2 ^ 50 :: int)" by simp
  have 4: "\<bar>(5 + p) / 2 powi (2 - 52) - of_int (5 * 2 ^ 50)\<bar> \<le> 1 / 2"
    using p0 p2 by (simp add: power_int_minus field_simps)
  show ?thesis
    using f64_near_even [OF 1 2 3 4]
    by (simp add: power_int_minus p_def l_def s_def E_def)
qed

section \<open>Properties of the following-distance model\<close>

text \<open>
  C3. \<open>desired_follow_distance(v_ego, v_lead, t_follow)\<close> is
  \<open>(v_ego\<^sup>2/(2\<cdot>2.5) + t_follow\<cdot>v_ego + 6) - v_lead\<^sup>2/(2\<cdot>2.5)\<close>; at ego 20 m/s, lead
  15 m/s and follow time 1.45 (given, or taken as the default) it is exactly 70 m.
\<close>

theorem desired_follow_distance_formula:
  "desired_follow_distance v_ego v_lead (Some t_follow) =
     Inr ((v_ego ^ 2 / (2 * 2.5) + t_follow * v_ego + 6) - v_lead ^ 2 / (2 * 2.5))
   \<and> COMFORT_BRAKE = 2.5 \<and> STOP_DISTANCE = 6
   \<and> desired_follow_distance 20 15 (Some 1.45) = Inr 70
   \<and> desired_follow_distance 20 15 None = Inr 70"
  by (simp add: desired_follow_distance_def get_safe_obstacle_distance_def
      get_stopped_equivalence_factor_def get_T_FOLLOW_def COMFORT_BRAKE_def STOP_DISTANCE_def)

lemma np_clip_le: "np_clip a lo hi \<le> hi"
  by (simp add: np_clip_def)

text \<open>
  C8. \<open>dynamic_lead_pullaway_distance_cost\<close> returns exactly \<open>base_cost\<close> whenever
  \<open>gap_excess \<le> 0\<close> or the lead is not faster than ego; it returns a value whenever both
  margins are nonzero (a zero margin raises when the lead pulls away); and every value it
  returns is at most \<open>1.3 \<cdot> base_cost\<close> for \<open>base_cost \<ge> 0\<close>, whatever ceiling
  \<open>pullaway_max_factor\<close> is configured.
\<close>

theorem dynamic_lead_pullaway_distance_cost_capped:
  "((x_lead - x_ego) - (get_safe_obstacle_distance v_ego t_follow
        - get_stopped_equivalence_factor v_lead) \<le> 0 \<or> v_lead - v_ego \<le> 0
      \<longrightarrow> dynamic_lead_pullaway_distance_cost x_ego v_ego x_lead v_lead t_follow
            base_cost dist_margin speed_margin max_factor = Inr base_cost)
   \<and> (dist_margin \<noteq> 0 \<and> speed_margin \<noteq> 0
      \<longrightarrow> (\<exists>r. dynamic_lead_pullaway_distance_cost x_ego v_ego x_lead v_lead t_follow
                 base_cost dist_margin speed_margin max_factor = Inr r))
   \<and> (\<forall>r. 0 \<le> base_cost
          \<and> dynamic_lead_pullaway_distance_cost x_ego v_ego x_lead v_lead t_follow
                 base_cost dist_margin speed_margin max_factor = Inr r
        \<longrightarrow> r \<le> 1.3 * base_cost)"
proof -
  have early: "dynamic_lead_pullaway_distance_cost x_ego v_ego x_lead v_lead t_follow
            base_cost dist_margin speed_margin max_factor = Inr base_cost"
    if "(x_lead - x_ego) - (get_safe_obstacle_distance v_ego t_follow
        - get_stopped_equivalence_factor v_lead) \<le> 0 \<or> v_lead - v_ego \<le> 0"
    using that
    by (auto simp: dynamic_lead_pullaway_distance_cost_def desired_follow_distance_def Let_def)
  have total: "\<exists>r. dynamic_lead_pullaway_distance_cost x_ego v_ego x_lead v_lead t_follow
                 base_cost dist_margin speed_margin max_factor = Inr r"
    if "dist_margin \<noteq> 0 \<and> speed_margin \<noteq> 0"
    using that
    by (simp add: dynamic_lead_pullaway_distance_cost_def desired_follow_distance_def Let_def)
  have cap: "r \<le> 1.3 * base_cost"
    if a: "0 \<le> base_cost
          \<and> dynamic_lead_pullaway_distance_cost x_ego v_ego x_lead v_lead t_follow
                 base_cost dist_margin speed_margin max_factor = Inr r" for r
  proof -
    from a have b: "0 \<le> base_cost" by simp
    from a consider "r = base_cost"
      | f where "r = base_cost * np_clip f 1.0 (min 1.3 max_factor)"
      by (auto simp: dynamic_lead_pullaway_distance_cost_def desired_follow_distance_def Let_def
          split: if_splits)
    then show ?thesis
    proof cases
      case 1
      then show ?thesis using b by simp
    next
      case 2
      have "np_clip f 1.0 (min 1.3 max_factor) \<le> 1.3"
        using np_clip_le [of f "1.0" "min 1.3 max_factor"] by simp
      then have "base_cost * np_clip f 1.0 (min 1.3 max_factor) \<le> base_cost * 1.3"
        using b by (rule mult_left_mono)
      then show ?thesis using 2 by (simp add: mult.commute)
    qed
  qed
  show ?thesis using early total cap by blast
qed

theorem dynamic_lead_pullaway_distance_cost_capped_witness:
  "(5::real) \<noteq> 0 \<and> (2::real) \<noteq> 0 \<and> (0::real) \<le> 3
   \<and> dynamic_lead_pullaway_distance_cost 0 10 100 15 1.45 3 5 2 2 = Inr 3.9
   \<and> (3.9::real) \<le> 1.3 * 3
   \<and> dynamic_lead_pullaway_distance_cost 0 10 30 9 1.45 3 5 2 2 = Inr 3"
  using dynamic_lead_pullaway_distance_cost_capped [of 100 0 10 "1.45" 15 3 5 2 2]
    dynamic_lead_pullaway_distance_cost_capped [of 30 0 10 "1.45" 9 3 5 2 2]
  by (simp add: dynamic_lead_pullaway_distance_cost_def desired_follow_distance_def Let_def
      get_safe_obstacle_distance_def get_stopped_equivalence_factor_def COMFORT_BRAKE_def
      STOP_DISTANCE_def np_clip_def)

text \<open>
  C10, amended. In binary64 arithmetic, with both margins nonzero and \<open>min_penalty\<close> a
  double with \<open>-6384 < min_penalty \<le> 10000\<close>, \<open>dynamic_lead_constraint_weight\<close> returns a
  penalty in the closed interval from \<open>min_penalty\<close> to 10000, and two calls that differ
  only in \<open>max_penalty\<close> return the same penalty.
\<close>

theorem dynamic_lead_constraint_weight_closed_range:
  assumes "dist_margin \<noteq> 0" and "speed_margin \<noteq> 0"
    and "is_f64 min_penalty" and "- 6384 < min_penalty" and "min_penalty \<le> 10000"
  shows "\<exists>p. dynamic_lead_constraint_weight x_obstacle x_ego v_ego v_lead t_follow
                min_penalty max_penalty dist_margin speed_margin = Inr p
           \<and> min_penalty \<le> p \<and> p \<le> 10000
           \<and> dynamic_lead_constraint_weight x_obstacle x_ego v_ego v_lead t_follow
                min_penalty max_penalty' dist_margin speed_margin = Inr p"
  using assms(1,2) penalty_f64_range [OF assms(3,4,5) logistic_f64_range]
  by (simp add: dynamic_lead_constraint_weight_def Let_def)

theorem dynamic_lead_constraint_weight_closed_range_witness:
  "(2::real) \<noteq> 0 \<and> is_f64 5 \<and> (- 6384::real) < 5 \<and> (5::real) \<le> 10000
   \<and> dynamic_lead_constraint_weight 41 0 10 9 1.5 5 1000000 2 2 = Inr 5002.5
   \<and> dynamic_lead_constraint_weight 41 0 10 9 1.5 5 100000 2 2 = Inr 5002.5
   \<and> (5::real) \<le> 5002.5 \<and> (5002.5::real) \<le> 10000"
  using dynamic_lead_constraint_weight_closed_range
          [of 2 2 5 41 0 10 9 "1.5" 1000000 100000]
  by (simp add: dynamic_lead_constraint_weight_def get_safe_obstacle_distance_f64_def
      Let_def COMFORT_BRAKE_def STOP_DISTANCE_def f64_eval is_f64_consts)

text \<open>
  C10 as stated fails: the bounds are attained. With the default \<open>min_penalty = 5.0\<close>
  and margins 2.0, an ego at rest with a standing obstacle 125 m ahead gets the penalty
  5.0 exactly (\<open>z_scaled = -90\<close>), and an ego at 20 m/s with a standing obstacle 16 m
  ahead gets 10000.0 exactly (\<open>z_scaled = 89.25\<close>); every intermediate value of both runs
  is a double, so only the logistic is rounded.
\<close>

theorem dynamic_lead_constraint_weight_saturates:
  "dynamic_lead_constraint_weight 125 0 0 0 1.5 5 1000000 2 2 = Inr 5
   \<and> dynamic_lead_constraint_weight 16 0 20 0 1.5 5 1000000 2 2 = Inr 10000"
proof -
  have lo: "dynamic_lead_constraint_weight 125 0 0 0 1.5 5 1000000 2 2 = Inr 5"
    by (simp add: dynamic_lead_constraint_weight_def get_safe_obstacle_distance_f64_def
        Let_def COMFORT_BRAKE_def STOP_DISTANCE_def f64_eval weight_lower_step)
  have hi: "dynamic_lead_constraint_weight 16 0 20 0 1.5 5 1000000 2 2 = Inr 10000"
    by (simp add: dynamic_lead_constraint_weight_def get_safe_obstacle_distance_f64_def
        Let_def COMFORT_BRAKE_def STOP_DISTANCE_def f64_eval weight_upper_step)
  show ?thesis using lo hi by simp
qed

text \<open>
  The amended range needs a bound on \<open>min_penalty\<close> from below: for a more negative
  \<open>min_penalty\<close> the difference \<open>10000 - min_penalty\<close> is rounded on a coarser grid than
  10000, and the sum can land above 10000. With \<open>min_penalty = -2\<^sup>5\<^sup>7 - 32\<close> the saturated
  penalty is 10016.
\<close>

lemma weight_negative_floor_step:
  "f64 (10000 - (- (2 ^ 57) - 32)) = 2 ^ 57 + 10048"
proof -
  have 1: "2 powi 57 \<le> \<bar>10000 - (- (2 ^ 57) - 32) :: real\<bar>" by simp
  have 2: "\<bar>10000 - (- (2 ^ 57) - 32) :: real\<bar> < 2 powi (57 + 1)" by simp
  have 3: "even (2 ^ 52 + 314 :: int)" by simp
  have 4: "\<bar>(10000 - (- (2 ^ 57) - 32)) / 2 powi (57 - 52) - of_int (2 ^ 52 + 314)\<bar>
             \<le> (1 / 2 :: real)"
    by simp
  show ?thesis using f64_near_even [OF 1 2 3 4] by simp
qed

lemma dynamic_lead_constraint_weight_negative_floor:
  "dynamic_lead_constraint_weight 16 0 20 0 1.5 (- (2 ^ 57) - 32) 1000000 2 2 = Inr 10016"
proof -
  have d: "f64 (2 ^ 57 + 10048) = 2 ^ 57 + 10048"
    using f64_exact [OF is_f64_dyadic [of "2 ^ 52 + 314" 5]] by simp
  show ?thesis
    using weight_negative_floor_step d
    by (simp add: dynamic_lead_constraint_weight_def get_safe_obstacle_distance_f64_def
        Let_def COMFORT_BRAKE_def STOP_DISTANCE_def f64_eval weight_upper_step)
qed

section \<open>Properties of lead extrapolation\<close>

lemma length_cumsum_from: "length (cumsum_from acc xs) = length xs"
  by (induction xs arbitrary: acc) auto

lemma length_diff_from: "length (diff_from p xs) = length xs"
  by (induction xs arbitrary: p) auto

lemma diff_from_nonneg: "sorted (p # xs) \<Longrightarrow> \<forall>d\<in>set (diff_from p xs). 0 \<le> d"
  by (induction xs arbitrary: p) auto

lemma cumsum_from_ge: "\<forall>x\<in>set xs. 0 \<le> x \<Longrightarrow> \<forall>c\<in>set (cumsum_from acc xs). acc \<le> c"
proof (induction xs arbitrary: acc)
  case Nil
  then show ?case by simp
next
  case (Cons x xs)
  have "\<forall>c\<in>set (cumsum_from (acc + x) xs). acc + x \<le> c"
    using Cons by simp
  moreover have "0 \<le> x" using Cons.prems by simp
  ultimately show ?case by fastforce
qed

lemma cumsum_from_sorted: "\<forall>x\<in>set xs. 0 \<le> x \<Longrightarrow> sorted (cumsum_from acc xs)"
proof (induction xs arbitrary: acc)
  case Nil
  then show ?case by simp
next
  case (Cons x xs)
  then show ?case using cumsum_from_ge [of xs "acc + x"] by simp
qed

lemma map2_mult_nonneg:
  "\<forall>x\<in>set xs. (0::real) \<le> x \<Longrightarrow> \<forall>y\<in>set ys. 0 \<le> y \<Longrightarrow> \<forall>z\<in>set (map2 (*) xs ys). 0 \<le> z"
  by (auto elim!: in_set_zipE)

lemma np_clip_range: "lo \<le> hi \<Longrightarrow> lo \<le> np_clip a lo hi \<and> np_clip a lo hi \<le> hi"
  by (simp add: np_clip_def)

text \<open>
  C9. On a time grid that starts at 0 and does not decrease, \<open>extrapolate_lead\<close> returns,
  for every input \<open>(x_lead, v_lead, a_lead, a_lead_tau)\<close>, one row per grid sample, a speed
  column whose every sample lies in \<open>[0, 1e8]\<close>, and a position column that starts at
  \<open>x_lead\<close> and is non-decreasing across the horizon.
\<close>

theorem extrapolate_lead_bounds:
  assumes "T_IDXS \<noteq> []" and "hd T_IDXS = 0" and "sorted T_IDXS"
  shows "length (extrapolate_lead T_IDXS x_lead v_lead a_lead a_lead_tau) = length T_IDXS
    \<and> (\<forall>vl \<in> set (map snd (extrapolate_lead T_IDXS x_lead v_lead a_lead a_lead_tau)).
          0 \<le> vl \<and> vl \<le> 100000000)
    \<and> hd (map fst (extrapolate_lead T_IDXS x_lead v_lead a_lead a_lead_tau)) = x_lead
    \<and> sorted (map fst (extrapolate_lead T_IDXS x_lead v_lead a_lead a_lead_tau))"
proof -
  define a_traj where "a_traj = map (\<lambda>t. a_lead * exp (- a_lead_tau * (t ^ 2) / 2)) T_IDXS"
  define vs where "vs = map (\<lambda>c. np_clip (v_lead + c) 0.0 100000000)
                          (cumsum (map2 (*) (T_DIFFS T_IDXS) a_traj))"
  define ps where "ps = map2 (*) (T_DIFFS T_IDXS) vs"
  define xs where "xs = map (\<lambda>c. x_lead + c) (cumsum ps)"
  have ex: "extrapolate_lead T_IDXS x_lead v_lead a_lead a_lead_tau = zip xs vs"
    by (simp add: extrapolate_lead_def Let_def a_traj_def vs_def xs_def ps_def)
  have lv: "length vs = length T_IDXS"
    by (simp add: vs_def a_traj_def cumsum_def length_cumsum_from T_DIFFS_def length_diff_from)
  have lp: "length ps = length T_IDXS"
    by (simp add: ps_def lv T_DIFFS_def length_diff_from)
  have lx: "length xs = length T_IDXS"
    by (simp add: xs_def cumsum_def length_cumsum_from lp)
  have fst_eq: "map fst (zip xs vs) = xs" and snd_eq: "map snd (zip xs vs) = vs"
    using lx lv by simp_all
  have vrange: "\<forall>vl\<in>set vs. 0 \<le> vl \<and> vl \<le> 100000000"
    using np_clip_range [of 0 100000000] by (auto simp: vs_def)
  have "sorted (0 # T_IDXS)" using assms by (cases T_IDXS) auto
  then have dn: "\<forall>d\<in>set (T_DIFFS T_IDXS). 0 \<le> d"
    unfolding T_DIFFS_def by (rule diff_from_nonneg)
  have pn: "\<forall>z\<in>set ps. 0 \<le> z"
    unfolding ps_def using dn vrange by (intro map2_mult_nonneg) auto
  have "sorted (cumsum ps)" unfolding cumsum_def using pn by (rule cumsum_from_sorted)
  then have sx: "sorted xs"
    by (simp add: xs_def sorted_map sorted_wrt_iff_nth_less)
  obtain t0 ts where T: "T_IDXS = t0 # ts" using assms(1) by (cases T_IDXS) auto
  then have t0: "t0 = 0" using assms(2) by simp
  obtain w ws where vs_c: "vs = w # ws" using lv T by (cases vs) auto
  have "hd xs = x_lead"
    by (simp add: xs_def ps_def T t0 T_DIFFS_def vs_c cumsum_def)
  then show ?thesis using ex lx lv fst_eq snd_eq vrange sx by simp
qed

lemma T_IDXS_LST_grid: "T_IDXS_LST \<noteq> [] \<and> hd T_IDXS_LST = 0 \<and> sorted T_IDXS_LST
   \<and> length T_IDXS_LST = N + 1"
  by (simp add: T_IDXS_LST_def N_def)

theorem extrapolate_lead_bounds_witness:
  "T_IDXS_LST \<noteq> [] \<and> hd T_IDXS_LST = 0 \<and> sorted T_IDXS_LST
   \<and> extrapolate_lead T_IDXS_LST 50 20 0 1.5 =
       [(50, 20), (50 + 20 * (5/72), 20), (50 + 20 * (5/18), 20), (50 + 20 * (5/8), 20),
        (50 + 20 * (10/9), 20), (50 + 20 * (125/72), 20), (100, 20),
        (50 + 20 * (245/72), 20), (50 + 20 * (40/9), 20), (50 + 20 * (45/8), 20),
        (50 + 20 * (125/18), 20), (50 + 20 * (605/72), 20), (250, 20)]
   \<and> sorted (map fst (extrapolate_lead T_IDXS_LST 50 20 0 1.5))"
  using extrapolate_lead_bounds [of T_IDXS_LST 50 20 0 "1.5"] T_IDXS_LST_grid
  by (simp add: extrapolate_lead_def T_IDXS_LST_def T_DIFFS_def cumsum_def np_clip_def)

section \<open>Frame lemmas of the solver\<close>

lemma sv_p_setters [simp]:
  "sv_p (cost_set_yref i v sv) = sv_p sv"
  "sv_p (cost_set_W i v sv) = sv_p sv"
  "sv_p (cost_set_Zl i v sv) = sv_p sv"
  "sv_p (solver_set_x i v sv) = sv_p sv"
  "sv_p (solver_reset sv) = sv_p sv"
  by (simp_all add: cost_set_yref_def cost_set_W_def cost_set_Zl_def solver_set_x_def
      solver_reset_def)

lemma fold_frame:
  assumes "\<And>i sv. f (g i sv) = f sv"
  shows "f (fold g is sv) = f sv"
  using assms by (induction "is" arbitrary: sv) auto

lemma fold_err_frame:
  assumes "\<And>i sv. \<exists>sv'. g i sv = Inr sv' \<and> f sv' = f sv"
  shows "\<exists>sv'. fold_err g is sv = Inr sv' \<and> f sv' = f sv"
proof (induction "is" arbitrary: sv)
  case Nil
  then show ?case by simp
next
  case (Cons i "is")
  obtain sv1 where 1: "g i sv = Inr sv1" "f sv1 = f sv" using assms by blast
  obtain sv2 where 2: "fold_err g is sv1 = Inr sv2" "f sv2 = f sv1" using Cons by blast
  show ?case using 1 2 by simp
qed

lemma fold_set_p:
  "sv_p (fold (\<lambda>i sv. solver_set_p i (g i) sv) [0..<n] sv) j
     = (if j < n then g j else sv_p sv j)"
  by (induction n) (auto simp: solver_set_p_def)

lemma fold_list_update:
  "n \<le> length rows \<Longrightarrow>
     fold (\<lambda>i rows. rows[i := g i]) [0..<n] rows = map g [0..<n] @ drop n rows"
proof (induction n)
  case 0
  then show ?case by simp
next
  case (Suc n)
  then have n: "n < length rows" by simp
  have "(map g [0..<n] @ drop n rows)[n := g n] = map g [0..<n] @ (drop n rows)[0 := g n]"
    by (simp add: list_update_append)
  also have "\<dots> = map g [0..<n] @ g n # drop (Suc n) rows"
    using n by (simp add: Cons_nth_drop_Suc [symmetric])
  finally show ?case using Suc by simp
qed

lemma fold_list_update_all:
  "length rows = n \<Longrightarrow> fold (\<lambda>i rows. rows[i := g i]) [0..<n] rows = map g [0..<n]"
  using fold_list_update [of n rows g] by simp

section \<open>Totality of the cost modifiers\<close>

lemma pullaway_returns:
  "dm \<noteq> 0 \<Longrightarrow> sm \<noteq> 0 \<Longrightarrow>
     \<exists>r. dynamic_lead_pullaway_distance_cost xe ve xl vl tf b dm sm mf = Inr r"
  by (simp add: dynamic_lead_pullaway_distance_cost_def desired_follow_distance_def Let_def)

lemma soft_approach_returns:
  "\<exists>r. soft_approach_distance_factor xo xe ve vl tf am mm k = Inr r"
  by (simp add: soft_approach_distance_factor_def desired_follow_distance_def Let_def)

lemma constraint_weight_returns:
  "dm \<noteq> 0 \<Longrightarrow> sm \<noteq> 0 \<Longrightarrow>
     \<exists>p. dynamic_lead_constraint_weight xo xe ve vl tf mn mx dm sm = Inr p"
  by (simp add: dynamic_lead_constraint_weight_def Let_def)

lemma dynamic_cost_stage_returns:
  "\<exists>sv'. dynamic_cost_stage T_IDXS s lead_xv dj i sv = Inr sv' \<and> sv_p sv' = sv_p sv"
proof -
  obtain xl vl where l: "(if i < length lead_xv then lead_xv ! i else last lead_xv) = (xl, vl)"
    by (cases "if i < length lead_xv then lead_xv ! i else last lead_xv") auto
  have "\<exists>r1. dynamic_lead_pullaway_distance_cost (x_sol s ! i ! 0) (x_sol s ! i ! 1)
       xl vl (params s ! i ! 4) (base_cost_weights s ! 0) 5.0 2.0 2.0 = Inr r1"
    by (rule pullaway_returns) simp_all
  then obtain r1 where 1: "dynamic_lead_pullaway_distance_cost (x_sol s ! i ! 0) (x_sol s ! i ! 1)
       xl vl (params s ! i ! 4) (base_cost_weights s ! 0) 5.0 2.0 2.0 = Inr r1" ..
  obtain r2 where 2: "soft_approach_distance_factor xl (x_sol s ! i ! 0) (x_sol s ! i ! 1)
       vl (params s ! i ! 4) 5.0 1.5 1.0 = Inr r2"
    using soft_approach_returns by blast
  have "\<exists>r3. dynamic_lead_constraint_weight (params s ! i ! 2) (x_sol s ! i ! 0)
       (x_sol s ! i ! 1) vl (params s ! i ! 4) 5.0 100000 2.0 2.0 = Inr r3"
    by (rule constraint_weight_returns) simp_all
  then obtain r3 where 3: "dynamic_lead_constraint_weight (params s ! i ! 2) (x_sol s ! i ! 0)
       (x_sol s ! i ! 1) vl (params s ! i ! 4) 5.0 100000 2.0 2.0 = Inr r3" ..
  show ?thesis
    unfolding dynamic_cost_stage_def Let_def l using 1 2 3 by simp
qed

lemma apply_dynamic_costs_returns:
  "\<exists>sv'. apply_dynamic_costs T_IDXS s lead_xv = Inr sv' \<and> sv_p sv' = sv_p (solver s)"
proof -
  let ?dj = "get_smooth_dynamic_j_ego_cost_array T_IDXS
             (map (\<lambda>row. row ! 2) (params s))
             (map (\<lambda>row. row ! 0) (x_sol s))
             (map (\<lambda>row. row ! 1) (x_sol s))
             (map snd lead_xv)
             (map (\<lambda>row. row ! 4) (params s))
             (12.0 * (if acceleration_jerk_factor s \<noteq> 0
                                 then acceleration_jerk_factor s else 1.0)) 0.5 5.0 2.0 0.3 4.0 True 1.0"
  obtain sv1 where 1: "fold_err (dynamic_cost_stage T_IDXS s lead_xv ?dj) [0..<N] (solver s) = Inr sv1"
     "sv_p sv1 = sv_p (solver s)"
    using fold_err_frame [of "dynamic_cost_stage T_IDXS s lead_xv ?dj" sv_p "[0..<N]" "solver s"]
      dynamic_cost_stage_returns by blast
  show ?thesis unfolding apply_dynamic_costs_def Let_def using 1 by simp
qed

section \<open>reset and run\<close>

lemma sv_p_set_cost_weights [simp]:
  "sv_p (set_cost_weights T_IDXS cw ccw sv) = sv_p sv"
  by (simp add: set_cost_weights_def Let_def fold_frame)

lemma reset_result:
  assumes "mode s = ''acc'' \<or> mode s = ''blended''"
  shows "\<exists>s'. reset T_IDXS s = Inr s'
     \<and> v_solution s' = replicate (N + 1) 0 \<and> a_solution s' = replicate (N + 1) 0
     \<and> j_solution s' = replicate N 0 \<and> x_sol s' = replicate (N + 1) (replicate X_DIM 0)
     \<and> u_sol s' = replicate N (replicate 1 0)
     \<and> prev_a s' = replicate (N + 1) 0
     \<and> params s' = replicate (N + 1) (replicate PARAM_DIM 0)
     \<and> yref s' = replicate (N + 1) (replicate COST_DIM 0)
     \<and> x0 s' = replicate X_DIM 0
     \<and> length (base_cost_weights s') = COST_DIM
     \<and> solution_status s' = 0 \<and> last_cloudlog_t s' = 0 \<and> crash_cnt s' = 0
     \<and> mode s' = mode s \<and> source s' = source s \<and> cloudlog s' = cloudlog s
     \<and> cruise_min_a s' = cruise_min_a s \<and> max_a s' = max_a s \<and> dt s' = dt s
     \<and> sv_p (solver s') = sv_p (solver s)"
  using assms
  by (auto simp: reset_def set_weights_def Let_def fold_frame COST_DIM_def COST_E_DIM_def)


lemma run_solver_input_p:
  "i < N + 1 \<Longrightarrow> sv_p (run_solver_input s) i = params s ! i"
  by (simp add: run_solver_input_def Let_def fold_set_p del: upt_Suc)

lemma run_success:
  assumes "so_status (solve (run_solver_input s)) = 0" and "length (x_sol s) = N + 1"
  shows "\<exists>s'. run T_IDXS solve t s = Inr s'
     \<and> mode s' = mode s \<and> source s' = source s \<and> cloudlog s' = cloudlog s
     \<and> solution_status s' = 0
     \<and> x_sol s' = map (so_x (solve (run_solver_input s))) [0..<N + 1]
     \<and> solver s' = run_solver_input s"
  using assms by (simp add: run_def Let_def fold_list_update_all del: upt_Suc)

lemma run_failure:
  assumes m: "mode s = ''acc'' \<or> mode s = ''blended''"
    and f: "so_status (solve (run_solver_input s)) \<noteq> 0"
  shows "\<exists>s'. run T_IDXS solve t s = Inr s'
     \<and> v_solution s' = replicate (N + 1) 0 \<and> a_solution s' = replicate (N + 1) 0
     \<and> j_solution s' = replicate N 0 \<and> x_sol s' = replicate (N + 1) (replicate X_DIM 0)
     \<and> u_sol s' = replicate N (replicate 1 0)
     \<and> prev_a s' = replicate (N + 1) 0
     \<and> params s' = replicate (N + 1) (replicate PARAM_DIM 0)
     \<and> x0 s' = replicate X_DIM 0
     \<and> solution_status s' = 0 \<and> last_cloudlog_t s' = 0 \<and> crash_cnt s' = 0
     \<and> mode s' = mode s \<and> source s' = source s
     \<and> cloudlog s' = (if t > last_cloudlog_t s + 5
                        then cloudlog s @ [(t, so_status (solve (run_solver_input s)))]
                        else cloudlog s)
     \<and> sv_p (solver s') = sv_p (run_solver_input s)"
proof -
  let ?out = "solve (run_solver_input s)"
  let ?xs = "fold (\<lambda>i rows. rows[i := so_x ?out i]) [0..<N + 1] (x_sol s)"
  let ?us = "fold (\<lambda>i rows. rows[i := so_u ?out i]) [0..<N] (u_sol s)"
  define s2 where "s2 = s\<lparr>solver := run_solver_input s,
                 solution_status := so_status ?out,
                 solve_time := so_time_tot ?out,
                 time_qp_solution := so_time_qp ?out,
                 time_linearization := so_time_lin ?out,
                 time_integrator := so_time_sim ?out,
                 x_sol := ?xs,
                 u_sol := ?us,
                 v_solution := map (\<lambda>row. row ! 1) ?xs,
                 a_solution := map (\<lambda>row. row ! 2) ?xs,
                 j_solution := map (\<lambda>row. row ! 0) ?us,
                 prev_a := map (\<lambda>ti. interp (ti + dt s) T_IDXS (map (\<lambda>row. row ! 2) ?xs))
                             T_IDXS\<rparr>"
  define s3 where "s3 = (if t > last_cloudlog_t s2 + 5.0
                      then s2\<lparr>last_cloudlog_t := t,
                              cloudlog := cloudlog s2 @ [(t, solution_status s2)]\<rparr>
                      else s2)"
  have r: "run T_IDXS solve t s = reset T_IDXS s3"
    using f by (simp add: run_def Let_def s3_def s2_def)
  have m3: "mode s3 = ''acc'' \<or> mode s3 = ''blended''"
    using m by (simp add: s3_def s2_def)
  have c3: "cloudlog s3 = (if t > last_cloudlog_t s + 5
                        then cloudlog s @ [(t, so_status ?out)] else cloudlog s)"
    by (simp add: s3_def s2_def)
  have o3: "mode s3 = mode s" "source s3 = source s" "solver s3 = run_solver_input s"
    by (simp_all add: s3_def s2_def)
  show ?thesis
    using reset_result [OF m3, of T_IDXS] r c3 o3 by auto
qed

lemma run_returns:
  assumes m: "mode s = ''acc'' \<or> mode s = ''blended''" and lx: "length (x_sol s) = N + 1"
  shows "\<exists>s'. run T_IDXS solve t s = Inr s'
     \<and> mode s' = mode s \<and> source s' = source s
     \<and> x_sol s' = (if so_status (solve (run_solver_input s)) = 0
                    then map (so_x (solve (run_solver_input s))) [0..<N + 1]
                    else replicate (N + 1) (replicate X_DIM 0))
     \<and> (\<forall>i<N + 1. sv_p (solver s') i = params s ! i)"
proof (cases "so_status (solve (run_solver_input s)) = 0")
  case True
  then show ?thesis
    using run_success [of solve s T_IDXS t] lx run_solver_input_p [of _ s] by auto
next
  case False
  then show ?thesis
    using run_failure [of s solve T_IDXS t] m run_solver_input_p [of _ s] by auto
qed

section \<open>What one update does, by mode\<close>

lemma shapes_params_row:
  "shapes_ok s \<Longrightarrow> i < N + 1 \<Longrightarrow> length (params s ! i) = PARAM_DIM"
  by (simp add: shapes_ok_def list_all_length)

lemma update_post_acc:
  "mode s = ''acc'' \<Longrightarrow>
     source (update_post T_IDXS s lead_one rm t_follow lxv l0 l1) = source s
     \<and> solver (update_post T_IDXS s lead_one rm t_follow lxv l0 l1) = solver s
     \<and> x_sol (update_post T_IDXS s lead_one rm t_follow lxv l0 l1) = x_sol s"
  by (simp add: update_post_def Let_def)

lemma update_post_blended:
  "mode s = ''blended'' \<Longrightarrow>
     source (update_post T_IDXS s lead_one rm t_follow lxv l0 l1) =
       (if safe_gap_violated l1 (x_sol s) t_follow \<and> l1 ! 0 - l0 ! 0 \<noteq> 0 then Lead1
        else if safe_gap_violated l0 (x_sol s) t_follow then Lead0 else source s)
     \<and> solver (update_post T_IDXS s lead_one rm t_follow lxv l0 l1) = solver s
     \<and> x_sol (update_post T_IDXS s lead_one rm t_follow lxv l0 l1) = x_sol s"
  by (simp add: update_post_def Let_def)

lemma update_acc:
  assumes m: "mode s = ''acc''" and sh: "shapes_ok s"
    and lim: "cruise_min_a s = Some min_a" "max_a s = Some mx_a"
  shows "\<exists>s'. update T_IDXS ACCEL_MIN solve t s lead_one lead_two v_cruise x v a j rm
                 t_follow tma pers = Inr s'
     \<and> source s' = SOURCES ! argmin
          [lead_obstacle (process_lead T_IDXS ACCEL_MIN s (Some lead_one)) ! 0,
           lead_obstacle (process_lead T_IDXS ACCEL_MIN s (Some lead_two)) ! 0,
           cruise_obstacle T_IDXS (x0 s ! 1) min_a mx_a v_cruise t_follow ! 0]
     \<and> (\<forall>i<N + 1. sv_p (solver s') i ! 2 = np_min
          [lead_obstacle (process_lead T_IDXS ACCEL_MIN s (Some lead_one)) ! i,
           lead_obstacle (process_lead T_IDXS ACCEL_MIN s (Some lead_two)) ! i,
           cruise_obstacle T_IDXS (x0 s ! 1) min_a mx_a v_cruise t_follow ! i])"
proof -
  define s1 where "s1 = s\<lparr>mpc_status := (status lead_one \<or> status lead_two)\<rparr>"
  define lxv0 where "lxv0 = process_lead T_IDXS ACCEL_MIN s1 (Some lead_one)"
  define lxv1 where "lxv1 = process_lead T_IDXS ACCEL_MIN s1 (Some lead_two)"
  define l0 where "l0 = lead_obstacle lxv0"
  define l1 where "l1 = lead_obstacle lxv1"
  define c where "c = cruise_obstacle T_IDXS (x0 s ! 1) min_a mx_a v_cruise t_follow"
  define xo where "xo = map (\<lambda>i. [l0 ! i, l1 ! i, c ! i]) [0..<N + 1]"
  define s2 where "s2 = s1\<lparr>params := map (\<lambda>row. row[0 := min_a, 1 := mx_a]) (params s1)\<rparr>"
  define s3 where "s3 = s2\<lparr>params := map (\<lambda>row. row[5 := LEAD_DANGER_FACTOR]) (params s2),
                          source := SOURCES ! argmin (xo ! 0)\<rparr>"
  define x' where "x' = map (\<lambda>_. 0::real) x"
  define v' where "v' = map (\<lambda>_. 0::real) v"
  define a' where "a' = map (\<lambda>_. 0::real) a"
  define j' where "j' = map (\<lambda>_. 0::real) j"
  define yref' where "yref' = map (\<lambda>i. (yref s3 ! i)[1 := x' ! i, 2 := v' ! i,
                                                          3 := a' ! i, 5 := j' ! i])
                                    [0..<N + 1]"
  define sv2 where "sv2 = cost_set_yref N (take COST_E_DIM (yref' ! N))
                      (fold (\<lambda>i sv. cost_set_yref i (yref' ! i) sv) [0..<N] (solver s3))"
  define params' where "params' = map (\<lambda>i. (params s3 ! i)[2 := np_min (xo ! i),
                                                              3 := prev_a s3 ! i,
                                                              4 := t_follow])
                                      [0..<N + 1]"
  define s4 where "s4 = s3\<lparr>yref := yref', solver := sv2, params := params'\<rparr>"
  have p1: "process_lead T_IDXS ACCEL_MIN s1 ld = process_lead T_IDXS ACCEL_MIN s ld" for ld
    by (simp add: process_lead_def s1_def)
  have um: "update_mode T_IDXS s2 (x0 s ! 1) min_a mx_a l0 l1 v_cruise t_follow x v a j
              = Inr (s3, xo, x', v', a', j')"
    using m by (simp add: update_mode_def Let_def s3_def s2_def s1_def xo_def c_def
        x'_def v'_def a'_def j'_def del: upt_Suc)
  obtain sv3 where adc: "apply_dynamic_costs T_IDXS s4 lxv0 = Inr sv3"
    and sv3p: "sv_p sv3 = sv_p (solver s4)"
    using apply_dynamic_costs_returns by blast
  have m4: "mode (s4\<lparr>solver := sv3\<rparr>) = ''acc'' \<or> mode (s4\<lparr>solver := sv3\<rparr>) = ''blended''"
    using m by (simp add: s4_def s3_def s2_def s1_def)
  have lx4: "length (x_sol (s4\<lparr>solver := sv3\<rparr>)) = N + 1"
    using sh by (simp add: s4_def s3_def s2_def s1_def shapes_ok_def)
  obtain s5 where run5: "run T_IDXS solve t (s4\<lparr>solver := sv3\<rparr>) = Inr s5"
    and m5: "mode s5 = mode (s4\<lparr>solver := sv3\<rparr>)"
    and src5: "source s5 = source (s4\<lparr>solver := sv3\<rparr>)"
    and p5: "\<forall>i<N + 1. sv_p (solver s5) i = params (s4\<lparr>solver := sv3\<rparr>) ! i"
    using run_returns [OF m4 lx4, of T_IDXS solve t] by blast
  have upd: "update T_IDXS ACCEL_MIN solve t s lead_one lead_two v_cruise x v a j rm
                 t_follow tma pers
        = Inr (update_post T_IDXS s5 lead_one rm t_follow lxv0 l0 l1)"
    using lim um adc run5
    unfolding update_def Let_def s4_def params'_def sv2_def yref'_def s2_def l0_def l1_def
      lxv0_def lxv1_def
    by (simp add: s1_def del: upt_Suc)
  have m5': "mode s5 = ''acc''" using m5 m by (simp add: s4_def s3_def s2_def s1_def)
  have xo0: "xo ! 0 = [l0 ! 0, l1 ! 0, c ! 0]"
    by (simp add: xo_def nth_map_upt del: upt_Suc)
  have src: "source s5 = SOURCES ! argmin [l0 ! 0, l1 ! 0, c ! 0]"
    using src5 xo0 by (simp add: s4_def s3_def)
  have par: "sv_p (solver s5) i ! 2 = np_min [l0 ! i, l1 ! i, c ! i]" if i: "i < N + 1" for i
  proof -
    have len: "length (params s ! i) = PARAM_DIM" using shapes_params_row [OF sh i] .
    have lp: "i < length (params s)" using sh i by (simp add: shapes_ok_def)
    have "params s3 ! i = (params s ! i)[0 := min_a, 1 := mx_a, 5 := LEAD_DANGER_FACTOR]"
      using lp by (simp add: s3_def s2_def s1_def)
    then have l3: "length (params s3 ! i) = PARAM_DIM" using len by simp
    have "sv_p (solver s5) i = params' ! i" using p5 i by (simp add: s4_def)
    also have "\<dots> = (params s3 ! i)[2 := np_min (xo ! i), 3 := prev_a s3 ! i, 4 := t_follow]"
      using i by (simp add: params'_def nth_map_upt del: upt_Suc)
    finally have "sv_p (solver s5) i ! 2 = np_min (xo ! i)"
      using l3 by (simp add: PARAM_DIM_def)
    moreover have "xo ! i = [l0 ! i, l1 ! i, c ! i]"
      using i by (simp add: xo_def nth_map_upt del: upt_Suc)
    ultimately show ?thesis by simp
  qed
  show ?thesis
    using upd update_post_acc [OF m5', of T_IDXS lead_one rm t_follow lxv0 l0 l1] src par
    by (simp add: l0_def l1_def lxv0_def lxv1_def p1 c_def)
qed


lemma update_blended:
  assumes m: "mode s = ''blended''" and sh: "shapes_ok s"
    and lim: "cruise_min_a s = Some min_a" "max_a s = Some mx_a"
    and xne: "x \<noteq> []"
  shows "\<exists>s' pre sv. update T_IDXS ACCEL_MIN solve t s lead_one lead_two v_cruise x v a j rm
                 t_follow tma pers = Inr s'
     \<and> (pre = E2e \<or> pre = Cruise)
     \<and> source s' =
         (if safe_gap_violated (lead_obstacle (process_lead T_IDXS ACCEL_MIN s (Some lead_two)))
               (x_sol s') t_follow
             \<and> lead_obstacle (process_lead T_IDXS ACCEL_MIN s (Some lead_two)) ! 0
                 - lead_obstacle (process_lead T_IDXS ACCEL_MIN s (Some lead_one)) ! 0 \<noteq> 0
          then Lead1
          else if safe_gap_violated
                    (lead_obstacle (process_lead T_IDXS ACCEL_MIN s (Some lead_one)))
                    (x_sol s') t_follow
          then Lead0 else pre)
     \<and> x_sol s' = (if so_status (solve sv) = 0 then map (so_x (solve sv)) [0..<N + 1]
                    else replicate (N + 1) (replicate X_DIM 0))
     \<and> (\<forall>i<N + 1. sv_p (solver s') i ! 2 = np_min
          [lead_obstacle (process_lead T_IDXS ACCEL_MIN s (Some lead_one)) ! i,
           lead_obstacle (process_lead T_IDXS ACCEL_MIN s (Some lead_two)) ! i])"
proof -
  define s1 where "s1 = s\<lparr>mpc_status := (status lead_one \<or> status lead_two)\<rparr>"
  define lxv0 where "lxv0 = process_lead T_IDXS ACCEL_MIN s1 (Some lead_one)"
  define lxv1 where "lxv1 = process_lead T_IDXS ACCEL_MIN s1 (Some lead_two)"
  define l0 where "l0 = lead_obstacle lxv0"
  define l1 where "l1 = lead_obstacle lxv1"
  define xo where "xo = map (\<lambda>i. [l0 ! i, l1 ! i]) [0..<N + 1]"
  define s2 where "s2 = s1\<lparr>params := map (\<lambda>row. row[0 := min_a, 1 := mx_a]) (params s1)\<rparr>"
  define cruise_target where
    "cruise_target = map (\<lambda>t. t * np_clip v_cruise (x0 s ! 1 - 2.0) 1000 + x ! 0) T_IDXS"
  define x1 where "x1 = cumsum (x ! 0 # map2 (*) (map (\<lambda>c. c / 2) (map2 (+) (tl v) (butlast v)))
                                (map2 (-) (tl T_IDXS) (butlast T_IDXS)))"
  define xac where "xac = map (\<lambda>i. [x1 ! i, cruise_target ! i]) [0..<N + 1]"
  define pre where "pre = (if xac ! 1 ! 0 < xac ! 1 ! 1 then E2e else Cruise)"
  define s3 where "s3 = s2\<lparr>params := map (\<lambda>row. row[5 := 1.0]) (params s2),
                          source := pre\<rparr>"
  define x' where "x' = map np_min xac"
  define yref' where "yref' = map (\<lambda>i. (yref s3 ! i)[1 := x' ! i, 2 := v ! i,
                                                          3 := a ! i, 5 := j ! i])
                                    [0..<N + 1]"
  define sv2 where "sv2 = cost_set_yref N (take COST_E_DIM (yref' ! N))
                      (fold (\<lambda>i sv. cost_set_yref i (yref' ! i) sv) [0..<N] (solver s3))"
  define params' where "params' = map (\<lambda>i. (params s3 ! i)[2 := np_min (xo ! i),
                                                              3 := prev_a s3 ! i,
                                                              4 := t_follow])
                                      [0..<N + 1]"
  define s4 where "s4 = s3\<lparr>yref := yref', solver := sv2, params := params'\<rparr>"
  have p1: "process_lead T_IDXS ACCEL_MIN s1 ld = process_lead T_IDXS ACCEL_MIN s ld" for ld
    by (simp add: process_lead_def s1_def)
  have um: "update_mode T_IDXS s2 (x0 s ! 1) min_a mx_a l0 l1 v_cruise t_follow x v a j
              = Inr (s3, xo, x', v, a, j)"
    using m xne by (simp add: update_mode_def Let_def s3_def s2_def s1_def xo_def pre_def
        xac_def x1_def cruise_target_def x'_def del: upt_Suc)
  obtain sv3 where adc: "apply_dynamic_costs T_IDXS s4 lxv0 = Inr sv3"
    and sv3p: "sv_p sv3 = sv_p (solver s4)"
    using apply_dynamic_costs_returns by blast
  have m4: "mode (s4\<lparr>solver := sv3\<rparr>) = ''acc'' \<or> mode (s4\<lparr>solver := sv3\<rparr>) = ''blended''"
    using m by (simp add: s4_def s3_def s2_def s1_def)
  have lx4: "length (x_sol (s4\<lparr>solver := sv3\<rparr>)) = N + 1"
    using sh by (simp add: s4_def s3_def s2_def s1_def shapes_ok_def)
  obtain s5 where run5: "run T_IDXS solve t (s4\<lparr>solver := sv3\<rparr>) = Inr s5"
    and m5: "mode s5 = mode (s4\<lparr>solver := sv3\<rparr>)"
    and src5: "source s5 = source (s4\<lparr>solver := sv3\<rparr>)"
    and xs5: "x_sol s5 = (if so_status (solve (run_solver_input (s4\<lparr>solver := sv3\<rparr>))) = 0
                    then map (so_x (solve (run_solver_input (s4\<lparr>solver := sv3\<rparr>)))) [0..<N + 1]
                    else replicate (N + 1) (replicate X_DIM 0))"
    and p5: "\<forall>i<N + 1. sv_p (solver s5) i = params (s4\<lparr>solver := sv3\<rparr>) ! i"
    using run_returns [OF m4 lx4, of T_IDXS solve t] by blast
  have upd: "update T_IDXS ACCEL_MIN solve t s lead_one lead_two v_cruise x v a j rm
                 t_follow tma pers
        = Inr (update_post T_IDXS s5 lead_one rm t_follow lxv0 l0 l1)"
    using lim um adc run5
    unfolding update_def Let_def s4_def params'_def sv2_def yref'_def s2_def l0_def l1_def
      lxv0_def lxv1_def
    by (simp add: s1_def del: upt_Suc)
  have m5': "mode s5 = ''blended''" using m5 m by (simp add: s4_def s3_def s2_def s1_def)
  have src: "source s5 = pre" using src5 by (simp add: s4_def s3_def)
  have pre: "pre = E2e \<or> pre = Cruise" by (simp add: pre_def)
  have par: "sv_p (solver s5) i ! 2 = np_min [l0 ! i, l1 ! i]" if i: "i < N + 1" for i
  proof -
    have len: "length (params s ! i) = PARAM_DIM" using shapes_params_row [OF sh i] .
    have lp: "i < length (params s)" using sh i by (simp add: shapes_ok_def)
    have "params s3 ! i = (params s ! i)[0 := min_a, 1 := mx_a, 5 := 1.0]"
      using lp by (simp add: s3_def s2_def s1_def)
    then have l3: "length (params s3 ! i) = PARAM_DIM" using len by simp
    have "sv_p (solver s5) i = params' ! i" using p5 i by (simp add: s4_def)
    also have "\<dots> = (params s3 ! i)[2 := np_min (xo ! i), 3 := prev_a s3 ! i, 4 := t_follow]"
      using i by (simp add: params'_def nth_map_upt del: upt_Suc)
    finally have "sv_p (solver s5) i ! 2 = np_min (xo ! i)"
      using l3 by (simp add: PARAM_DIM_def)
    moreover have "xo ! i = [l0 ! i, l1 ! i]"
      using i by (simp add: xo_def nth_map_upt del: upt_Suc)
    ultimately show ?thesis by simp
  qed
  let ?s' = "update_post T_IDXS s5 lead_one rm t_follow lxv0 l0 l1"
  have post: "source ?s' =
       (if safe_gap_violated l1 (x_sol s5) t_follow \<and> l1 ! 0 - l0 ! 0 \<noteq> 0 then Lead1
        else if safe_gap_violated l0 (x_sol s5) t_follow then Lead0 else source s5)"
      "solver ?s' = solver s5" "x_sol ?s' = x_sol s5"
    using update_post_blended [OF m5', of T_IDXS lead_one rm t_follow lxv0 l0 l1] by simp_all
  have l0e: "l0 = lead_obstacle (process_lead T_IDXS ACCEL_MIN s (Some lead_one))"
    and l1e: "l1 = lead_obstacle (process_lead T_IDXS ACCEL_MIN s (Some lead_two))"
    by (simp_all add: l0_def l1_def lxv0_def lxv1_def p1)
  show ?thesis
    apply (rule exI [of _ ?s'])
    apply (rule exI [of _ pre])
    apply (rule exI [of _ "run_solver_input (s4\<lparr>solver := sv3\<rparr>)"])
    using upd pre post src par xs5 unfolding l0e l1e by simp
qed

lemma np_min2: "np_min [a, b] = min a b"
  by (simp add: np_min_def min.commute)

lemma np_min3: "np_min [a, b, c] = min a (min b c)"
  by (simp add: np_min_def min.commute min.left_commute)

lemma all_less3: "(\<forall>k<3::nat. P k) \<longleftrightarrow> P 0 \<and> P 1 \<and> P 2"
  by (auto simp: numeral_3_eq_3 numeral_2_eq_2 less_Suc_eq)

lemma argmin3:
  "argmin [a, b, c] < 3 \<and> (\<forall>k<3. [a, b, c] ! argmin [a, b, c] \<le> [a, b, c] ! k)"
  unfolding all_less3 by (auto simp: argmin_def)

section \<open>A fresh controller\<close>

lemma mpc_init_result:
  assumes "md = ''acc'' \<or> md = ''blended''"
  shows "\<exists>s0. mpc_init T_IDXS md d = Inr s0 \<and> mode s0 = md \<and> shapes_ok s0
     \<and> x0 s0 = replicate X_DIM 0 \<and> last_cloudlog_t s0 = 0 \<and> cloudlog s0 = []
     \<and> source s0 = Cruise \<and> x_sol s0 = replicate (N + 1) (replicate X_DIM 0)"
proof -
  let ?b = "\<lparr>approach_factor_last = 1.0, mode = md, dt = d, solver = new_solver,
                v_solution = [], a_solution = [], prev_a = [], j_solution = [], yref = [],
                x_sol = [], u_sol = [], params = [], last_cloudlog_t = 0, mpc_status = False,
                crash_cnt = 0, solution_status = 0, solve_time = 0, time_qp_solution = 0,
                time_linearization = 0, time_integrator = 0, x0 = [],
                acceleration_jerk_factor = 1.0, danger_jerk_factor = 1.0,
                speed_jerk_factor = 1.0, base_cost_weights = [],
                base_constraint_cost_weights = [], source = Cruise, cruise_min_a = None,
                max_a = None, cloudlog = []\<rparr>"
  have m: "mode ?b = ''acc'' \<or> mode ?b = ''blended''" using assms by simp
  obtain s' where r: "reset T_IDXS ?b = Inr s'"
     and f: "x_sol s' = replicate (N + 1) (replicate X_DIM 0)"
       "u_sol s' = replicate N (replicate 1 0)"
       "prev_a s' = replicate (N + 1) 0"
       "params s' = replicate (N + 1) (replicate PARAM_DIM 0)"
       "yref s' = replicate (N + 1) (replicate COST_DIM 0)"
       "x0 s' = replicate X_DIM 0"
       "length (base_cost_weights s') = COST_DIM"
       "last_cloudlog_t s' = 0" "mode s' = mode ?b" "cloudlog s' = cloudlog ?b"
    using reset_result [OF m, of T_IDXS] by blast
  have "mpc_init T_IDXS md d = Inr (s'\<lparr>source := SOURCES ! 2\<rparr>)"
    using r by (simp add: mpc_init_def Let_def)
  moreover have "shapes_ok (s'\<lparr>source := SOURCES ! 2\<rparr>)"
    using f by (auto simp: shapes_ok_def list_all_iff)
  ultimately show ?thesis using f by (simp add: SOURCES_def)
qed

lemma set_accel_limits_frame:
  "mode (set_accel_limits lo hi s) = mode s"
  "shapes_ok (set_accel_limits lo hi s) = shapes_ok s"
  "x0 (set_accel_limits lo hi s) = x0 s"
  "x_sol (set_accel_limits lo hi s) = x_sol s"
  "cruise_min_a (set_accel_limits lo hi s) = Some lo"
  "max_a (set_accel_limits lo hi s) = Some hi"
  by (simp_all add: set_accel_limits_def shapes_ok_def)

section \<open>Solver divergence\<close>

text \<open>
  C1. Two solves in a row fail, at clock readings 10 s and 11 s, on a fresh ACC
  controller. Each run ends in the reset state (status 0, all-zero solution), and each
  logs the warning: the two warnings are one second apart, since \<open>reset\<close> sets
  \<open>last_cloudlog_t\<close> back to 0.
\<close>

theorem run_divergence_warns_on_every_failure:
  "\<exists>s0 s1 s2. mpc_init T_IDXS_LST ''acc'' 0.05 = Inr s0
     \<and> run T_IDXS_LST solve_diverged 10 s0 = Inr s1
     \<and> run T_IDXS_LST solve_diverged 11 s1 = Inr s2
     \<and> cloudlog s0 = [] \<and> cloudlog s1 = [(10, 4)] \<and> cloudlog s2 = [(10, 4), (11, 4)]
     \<and> last_cloudlog_t s1 = 0
     \<and> solution_status s2 = 0
     \<and> v_solution s2 = replicate (N + 1) 0 \<and> a_solution s2 = replicate (N + 1) 0
     \<and> j_solution s2 = replicate N 0 \<and> x_sol s2 = replicate (N + 1) (replicate X_DIM 0)"
proof -
  obtain s0 where 0: "mpc_init T_IDXS_LST ''acc'' 0.05 = Inr s0" "mode s0 = ''acc''"
      "last_cloudlog_t s0 = 0" "cloudlog s0 = []"
    using mpc_init_result [of "''acc''" T_IDXS_LST "0.05"] by auto
  have f0: "so_status (solve_diverged (run_solver_input s0)) \<noteq> 0"
    by (simp add: solve_diverged_def)
  obtain s1 where 1: "run T_IDXS_LST solve_diverged 10 s0 = Inr s1" "mode s1 = ''acc''"
      "last_cloudlog_t s1 = 0" "cloudlog s1 = [(10, 4)]"
    using run_failure [of s0 solve_diverged T_IDXS_LST 10] 0 f0
    by (auto simp: solve_diverged_def)
  have f1: "so_status (solve_diverged (run_solver_input s1)) \<noteq> 0"
    by (simp add: solve_diverged_def)
  obtain s2 where 2: "run T_IDXS_LST solve_diverged 11 s1 = Inr s2"
      "cloudlog s2 = [(10, 4), (11, 4)]" "solution_status s2 = 0"
      "v_solution s2 = replicate (N + 1) 0" "a_solution s2 = replicate (N + 1) 0"
      "j_solution s2 = replicate N 0" "x_sol s2 = replicate (N + 1) (replicate X_DIM 0)"
    using run_failure [of s1 solve_diverged T_IDXS_LST 11] 1 f1
    by (auto simp: solve_diverged_def)
  show ?thesis using 0 1 2 by blast
qed

section \<open>Obstacle parameter and source\<close>

text \<open>
  C2. On an update in ACC mode the obstacle-position parameter (index 2) passed to the
  solver at every stage is the minimum of lead0's, lead1's and the cruise obstacle's
  position at that stage, and the source reported is the candidate at the first index
  of the minimal first-step position; in blended mode the parameter is the minimum of
  the two leads' obstacle positions.
\<close>

theorem update_obstacle_parameter_is_min:
  assumes "shapes_ok s" and "length T_IDXS = N + 1"
    and "cruise_min_a s = Some min_a" and "max_a s = Some mx_a"
  shows "(mode s = ''acc'' \<longrightarrow>
      (\<exists>s'. update T_IDXS ACCEL_MIN solve t s lead_one lead_two v_cruise x v a j rm
                 t_follow tma pers = Inr s'
        \<and> (\<forall>i<N + 1. sv_p (solver s') i ! 2 =
              min (lead_obstacle (process_lead T_IDXS ACCEL_MIN s (Some lead_one)) ! i)
               (min (lead_obstacle (process_lead T_IDXS ACCEL_MIN s (Some lead_two)) ! i)
                 (cruise_obstacle T_IDXS (x0 s ! 1) min_a mx_a v_cruise t_follow ! i)))
        \<and> (\<exists>row k. row =
               [lead_obstacle (process_lead T_IDXS ACCEL_MIN s (Some lead_one)) ! 0,
                lead_obstacle (process_lead T_IDXS ACCEL_MIN s (Some lead_two)) ! 0,
                cruise_obstacle T_IDXS (x0 s ! 1) min_a mx_a v_cruise t_follow ! 0]
             \<and> k = argmin row \<and> k < 3 \<and> source s' = SOURCES ! k
             \<and> (\<forall>k'<3. row ! k \<le> row ! k'))))
   \<and> (mode s = ''blended'' \<and> x \<noteq> [] \<longrightarrow>
      (\<exists>s'. update T_IDXS ACCEL_MIN solve t s lead_one lead_two v_cruise x v a j rm
                 t_follow tma pers = Inr s'
        \<and> (\<forall>i<N + 1. sv_p (solver s') i ! 2 =
              min (lead_obstacle (process_lead T_IDXS ACCEL_MIN s (Some lead_one)) ! i)
                (lead_obstacle (process_lead T_IDXS ACCEL_MIN s (Some lead_two)) ! i))))"
proof (intro conjI impI)
  assume m: "mode s = ''acc''"
  show "\<exists>s'. update T_IDXS ACCEL_MIN solve t s lead_one lead_two v_cruise x v a j rm
                 t_follow tma pers = Inr s'
        \<and> (\<forall>i<N + 1. sv_p (solver s') i ! 2 =
              min (lead_obstacle (process_lead T_IDXS ACCEL_MIN s (Some lead_one)) ! i)
               (min (lead_obstacle (process_lead T_IDXS ACCEL_MIN s (Some lead_two)) ! i)
                 (cruise_obstacle T_IDXS (x0 s ! 1) min_a mx_a v_cruise t_follow ! i)))
        \<and> (\<exists>row k. row =
               [lead_obstacle (process_lead T_IDXS ACCEL_MIN s (Some lead_one)) ! 0,
                lead_obstacle (process_lead T_IDXS ACCEL_MIN s (Some lead_two)) ! 0,
                cruise_obstacle T_IDXS (x0 s ! 1) min_a mx_a v_cruise t_follow ! 0]
             \<and> k = argmin row \<and> k < 3 \<and> source s' = SOURCES ! k
             \<and> (\<forall>k'<3. row ! k \<le> row ! k'))"
    using update_acc [OF m assms(1) assms(3) assms(4),
        of T_IDXS ACCEL_MIN solve t lead_one lead_two v_cruise x v a j rm t_follow tma pers]
      argmin3 [of "lead_obstacle (process_lead T_IDXS ACCEL_MIN s (Some lead_one)) ! 0"
        "lead_obstacle (process_lead T_IDXS ACCEL_MIN s (Some lead_two)) ! 0"
        "cruise_obstacle T_IDXS (x0 s ! 1) min_a mx_a v_cruise t_follow ! 0"]
    by (auto simp: np_min3 simp del: One_nat_def)
next
  assume m: "mode s = ''blended'' \<and> x \<noteq> []"
  show "\<exists>s'. update T_IDXS ACCEL_MIN solve t s lead_one lead_two v_cruise x v a j rm
                 t_follow tma pers = Inr s'
        \<and> (\<forall>i<N + 1. sv_p (solver s') i ! 2 =
              min (lead_obstacle (process_lead T_IDXS ACCEL_MIN s (Some lead_one)) ! i)
                (lead_obstacle (process_lead T_IDXS ACCEL_MIN s (Some lead_two)) ! i))"
    using update_blended [of s min_a mx_a x T_IDXS ACCEL_MIN solve t lead_one lead_two
        v_cruise v a j rm t_follow tma pers] m assms
    by (auto simp: np_min2)
qed


section \<open>Concrete runs of update\<close>

lemma process_no_lead:
  "x0 s = replicate X_DIM 0 \<Longrightarrow>
     process_lead T_IDXS (- 3.5) s (Some no_lead) = extrapolate_lead T_IDXS 50 10 0 1.5"
  by (simp add: process_lead_def no_lead_def X_DIM_def clip_def LEAD_ACCEL_TAU_def)

lemma process_stopped_lead:
  "x0 s = replicate X_DIM 0 \<Longrightarrow> 0 \<le> d \<Longrightarrow> d \<le> 100000000 \<Longrightarrow>
     process_lead T_IDXS (- 3.5) s (Some (lead_stopped_at d)) = extrapolate_lead T_IDXS d 0 0 1.5"
  by (simp add: process_lead_def lead_stopped_at_def X_DIM_def clip_def LEAD_ACCEL_TAU_def)

lemma extrapolate_no_lead_hd:
  "hd (extrapolate_lead T_IDXS_LST 50 10 0 1.5) = (50, 10)"
  by (simp add: extrapolate_lead_def T_IDXS_LST_def T_DIFFS_def cumsum_def np_clip_def)


lemma thirteen: "[d, d, d, d, d, d, d, d, d, d, d, d, d] = replicate (N + 1) d"
  by (simp add: N_def numeral_eq_Suc)

lemma extrapolate_stopped:
  "lead_obstacle (extrapolate_lead T_IDXS_LST d 0 0 1.5) = replicate (N + 1) d"
  unfolding thirteen [symmetric]
  by (simp add: extrapolate_lead_def T_IDXS_LST_def T_DIFFS_def cumsum_def np_clip_def
      lead_obstacle_def get_stopped_equivalence_factor_def)

lemma extrapolate_no_lead_first:
  "lead_obstacle (extrapolate_lead T_IDXS_LST 50 10 0 1.5) ! 0 = 70"
  by (simp add: extrapolate_lead_def T_IDXS_LST_def T_DIFFS_def cumsum_def np_clip_def
      lead_obstacle_def get_stopped_equivalence_factor_def COMFORT_BRAKE_def)

lemma cruise_obstacle_first:
  "cruise_obstacle T_IDXS_LST 0 (- 1.2) 1.2 30 1.45 ! 0 = 6"
  by (simp add: cruise_obstacle_def T_IDXS_LST_def T_DIFFS_def cumsum_def np_clip_def
      get_safe_obstacle_distance_def COMFORT_BRAKE_def STOP_DISTANCE_def)

lemma still_solution:
  "map (so_x (solve_still sv)) [0..<N + 1] = replicate (N + 1) [0, 0, 0]"
  by (simp add: solve_still_def map_replicate_const del: upt_Suc)


lemma stopped_gap_violated:
  "safe_gap_violated (replicate (N + 1) d) (replicate (N + 1) [0, 0, 0]) t_follow
     \<longleftrightarrow> d < 6"
proof -
  have "(replicate (N + 1) d ! i
          - get_safe_obstacle_distance (replicate (N + 1) [0, 0, 0] ! i ! 1) t_follow)
          - replicate (N + 1) [0, 0, 0] ! i ! 0 < 0.0 \<longleftrightarrow> d < 6"
    if "i < N + 1" for i :: nat
    using that
    by (simp add: get_safe_obstacle_distance_def COMFORT_BRAKE_def STOP_DISTANCE_def
        del: replicate_Suc)
  then have "safe_gap_violated (replicate (N + 1) d) (replicate (N + 1) [0, 0, 0]) t_follow
     \<longleftrightarrow> (\<exists>i<N + 1. d < 6)"
    unfolding safe_gap_violated_def list_ex_iff by (auto simp del: upt_Suc replicate_Suc)
  then show ?thesis by auto
qed

theorem update_obstacle_parameter_is_min_witness:
  "\<exists>s0. mpc_init T_IDXS_LST ''acc'' 0.05 = Inr s0
     \<and> shapes_ok (set_accel_limits (- 1.2) 1.2 s0) \<and> length T_IDXS_LST = N + 1
     \<and> mode (set_accel_limits (- 1.2) 1.2 s0) = ''acc''
     \<and> (\<exists>s'. update T_IDXS_LST (- 3.5) solve_still 0 (set_accel_limits (- 1.2) 1.2 s0)
                no_lead no_lead 30 (replicate 13 0) (replicate 13 0) (replicate 13 0)
                (replicate 13 0) False 1.45 False Standard = Inr s'
           \<and> source s' = Cruise \<and> sv_p (solver s') 0 ! 2 = 6)"
proof -
  obtain s0 where 0: "mpc_init T_IDXS_LST ''acc'' 0.05 = Inr s0" "mode s0 = ''acc''"
      "shapes_ok s0" "x0 s0 = replicate X_DIM 0"
    using mpc_init_result [of "''acc''" T_IDXS_LST "0.05"] by auto
  let ?s = "set_accel_limits (- 1.2) 1.2 s0"
  have h: "shapes_ok ?s" "length T_IDXS_LST = N + 1" "cruise_min_a ?s = Some (- 1.2)"
      "max_a ?s = Some 1.2" "mode ?s = ''acc''" "x0 ?s = replicate X_DIM 0"
    using 0 by (simp_all add: set_accel_limits_frame T_IDXS_LST_def N_def)
  have x1: "x0 ?s ! 1 = 0" using h(6) by (simp add: X_DIM_def)
  have l: "lead_obstacle (process_lead T_IDXS_LST (- 3.5) ?s (Some no_lead)) ! 0 = 70"
    using process_no_lead [OF h(6), of T_IDXS_LST] extrapolate_no_lead_first by simp
  have a: "argmin [70, 70, 6 :: real] = 2" by (simp add: argmin_def)
  have s2: "SOURCES ! 2 = Cruise" by (simp add: SOURCES_def)
  have m3: "min (70::real) (min 70 6) = 6" by simp
  obtain s' where u: "update T_IDXS_LST (- 3.5) solve_still 0 ?s
                no_lead no_lead 30 (replicate 13 0) (replicate 13 0) (replicate 13 0)
                (replicate 13 0) False 1.45 False Standard = Inr s'"
     and p: "\<forall>i<N + 1. sv_p (solver s') i ! 2 =
              min (lead_obstacle (process_lead T_IDXS_LST (- 3.5) ?s (Some no_lead)) ! i)
               (min (lead_obstacle (process_lead T_IDXS_LST (- 3.5) ?s (Some no_lead)) ! i)
                 (cruise_obstacle T_IDXS_LST (x0 ?s ! 1) (- 1.2) 1.2 30 1.45 ! i))"
     and src: "source s' = SOURCES ! argmin
               [lead_obstacle (process_lead T_IDXS_LST (- 3.5) ?s (Some no_lead)) ! 0,
                lead_obstacle (process_lead T_IDXS_LST (- 3.5) ?s (Some no_lead)) ! 0,
                cruise_obstacle T_IDXS_LST (x0 ?s ! 1) (- 1.2) 1.2 30 1.45 ! 0]"
    using update_obstacle_parameter_is_min [OF h(1) h(2) h(3) h(4),
        of "- 3.5" solve_still 0 no_lead no_lead 30 "replicate 13 0" "replicate 13 0"
          "replicate 13 0" "replicate 13 0" False "1.45" False Standard] h(5)
    by blast
  have "source s' = Cruise"
    unfolding src l x1 cruise_obstacle_first a s2 ..
  moreover have "sv_p (solver s') 0 ! 2 = 6"
    using p [rule_format, of 0] unfolding l x1 cruise_obstacle_first m3 by simp
  ultimately show ?thesis using 0(1) h u by blast
qed


lemma stopped_lead_obstacle:
  assumes "x0 s = replicate X_DIM 0" and "0 \<le> d" and "d \<le> 100000000"
  shows "lead_obstacle (process_lead T_IDXS_LST (- 3.5) s (Some (lead_stopped_at d)))
           = replicate (N + 1) d"
  using process_stopped_lead [OF assms, of T_IDXS_LST] extrapolate_stopped [of d] by simp

text \<open>
  A fresh blended controller with accel limits, two standing leads at ranges \<open>d0\<close> and
  \<open>d1\<close>, and the solver answering with the all-zero trajectory.
\<close>

lemma blended_standing_leads:
  assumes "0 \<le> d0" "d0 \<le> 100000000" "0 \<le> d1" "d1 \<le> 100000000"
  shows "\<exists>s0 s'. mpc_init T_IDXS_LST ''blended'' 0.05 = Inr s0
     \<and> mode (set_accel_limits (- 1.2) 1.2 s0) = ''blended''
     \<and> shapes_ok (set_accel_limits (- 1.2) 1.2 s0)
     \<and> update T_IDXS_LST (- 3.5) solve_still 0 (set_accel_limits (- 1.2) 1.2 s0)
          (lead_stopped_at d0) (lead_stopped_at d1) 30 (replicate 13 0) (replicate 13 0)
          (replicate 13 0) (replicate 13 0) False 1.45 False Standard = Inr s'
     \<and> (source s' = Lead1 \<longleftrightarrow> d1 < 6 \<and> d1 \<noteq> d0)
     \<and> x_sol s' = replicate (N + 1) [0, 0, 0]
     \<and> lead_obstacle (process_lead T_IDXS_LST (- 3.5) (set_accel_limits (- 1.2) 1.2 s0)
          (Some (lead_stopped_at d0))) = replicate (N + 1) d0
     \<and> lead_obstacle (process_lead T_IDXS_LST (- 3.5) (set_accel_limits (- 1.2) 1.2 s0)
          (Some (lead_stopped_at d1))) = replicate (N + 1) d1"
proof -
  obtain s0 where 0: "mpc_init T_IDXS_LST ''blended'' 0.05 = Inr s0" "mode s0 = ''blended''"
      "shapes_ok s0" "x0 s0 = replicate X_DIM 0"
    using mpc_init_result [of "''blended''" T_IDXS_LST "0.05"] by auto
  let ?s = "set_accel_limits (- 1.2) 1.2 s0"
  have h: "mode ?s = ''blended''" "shapes_ok ?s" "cruise_min_a ?s = Some (- 1.2)"
      "max_a ?s = Some 1.2" "x0 ?s = replicate X_DIM 0"
    using 0 by (simp_all add: set_accel_limits_frame)
  have ne: "replicate 13 (0::real) \<noteq> []" by simp
  have l0: "lead_obstacle (process_lead T_IDXS_LST (- 3.5) ?s (Some (lead_stopped_at d0)))
           = replicate (N + 1) d0"
    using h(5) assms(1) assms(2) by (rule stopped_lead_obstacle)
  have l1: "lead_obstacle (process_lead T_IDXS_LST (- 3.5) ?s (Some (lead_stopped_at d1)))
           = replicate (N + 1) d1"
    using h(5) assms(3) assms(4) by (rule stopped_lead_obstacle)
  obtain s' pre sv where u: "update T_IDXS_LST (- 3.5) solve_still 0 ?s
          (lead_stopped_at d0) (lead_stopped_at d1) 30 (replicate 13 0) (replicate 13 0)
          (replicate 13 0) (replicate 13 0) False 1.45 False Standard = Inr s'"
    and pre: "pre = E2e \<or> pre = Cruise"
    and src: "source s' =
         (if safe_gap_violated (lead_obstacle (process_lead T_IDXS_LST (- 3.5) ?s
                 (Some (lead_stopped_at d1)))) (x_sol s') 1.45
             \<and> lead_obstacle (process_lead T_IDXS_LST (- 3.5) ?s (Some (lead_stopped_at d1))) ! 0
                 - lead_obstacle (process_lead T_IDXS_LST (- 3.5) ?s
                     (Some (lead_stopped_at d0))) ! 0 \<noteq> 0
          then Lead1
          else if safe_gap_violated
                    (lead_obstacle (process_lead T_IDXS_LST (- 3.5) ?s
                       (Some (lead_stopped_at d0))))
                    (x_sol s') 1.45
          then Lead0 else pre)"
    and xs: "x_sol s' = (if so_status (solve_still sv) = 0
                    then map (so_x (solve_still sv)) [0..<N + 1]
                    else replicate (N + 1) (replicate X_DIM 0))"
    using update_blended [OF h(1) h(2) h(3) h(4) ne, of T_IDXS_LST "- 3.5" solve_still 0
        "lead_stopped_at d0" "lead_stopped_at d1" 30 "replicate 13 0" "replicate 13 0"
        "replicate 13 0" False "1.45" False Standard]
    by blast
  have st: "so_status (solve_still sv) = 0" by (simp add: solve_still_def)
  have xs': "x_sol s' = replicate (N + 1) [0, 0, 0]"
    using xs st still_solution [of sv] by simp
  have n0: "replicate (N + 1) d ! 0 = d" for d :: real by simp
  have "source s' = (if d1 < 6 \<and> d1 - d0 \<noteq> 0 then Lead1
                     else if d0 < 6 then Lead0 else pre)"
    unfolding src l0 l1 xs' stopped_gap_violated n0 ..
  then have "source s' = Lead1 \<longleftrightarrow> d1 < 6 \<and> d1 \<noteq> d0"
    using pre by auto
  then show ?thesis using 0(1) h(1) h(2) u xs' l0 l1 by blast
qed


text \<open>
  C5 as stated fails: lead1 stands 3 m ahead and lead0 20 m ahead, so lead1 is the
  closer one at the first step; the solution stays at 0, inside lead1's safe gap of 6 m,
  and the source is relabelled to lead1.
\<close>

theorem update_blended_relabels_closer_lead1:
  "\<exists>s0 s'. mpc_init T_IDXS_LST ''blended'' 0.05 = Inr s0
     \<and> update T_IDXS_LST (- 3.5) solve_still 0 (set_accel_limits (- 1.2) 1.2 s0)
          (lead_stopped_at 20) (lead_stopped_at 3) 30 (replicate 13 0) (replicate 13 0)
          (replicate 13 0) (replicate 13 0) False 1.45 False Standard = Inr s'
     \<and> source s' = Lead1
     \<and> lead_obstacle (process_lead T_IDXS_LST (- 3.5) (set_accel_limits (- 1.2) 1.2 s0)
          (Some (lead_stopped_at 3))) ! 0 = 3
     \<and> lead_obstacle (process_lead T_IDXS_LST (- 3.5) (set_accel_limits (- 1.2) 1.2 s0)
          (Some (lead_stopped_at 20))) ! 0 = 20"
proof -
  have n0: "replicate (N + 1) d ! 0 = d" for d :: real by simp
  show ?thesis
    using blended_standing_leads [of 20 3] by (auto simp: n0 simp del: replicate_Suc)
qed

text \<open>
  C5, amended. In blended mode the source after the solve is lead1 exactly when the
  solution violates lead1's safe-gap constraint at some horizon step and lead1's
  first-step obstacle position differs from lead0's, whether lead1 is the farther or the
  closer of the two.
\<close>

theorem update_blended_lead1_iff:
  assumes "mode s = ''blended''" and "shapes_ok s" and "length T_IDXS = N + 1"
    and "cruise_min_a s = Some min_a" and "max_a s = Some mx_a" and "x \<noteq> []"
  shows "\<exists>s'. update T_IDXS ACCEL_MIN solve t s lead_one lead_two v_cruise x v a j rm
                 t_follow tma pers = Inr s'
     \<and> (source s' = Lead1 \<longleftrightarrow>
          safe_gap_violated (lead_obstacle (process_lead T_IDXS ACCEL_MIN s (Some lead_two)))
            (x_sol s') t_follow
          \<and> lead_obstacle (process_lead T_IDXS ACCEL_MIN s (Some lead_two)) ! 0
              \<noteq> lead_obstacle (process_lead T_IDXS ACCEL_MIN s (Some lead_one)) ! 0)"
proof -
  obtain s' pre where u: "update T_IDXS ACCEL_MIN solve t s lead_one lead_two v_cruise x v a j rm
                 t_follow tma pers = Inr s'"
    and pre: "pre = E2e \<or> pre = Cruise"
    and src: "source s' =
         (if safe_gap_violated (lead_obstacle (process_lead T_IDXS ACCEL_MIN s (Some lead_two)))
               (x_sol s') t_follow
             \<and> lead_obstacle (process_lead T_IDXS ACCEL_MIN s (Some lead_two)) ! 0
                 - lead_obstacle (process_lead T_IDXS ACCEL_MIN s (Some lead_one)) ! 0 \<noteq> 0
          then Lead1
          else if safe_gap_violated
                    (lead_obstacle (process_lead T_IDXS ACCEL_MIN s (Some lead_one)))
                    (x_sol s') t_follow
          then Lead0 else pre)"
    using update_blended [OF assms(1) assms(2) assms(4) assms(5) assms(6),
      of T_IDXS ACCEL_MIN solve t lead_one lead_two v_cruise v a j rm t_follow tma pers]
    by blast
  have "source s' = Lead1 \<longleftrightarrow>
          safe_gap_violated (lead_obstacle (process_lead T_IDXS ACCEL_MIN s (Some lead_two)))
            (x_sol s') t_follow
          \<and> lead_obstacle (process_lead T_IDXS ACCEL_MIN s (Some lead_two)) ! 0
              \<noteq> lead_obstacle (process_lead T_IDXS ACCEL_MIN s (Some lead_one)) ! 0"
    unfolding src using pre by auto
  then show ?thesis using u by blast
qed

theorem update_blended_lead1_iff_witness:
  "\<exists>s0 s'. mpc_init T_IDXS_LST ''blended'' 0.05 = Inr s0
     \<and> mode (set_accel_limits (- 1.2) 1.2 s0) = ''blended''
     \<and> shapes_ok (set_accel_limits (- 1.2) 1.2 s0)
     \<and> length T_IDXS_LST = N + 1
     \<and> cruise_min_a (set_accel_limits (- 1.2) 1.2 s0) = Some (- 1.2)
     \<and> max_a (set_accel_limits (- 1.2) 1.2 s0) = Some 1.2
     \<and> replicate 13 (0::real) \<noteq> []
     \<and> update T_IDXS_LST (- 3.5) solve_still 0 (set_accel_limits (- 1.2) 1.2 s0)
          (lead_stopped_at 3) (lead_stopped_at 4) 30 (replicate 13 0) (replicate 13 0)
          (replicate 13 0) (replicate 13 0) False 1.45 False Standard = Inr s'
     \<and> source s' = Lead1
     \<and> safe_gap_violated (lead_obstacle (process_lead T_IDXS_LST (- 3.5)
            (set_accel_limits (- 1.2) 1.2 s0) (Some (lead_stopped_at 4)))) (x_sol s') 1.45
     \<and> lead_obstacle (process_lead T_IDXS_LST (- 3.5) (set_accel_limits (- 1.2) 1.2 s0)
          (Some (lead_stopped_at 4))) ! 0
        \<noteq> lead_obstacle (process_lead T_IDXS_LST (- 3.5) (set_accel_limits (- 1.2) 1.2 s0)
          (Some (lead_stopped_at 3))) ! 0"
proof -
  obtain s0 s' where 0: "mpc_init T_IDXS_LST ''blended'' 0.05 = Inr s0"
    and m: "mode (set_accel_limits (- 1.2) 1.2 s0) = ''blended''"
    and sh: "shapes_ok (set_accel_limits (- 1.2) 1.2 s0)"
    and u: "update T_IDXS_LST (- 3.5) solve_still 0 (set_accel_limits (- 1.2) 1.2 s0)
          (lead_stopped_at 3) (lead_stopped_at 4) 30 (replicate 13 0) (replicate 13 0)
          (replicate 13 0) (replicate 13 0) False 1.45 False Standard = Inr s'"
    and src: "source s' = Lead1 \<longleftrightarrow> (4::real) < 6 \<and> (4::real) \<noteq> 3"
    using blended_standing_leads [of 3 4] by auto
  have len: "length T_IDXS_LST = N + 1" by (simp add: T_IDXS_LST_def N_def)
  have lo: "cruise_min_a (set_accel_limits (- 1.2) 1.2 s0) = Some (- 1.2)"
    and hi: "max_a (set_accel_limits (- 1.2) 1.2 s0) = Some 1.2"
    by (simp_all add: set_accel_limits_frame)
  have ne: "replicate 13 (0::real) \<noteq> []" by simp
  have l1: "source s' = Lead1" using src by simp
  show ?thesis
    using update_blended_lead1_iff [OF m sh len lo hi ne, of "- 3.5" solve_still 0
        "lead_stopped_at 3" "lead_stopped_at 4" 30 "replicate 13 0" "replicate 13 0"
        "replicate 13 0" False "1.45" False Standard]
      0 m sh len lo hi ne u l1
    by auto
qed

section \<open>What each block of the arbiter's update touches\<close>

lemma force_stop_logic_fields:
  "slc_target (fst (force_stop_logic C s inp)) = slc_target s
   \<and> speed_limit_timer (fst (force_stop_logic C s inp)) = speed_limit_timer s
   \<and> speed_limit_changed (fst (force_stop_logic C s inp)) = speed_limit_changed s
   \<and> SLCConfirmed (fst (force_stop_logic C s inp)) = SLCConfirmed s
   \<and> tracked_model_length (fst (force_stop_logic C s inp)) = tracked_model_length s
   \<and> vtsc_target_prev (fst (force_stop_logic C s inp)) = vtsc_target_prev s
   \<and> current_decel (fst (force_stop_logic C s inp)) = current_decel s
   \<and> reaccel_alpha_chauffeur (fst (force_stop_logic C s inp)) = reaccel_alpha_chauffeur s
   \<and> LOW_LAT_ACC (fst (force_stop_logic C s inp)) = LOW_LAT_ACC s
   \<and> LOOKAHEAD_DIST (fst (force_stop_logic C s inp)) = LOOKAHEAD_DIST s
   \<and> MAX_DECEL (fst (force_stop_logic C s inp)) = MAX_DECEL s
   \<and> MAX_JERK (fst (force_stop_logic C s inp)) = MAX_JERK s"
  by (simp add: force_stop_logic_def Let_def)

lemma force_stop_logic_frame:
  assumes "force_stop_logic C s inp = (s1, en)"
  shows "slc_target s1 = slc_target s \<and> speed_limit_timer s1 = speed_limit_timer s
     \<and> speed_limit_changed s1 = speed_limit_changed s \<and> SLCConfirmed s1 = SLCConfirmed s
     \<and> tracked_model_length s1 = tracked_model_length s
     \<and> vtsc_target_prev s1 = vtsc_target_prev s \<and> current_decel s1 = current_decel s
     \<and> reaccel_alpha_chauffeur s1 = reaccel_alpha_chauffeur s
     \<and> LOW_LAT_ACC s1 = LOW_LAT_ACC s \<and> LOOKAHEAD_DIST s1 = LOOKAHEAD_DIST s
     \<and> MAX_DECEL s1 = MAX_DECEL s \<and> MAX_JERK s1 = MAX_JERK s"
proof -
  have "s1 = fst (force_stop_logic C s inp)" using assms by simp
  then show ?thesis using force_stop_logic_fields [of C s inp] by simp
qed

lemma mtsc_update_fields:
  "case mtsc_update C s inp v_cruise v_ego of
     Inl e \<Rightarrow> True
   | Inr s' \<Rightarrow>
       slc_target s' = slc_target s \<and> speed_limit_timer s' = speed_limit_timer s
       \<and> speed_limit_changed s' = speed_limit_changed s \<and> SLCConfirmed s' = SLCConfirmed s
       \<and> tracked_model_length s' = tracked_model_length s
       \<and> override_force_stop s' = override_force_stop s
       \<and> vtsc_target_prev s' = vtsc_target_prev s \<and> current_decel s' = current_decel s
       \<and> reaccel_alpha_chauffeur s' = reaccel_alpha_chauffeur s
       \<and> LOW_LAT_ACC s' = LOW_LAT_ACC s \<and> LOOKAHEAD_DIST s' = LOOKAHEAD_DIST s
       \<and> MAX_DECEL s' = MAX_DECEL s \<and> MAX_JERK s' = MAX_JERK s"
  by (simp add: mtsc_update_def Let_def)

lemma mtsc_update_frame:
  assumes "mtsc_update C s inp v_cruise v_ego = Inr s'"
  shows "slc_target s' = slc_target s \<and> speed_limit_timer s' = speed_limit_timer s
     \<and> speed_limit_changed s' = speed_limit_changed s \<and> SLCConfirmed s' = SLCConfirmed s
     \<and> tracked_model_length s' = tracked_model_length s
     \<and> override_force_stop s' = override_force_stop s
     \<and> vtsc_target_prev s' = vtsc_target_prev s \<and> current_decel s' = current_decel s
     \<and> reaccel_alpha_chauffeur s' = reaccel_alpha_chauffeur s
     \<and> LOW_LAT_ACC s' = LOW_LAT_ACC s \<and> LOOKAHEAD_DIST s' = LOOKAHEAD_DIST s
     \<and> MAX_DECEL s' = MAX_DECEL s \<and> MAX_JERK s' = MAX_JERK s"
  using mtsc_update_fields [where C = C and s = s and inp = inp and v_cruise = v_cruise
      and v_ego = v_ego] unfolding assms by simp

lemma mtsc_update_off:
  "\<not> map_turn_speed_controller inp \<Longrightarrow> \<exists>s'. mtsc_update C s inp v_cruise v_ego = Inr s'"
  by (simp add: mtsc_update_def)

lemma slc_confirmation_frame:
  "tracked_model_length (slc_confirmation C s inp u) = tracked_model_length s
   \<and> override_force_stop (slc_confirmation C s inp u) = override_force_stop s
   \<and> vtsc_target_prev (slc_confirmation C s inp u) = vtsc_target_prev s
   \<and> current_decel (slc_confirmation C s inp u) = current_decel s
   \<and> reaccel_alpha_chauffeur (slc_confirmation C s inp u) = reaccel_alpha_chauffeur s
   \<and> LOW_LAT_ACC (slc_confirmation C s inp u) = LOW_LAT_ACC s
   \<and> LOOKAHEAD_DIST (slc_confirmation C s inp u) = LOOKAHEAD_DIST s
   \<and> MAX_DECEL (slc_confirmation C s inp u) = MAX_DECEL s
   \<and> MAX_JERK (slc_confirmation C s inp u) = MAX_JERK s
   \<and> overridden_speed (slc_confirmation C s inp u) = overridden_speed s"
  by (simp add: slc_confirmation_def Let_def)

lemma slc_update_frame:
  "tracked_model_length (slc_update C s inp vc ve vcc vec) = tracked_model_length s
   \<and> override_force_stop (slc_update C s inp vc ve vcc vec) = override_force_stop s
   \<and> vtsc_target_prev (slc_update C s inp vc ve vcc vec) = vtsc_target_prev s
   \<and> current_decel (slc_update C s inp vc ve vcc vec) = current_decel s
   \<and> reaccel_alpha_chauffeur (slc_update C s inp vc ve vcc vec) = reaccel_alpha_chauffeur s
   \<and> LOW_LAT_ACC (slc_update C s inp vc ve vcc vec) = LOW_LAT_ACC s
   \<and> LOOKAHEAD_DIST (slc_update C s inp vc ve vcc vec) = LOOKAHEAD_DIST s
   \<and> MAX_DECEL (slc_update C s inp vc ve vcc vec) = MAX_DECEL s
   \<and> MAX_JERK (slc_update C s inp vc ve vcc vec) = MAX_JERK s"
  using slc_confirmation_frame [of C s inp "slc_desired_speed_limit inp"]
  by (simp add: slc_update_def Let_def)

lemma slc_update_confirming:
  assumes "speed_limit_controller inp" and "speed_limit_confirmation inp"
    and "slc_target s \<noteq> 0"
  shows "slc_target (slc_update C s inp vc ve vcc vec)
           = slc_target (slc_confirmation C s inp (slc_desired_speed_limit inp))
     \<and> speed_limit_timer (slc_update C s inp vc ve vcc vec)
           = speed_limit_timer (slc_confirmation C s inp (slc_desired_speed_limit inp))
     \<and> speed_limit_changed (slc_update C s inp vc ve vcc vec)
           = speed_limit_changed (slc_confirmation C s inp (slc_desired_speed_limit inp))
     \<and> SLCConfirmed (slc_update C s inp vc ve vcc vec)
           = SLCConfirmed (slc_confirmation C s inp (slc_desired_speed_limit inp))"
  using assms by (simp add: slc_update_def Let_def)

lemma vtsc_jerk_limit_frame:
  "slc_target (vtsc_jerk_limit C s ve vt) = slc_target s
   \<and> speed_limit_timer (vtsc_jerk_limit C s ve vt) = speed_limit_timer s
   \<and> speed_limit_changed (vtsc_jerk_limit C s ve vt) = speed_limit_changed s
   \<and> SLCConfirmed (vtsc_jerk_limit C s ve vt) = SLCConfirmed s
   \<and> tracked_model_length (vtsc_jerk_limit C s ve vt) = tracked_model_length s
   \<and> override_force_stop (vtsc_jerk_limit C s ve vt) = override_force_stop s"
  by (simp add: vtsc_jerk_limit_def Let_def)

lemma vtsc_update_fields:
  "case vtsc_update C s inp v_cruise v_ego of
     Inl e \<Rightarrow> True
   | Inr s' \<Rightarrow>
       slc_target s' = slc_target s \<and> speed_limit_timer s' = speed_limit_timer s
       \<and> speed_limit_changed s' = speed_limit_changed s \<and> SLCConfirmed s' = SLCConfirmed s
       \<and> tracked_model_length s' = tracked_model_length s
       \<and> override_force_stop s' = override_force_stop s"
  by (simp add: vtsc_update_def Let_def vtsc_jerk_limit_frame split: sum.splits prod.splits)

lemma vtsc_update_frame:
  assumes "vtsc_update C s inp v_cruise v_ego = Inr s'"
  shows "slc_target s' = slc_target s \<and> speed_limit_timer s' = speed_limit_timer s
     \<and> speed_limit_changed s' = speed_limit_changed s \<and> SLCConfirmed s' = SLCConfirmed s
     \<and> tracked_model_length s' = tracked_model_length s
     \<and> override_force_stop s' = override_force_stop s"
  using vtsc_update_fields [where C = C and s = s and inp = inp and v_cruise = v_cruise
      and v_ego = v_ego] unfolding assms by simp

lemma vtsc_update_off:
  "\<not> vision_turn_controller inp \<Longrightarrow> \<exists>s'. vtsc_update C s inp v_cruise v_ego = Inr s'"
  by (simp add: vtsc_update_def Let_def)

lemma final_target_fields:
  "case final_target C s inp en v_cruise v_ego d of
     Inl e \<Rightarrow> True
   | Inr (s', r) \<Rightarrow>
       slc_target s' = slc_target s \<and> speed_limit_timer s' = speed_limit_timer s
       \<and> speed_limit_changed s' = speed_limit_changed s \<and> SLCConfirmed s' = SLCConfirmed s
       \<and> vtsc_target s' = vtsc_target s \<and> vtsc_target_prev s' = vtsc_target_prev s"
  by (simp add: final_target_def Let_def)

lemma final_target_frame:
  assumes "final_target C s inp en v_cruise v_ego d = Inr (s', r)"
  shows "slc_target s' = slc_target s \<and> speed_limit_timer s' = speed_limit_timer s
     \<and> speed_limit_changed s' = speed_limit_changed s \<and> SLCConfirmed s' = SLCConfirmed s
     \<and> vtsc_target s' = vtsc_target s \<and> vtsc_target_prev s' = vtsc_target_prev s"
  using final_target_fields [where C = C and s = s and inp = inp and en = en
      and v_cruise = v_cruise and v_ego = v_ego and d = d] unfolding assms by simp

lemma final_target_returns:
  "PLANNER_TIME C \<noteq> 0 \<Longrightarrow> \<exists>s' r. final_target C s inp en v_cruise v_ego d = Inr (s', r)"
  by (simp add: final_target_def Let_def)

text \<open>\<open>update\<close> is its blocks in sequence.\<close>

lemma vcruise_update_blocks:
  assumes "force_stop_logic C s inp = (s1, en)"
    and "mtsc_update C s1 inp v_cruise v_ego = Inr s2"
    and "vtsc_update C (slc_update C s2 inp v_cruise v_ego
            (max (vCruiseCluster inp * KPH_TO_MS C) v_cruise) (max (vEgoCluster inp) v_ego))
            inp v_cruise v_ego = Inr s4"
    and "final_target C s4 inp en v_cruise v_ego (max (vEgoCluster inp) v_ego - v_ego)
           = Inr (s5, r)"
  shows "vcruise_update C s inp v_cruise v_ego =
           Inr (s5\<lparr>mtsc_target := mtsc_target s5
                       + (max (vCruiseCluster inp * KPH_TO_MS C) v_cruise - v_cruise),
                    vtsc_target := vtsc_target s5
                       + (max (vCruiseCluster inp * KPH_TO_MS C) v_cruise - v_cruise)\<rparr>, r)"
  using assms by (simp add: vcruise_update_def Let_def)

lemma vcruise_update_inv:
  assumes u: "vcruise_update C s inp v_cruise v_ego = Inr (s', r)"
  shows "\<exists>s1 en s2 s4 s5. force_stop_logic C s inp = (s1, en)
    \<and> mtsc_update C s1 inp v_cruise v_ego = Inr s2
    \<and> vtsc_update C (slc_update C s2 inp v_cruise v_ego
            (max (vCruiseCluster inp * KPH_TO_MS C) v_cruise) (max (vEgoCluster inp) v_ego))
            inp v_cruise v_ego = Inr s4
    \<and> final_target C s4 inp en v_cruise v_ego (max (vEgoCluster inp) v_ego - v_ego)
           = Inr (s5, r)
    \<and> s' = s5\<lparr>mtsc_target := mtsc_target s5
                       + (max (vCruiseCluster inp * KPH_TO_MS C) v_cruise - v_cruise),
                    vtsc_target := vtsc_target s5
                       + (max (vCruiseCluster inp * KPH_TO_MS C) v_cruise - v_cruise)\<rparr>"
proof -
  obtain s1 en where 1: "force_stop_logic C s inp = (s1, en)"
    by (cases "force_stop_logic C s inp")
  obtain s2 where 2: "mtsc_update C s1 inp v_cruise v_ego = Inr s2"
    using u 1 by (cases "mtsc_update C s1 inp v_cruise v_ego")
      (simp_all add: vcruise_update_def Let_def)
  let ?s3 = "slc_update C s2 inp v_cruise v_ego
            (max (vCruiseCluster inp * KPH_TO_MS C) v_cruise) (max (vEgoCluster inp) v_ego)"
  obtain s4 where 4: "vtsc_update C ?s3 inp v_cruise v_ego = Inr s4"
    using u 1 2 by (cases "vtsc_update C ?s3 inp v_cruise v_ego")
      (simp_all add: vcruise_update_def Let_def)
  obtain s5 r' where 5: "final_target C s4 inp en v_cruise v_ego
            (max (vEgoCluster inp) v_ego - v_ego) = Inr (s5, r')"
    using u 1 2 4
    by (cases "final_target C s4 inp en v_cruise v_ego (max (vEgoCluster inp) v_ego - v_ego)")
      (auto simp: vcruise_update_def Let_def)
  have "vcruise_update C s inp v_cruise v_ego =
           Inr (s5\<lparr>mtsc_target := mtsc_target s5
                       + (max (vCruiseCluster inp * KPH_TO_MS C) v_cruise - v_cruise),
                    vtsc_target := vtsc_target s5
                       + (max (vCruiseCluster inp * KPH_TO_MS C) v_cruise - v_cruise)\<rparr>, r')"
    using vcruise_update_blocks [OF 1 2 4 5] .
  then have "r' = r" and "s' = s5\<lparr>mtsc_target := mtsc_target s5
                       + (max (vCruiseCluster inp * KPH_TO_MS C) v_cruise - v_cruise),
                    vtsc_target := vtsc_target s5
                       + (max (vCruiseCluster inp * KPH_TO_MS C) v_cruise - v_cruise)\<rparr>"
    using u by simp_all
  then show ?thesis using 1 2 4 5 by blast
qed

lemma vcruise_update_returns:
  assumes "\<not> map_turn_speed_controller inp" and "\<not> vision_turn_controller inp"
    and "PLANNER_TIME C \<noteq> 0"
  shows "\<exists>s' r. vcruise_update C s inp v_cruise v_ego = Inr (s', r)"
proof -
  obtain s1 en where 1: "force_stop_logic C s inp = (s1, en)"
    by (cases "force_stop_logic C s inp")
  obtain s2 where 2: "mtsc_update C s1 inp v_cruise v_ego = Inr s2"
    using mtsc_update_off [OF assms(1)] by blast
  obtain s4 where 4: "vtsc_update C (slc_update C s2 inp v_cruise v_ego
            (max (vCruiseCluster inp * KPH_TO_MS C) v_cruise) (max (vEgoCluster inp) v_ego))
            inp v_cruise v_ego = Inr s4"
    using vtsc_update_off [OF assms(2)] by blast
  obtain s5 r where 5: "final_target C s4 inp en v_cruise v_ego
            (max (vEgoCluster inp) v_ego - v_ego) = Inr (s5, r)"
    using final_target_returns [OF assms(3)] by blast
  show ?thesis using vcruise_update_blocks [OF 1 2 4 5] by blast
qed


section \<open>Speed-limit confirmation\<close>

text \<open>
  C6, amended. A pending change (the advisor's limit differs from the target by more
  than one unit) that is not accepted in the same tick resolves to denied on driver decel
  input while longitudinal control is active, or once the pending timer has reached 30;
  the timer gains \<open>DT_MDL\<close> per pending tick, so the timeout is 30 s, not 30 ticks.
  Whenever the pending flag is clear after the block, the timer is zero.
\<close>

theorem slc_confirmation_resolution:
  "(\<bar>slc_target s - u\<bar> > 1 \<and> slc_target s \<noteq> 0 \<and> u > 1
      \<and> \<not> ((accelPressed inp \<and> longActive inp) \<or> SLCConfirmed s)
      \<and> ((decelPressed inp \<and> longActive inp) \<or> speed_limit_timer s \<ge> 30)
     \<longrightarrow> \<not> speed_limit_changed (slc_confirmation C s inp u)
         \<and> slc_target (slc_confirmation C s inp u) = slc_target s
         \<and> speed_limit_timer (slc_confirmation C s inp u) = 0)
   \<and> (\<not> speed_limit_changed (slc_confirmation C s inp u)
     \<longrightarrow> speed_limit_timer (slc_confirmation C s inp u) = 0)
   \<and> (\<bar>slc_target s - u\<bar> > 1 \<and> slc_target s \<noteq> 0 \<and> u > 1
      \<and> \<not> ((accelPressed inp \<and> longActive inp) \<or> SLCConfirmed s)
      \<and> \<not> ((decelPressed inp \<and> longActive inp) \<or> speed_limit_timer s \<ge> 30)
      \<and> speed_limit_confirmation_lower inp \<and> speed_limit_confirmation_higher inp
     \<longrightarrow> speed_limit_changed (slc_confirmation C s inp u)
         \<and> slc_target (slc_confirmation C s inp u) = slc_target s
         \<and> speed_limit_timer (slc_confirmation C s inp u) = speed_limit_timer s + DT_MDL C)"
  by (auto simp: slc_confirmation_def Let_def)

theorem slc_confirmation_resolution_witness:
  "speed_limit_timer (slc_confirmation example_consts
       (vcruise_init\<lparr>slc_target := 20, speed_limit_timer := 30\<rparr>) inputs_limit 25) = 0
   \<and> \<not> speed_limit_changed (slc_confirmation example_consts
       (vcruise_init\<lparr>slc_target := 20, speed_limit_timer := 30\<rparr>) inputs_limit 25)
   \<and> slc_target (slc_confirmation example_consts
       (vcruise_init\<lparr>slc_target := 20, speed_limit_timer := 30\<rparr>) inputs_limit 25) = 20
   \<and> speed_limit_changed (slc_confirmation example_consts
       (vcruise_init\<lparr>slc_target := 20, speed_limit_timer := 1.5\<rparr>) inputs_limit 25)
   \<and> speed_limit_timer (slc_confirmation example_consts
       (vcruise_init\<lparr>slc_target := 20, speed_limit_timer := 1.5\<rparr>) inputs_limit 25) = 1.55"
  using slc_confirmation_resolution [of "vcruise_init\<lparr>slc_target := 20, speed_limit_timer := 30\<rparr>"
      25 inputs_limit example_consts]
    slc_confirmation_resolution [of "vcruise_init\<lparr>slc_target := 20, speed_limit_timer := 1.5\<rparr>"
      25 inputs_limit example_consts]
  by (simp add: vcruise_init_def inputs_limit_def inputs_off_def example_consts_def)


lemma pending_tick:
  assumes "slc_target s = 20" and "\<not> SLCConfirmed s" and "speed_limit_timer s < 30"
  shows "\<exists>s' vc. vcruise_update example_consts s inputs_limit 30 20 = Inr (s', vc)
     \<and> slc_target s' = 20 \<and> \<not> SLCConfirmed s' \<and> speed_limit_changed s'
     \<and> speed_limit_timer s' = speed_limit_timer s + 0.05"
proof -
  have i: "\<not> map_turn_speed_controller inputs_limit" "\<not> vision_turn_controller inputs_limit"
      "speed_limit_controller inputs_limit" "speed_limit_confirmation inputs_limit"
      "slc_desired_speed_limit inputs_limit = 25" "PLANNER_TIME example_consts \<noteq> 0"
    by (simp_all add: inputs_limit_def inputs_off_def example_consts_def)
  obtain s' vc where u: "vcruise_update example_consts s inputs_limit 30 20 = Inr (s', vc)"
    using vcruise_update_returns [OF i(1) i(2) i(6)] by blast
  obtain s1 en s2 s4 s5 where b: "force_stop_logic example_consts s inputs_limit = (s1, en)"
    "mtsc_update example_consts s1 inputs_limit 30 20 = Inr s2"
    "vtsc_update example_consts (slc_update example_consts s2 inputs_limit 30 20
            (max (vCruiseCluster inputs_limit * KPH_TO_MS example_consts) 30)
            (max (vEgoCluster inputs_limit) 20)) inputs_limit 30 20 = Inr s4"
    "final_target example_consts s4 inputs_limit en 30 20
            (max (vEgoCluster inputs_limit) 20 - 20) = Inr (s5, vc)"
    "s' = s5\<lparr>mtsc_target := mtsc_target s5
                       + (max (vCruiseCluster inputs_limit * KPH_TO_MS example_consts) 30 - 30),
                    vtsc_target := vtsc_target s5
                       + (max (vCruiseCluster inputs_limit * KPH_TO_MS example_consts) 30 - 30)\<rparr>"
    using vcruise_update_inv [OF u] by blast
  have s2f: "slc_target s2 = 20" "\<not> SLCConfirmed s2" "speed_limit_timer s2 = speed_limit_timer s"
    using force_stop_logic_frame [OF b(1)] mtsc_update_frame [OF b(2)] assms by simp_all
  have nz: "slc_target s2 \<noteq> 0" using s2f by simp
  let ?c = "slc_confirmation example_consts s2 inputs_limit 25"
  have c: "slc_target ?c = 20 \<and> \<not> SLCConfirmed ?c \<and> speed_limit_changed ?c
      \<and> speed_limit_timer ?c = speed_limit_timer s + 0.05"
    using s2f assms(3)
    by (simp add: slc_confirmation_def Let_def inputs_limit_def inputs_off_def
        example_consts_def)
  have "slc_target s' = 20 \<and> \<not> SLCConfirmed s' \<and> speed_limit_changed s'
      \<and> speed_limit_timer s' = speed_limit_timer s + 0.05"
    using c slc_update_confirming [OF i(3) i(4) nz, of example_consts 30 20
        "max (vCruiseCluster inputs_limit * KPH_TO_MS example_consts) 30"
        "max (vEgoCluster inputs_limit) 20"]
      vtsc_update_frame [OF b(3)] final_target_frame [OF b(4)] b(5) i(5)
    by simp
  then show ?thesis using u by blast
qed

lemma pending_ticks:
  assumes "slc_target s = 20" and "\<not> SLCConfirmed s"
    and "speed_limit_timer s + real n * 0.05 \<le> 30"
  shows "\<exists>s'. ticks n example_consts inputs_limit 30 20 s = Inr s'
     \<and> slc_target s' = 20 \<and> \<not> SLCConfirmed s'
     \<and> (0 < n \<longrightarrow> speed_limit_changed s')
     \<and> speed_limit_timer s' = speed_limit_timer s + real n * 0.05"
  using assms
proof (induction n arbitrary: s)
  case 0
  then show ?case by simp
next
  case (Suc n)
  have n0: "0 \<le> real n" by simp
  have lt: "speed_limit_timer s < 30"
    using n0 Suc.prems(3) by (simp add: field_simps)
  have b0: "speed_limit_timer s + 0.05 + real n * 0.05 \<le> 30"
    using Suc.prems(3) by (simp add: field_simps)
  obtain s1 vc where 1: "vcruise_update example_consts s inputs_limit 30 20 = Inr (s1, vc)"
      "slc_target s1 = 20" "\<not> SLCConfirmed s1" "speed_limit_changed s1"
      "speed_limit_timer s1 = speed_limit_timer s + 0.05"
    using pending_tick [OF Suc.prems(1) Suc.prems(2) lt] by blast
  have b: "speed_limit_timer s1 + real n * 0.05 \<le> 30"
    using b0 1(5) by simp
  obtain s' where 2: "ticks n example_consts inputs_limit 30 20 s1 = Inr s'"
      "slc_target s' = 20" "\<not> SLCConfirmed s'" "0 < n \<longrightarrow> speed_limit_changed s'"
      "speed_limit_timer s' = speed_limit_timer s1 + real n * 0.05"
    using Suc.IH [OF 1(2) 1(3) b] by blast
  have ch: "speed_limit_changed s'"
  proof (cases n)
    case 0
    then show ?thesis using 2(1) 1(4) by simp
  next
    case (Suc m)
    then show ?thesis using 2(4) by simp
  qed
  have t: "speed_limit_timer s' = speed_limit_timer s + real (Suc n) * 0.05"
    using 2(5) 1(5) by (simp add: field_simps)
  have "ticks (Suc n) example_consts inputs_limit 30 20 s = Inr s'"
    using 1(1) 2(1) by simp
  then show ?case using 2(2) 2(3) ch t by blast
qed

text \<open>
  C6 as stated fails: with a 20 Hz tick, a change to 25 against a target of 20 is still
  pending after 40 ticks without driver input (the timer reads 2 s), not denied after 30.
\<close>

theorem slc_change_pending_after_40_ticks:
  "\<exists>s'. ticks 40 example_consts inputs_limit 30 20 (vcruise_init\<lparr>slc_target := 20\<rparr>) = Inr s'
     \<and> speed_limit_changed s' \<and> slc_target s' = 20 \<and> speed_limit_timer s' = 2"
proof -
  have "\<exists>s'. ticks 40 example_consts inputs_limit 30 20 (vcruise_init\<lparr>slc_target := 20\<rparr>) = Inr s'
     \<and> slc_target s' = 20 \<and> \<not> SLCConfirmed s'
     \<and> ((0::nat) < 40 \<longrightarrow> speed_limit_changed s')
     \<and> speed_limit_timer s' = speed_limit_timer (vcruise_init\<lparr>slc_target := 20\<rparr>) + real 40 * 0.05"
    by (rule pending_ticks) (simp_all add: vcruise_init_def)
  then obtain s' where "ticks 40 example_consts inputs_limit 30 20 (vcruise_init\<lparr>slc_target := 20\<rparr>) = Inr s'"
     "slc_target s' = 20" "speed_limit_changed s'"
     "speed_limit_timer s' = speed_limit_timer (vcruise_init\<lparr>slc_target := 20\<rparr>) + real 40 * 0.05"
    by auto
  moreover have "speed_limit_timer (vcruise_init\<lparr>slc_target := 20\<rparr>) + real 40 * 0.05 = 2"
    by (simp add: vcruise_init_def)
  ultimately show ?thesis by auto
qed

section \<open>Forced stop\<close>

lemma final_target_forced_stop:
  assumes "en" and "\<not> override_force_stop s"
    and "\<not> (force_standstill inp \<and> standstill inp \<and> enabled inp)"
    and "final_target C s inp en v_cruise v_ego d = Inr (s', r)"
  shows "tracked_model_length s' = max (tracked_model_length s - v_ego * DT_MDL C) 0
     \<and> r = min (of_int \<lfloor>tracked_model_length s' / PLANNER_TIME C\<rfloor>) v_cruise"
  using assms by (auto simp: final_target_def Let_def split: if_splits)

lemma forced_stop_tick:
  assumes a: "forced_stop_active C s inp"
    and u: "vcruise_update C s inp v_cruise v_ego = Inr (s', r)"
  shows "tracked_model_length s' = max (tracked_model_length s - v_ego * DT_MDL C) 0
     \<and> r = min (of_int \<lfloor>tracked_model_length s' / PLANNER_TIME C\<rfloor>) v_cruise"
proof -
  obtain s1 en s2 s4 s5 where b: "force_stop_logic C s inp = (s1, en)"
    "mtsc_update C s1 inp v_cruise v_ego = Inr s2"
    "vtsc_update C (slc_update C s2 inp v_cruise v_ego
            (max (vCruiseCluster inp * KPH_TO_MS C) v_cruise) (max (vEgoCluster inp) v_ego))
            inp v_cruise v_ego = Inr s4"
    "final_target C s4 inp en v_cruise v_ego (max (vEgoCluster inp) v_ego - v_ego)
           = Inr (s5, r)"
    "s' = s5\<lparr>mtsc_target := mtsc_target s5
                       + (max (vCruiseCluster inp * KPH_TO_MS C) v_cruise - v_cruise),
                    vtsc_target := vtsc_target s5
                       + (max (vCruiseCluster inp * KPH_TO_MS C) v_cruise - v_cruise)\<rparr>"
    using vcruise_update_inv [OF u] by blast
  have en: "en" and no: "\<not> override_force_stop s1"
    and hs: "\<not> (force_standstill inp \<and> standstill inp \<and> enabled inp)"
    using a b(1) by (simp_all add: forced_stop_active_def)
  have o4: "override_force_stop s4 = override_force_stop s1"
    and t4: "tracked_model_length s4 = tracked_model_length s"
    using force_stop_logic_frame [OF b(1)] mtsc_update_frame [OF b(2)]
      slc_update_frame [of C s2 inp v_cruise v_ego
        "max (vCruiseCluster inp * KPH_TO_MS C) v_cruise" "max (vEgoCluster inp) v_ego"]
      vtsc_update_frame [OF b(3)]
    by simp_all
  have no4: "\<not> override_force_stop s4" using o4 no by simp
  have "tracked_model_length s5 = max (tracked_model_length s4 - v_ego * DT_MDL C) 0
     \<and> r = min (of_int \<lfloor>tracked_model_length s5 / PLANNER_TIME C\<rfloor>) v_cruise"
    using final_target_forced_stop [OF en no4 hs b(4)] .
  then show ?thesis using t4 b(5) by simp
qed

text \<open>
  C4, amended. While the forced stop is active (trigger held at least 1 s, no override,
  hard standstill not applying), the speed the arbiter returns is the smaller of the
  requested cruise speed and the floor of the remaining tracked distance divided by
  the planning time, where the remaining distance is the tracked distance less
  \<open>v_ego\<cdot>DT_MDL\<close>, not below 0. It never exceeds the requested cruise speed, and over
  two such ticks with the same requested cruise speed and a non-negative ego speed it
  does not increase. Without the map and vision turn controllers the call returns.
\<close>

theorem forced_stop_commanded_speed:
  assumes "0 < PLANNER_TIME C" and "0 \<le> DT_MDL C"
    and "forced_stop_active C s inp"
    and "vcruise_update C s inp v_cruise v_ego = Inr (s', r)"
    and "forced_stop_active C s' inp2"
    and "vcruise_update C s' inp2 v_cruise v_ego2 = Inr (s'', r2)"
    and "0 \<le> v_ego2"
  shows "tracked_model_length s' = max (tracked_model_length s - v_ego * DT_MDL C) 0
     \<and> r = min (of_int \<lfloor>tracked_model_length s' / PLANNER_TIME C\<rfloor>) v_cruise
     \<and> r \<le> v_cruise
     \<and> tracked_model_length s'' \<le> tracked_model_length s'
     \<and> r2 \<le> r
     \<and> (\<not> map_turn_speed_controller inp \<and> \<not> vision_turn_controller inp
          \<longrightarrow> (\<exists>out. vcruise_update C s inp v_cruise v_ego = Inr out))"
proof -
  have 1: "tracked_model_length s' = max (tracked_model_length s - v_ego * DT_MDL C) 0"
    "r = min (of_int \<lfloor>tracked_model_length s' / PLANNER_TIME C\<rfloor>) v_cruise"
    using forced_stop_tick [OF assms(3) assms(4)] by simp_all
  have 2: "tracked_model_length s'' = max (tracked_model_length s' - v_ego2 * DT_MDL C) 0"
    "r2 = min (of_int \<lfloor>tracked_model_length s'' / PLANNER_TIME C\<rfloor>) v_cruise"
    using forced_stop_tick [OF assms(5) assms(6)] by simp_all
  have nn: "0 \<le> tracked_model_length s'" using 1(1) by simp
  have "0 \<le> v_ego2 * DT_MDL C" using assms(2) assms(7) by simp
  then have le: "tracked_model_length s'' \<le> tracked_model_length s'"
    using 2(1) nn by simp
  have "tracked_model_length s'' / PLANNER_TIME C \<le> tracked_model_length s' / PLANNER_TIME C"
    using le assms(1) by (simp add: divide_right_mono)
  then have "\<lfloor>tracked_model_length s'' / PLANNER_TIME C\<rfloor>
               \<le> \<lfloor>tracked_model_length s' / PLANNER_TIME C\<rfloor>"
    by (rule floor_mono)
  then have "(of_int \<lfloor>tracked_model_length s'' / PLANNER_TIME C\<rfloor> :: real)
               \<le> of_int \<lfloor>tracked_model_length s' / PLANNER_TIME C\<rfloor>"
    by simp
  then have r2: "r2 \<le> r" unfolding 1(2) 2(2) by (simp add: min_le_iff_disj)
  have rv: "r \<le> v_cruise" using 1(2) by simp
  have tot: "\<not> map_turn_speed_controller inp \<and> \<not> vision_turn_controller inp
          \<longrightarrow> (\<exists>out. vcruise_update C s inp v_cruise v_ego = Inr out)"
    using vcruise_update_returns [of inp C s v_cruise v_ego] assms(1) by auto
  show ?thesis using 1 le r2 rv tot by blast
qed


lemmas arbiter_eval = vcruise_update_def force_stop_logic_def mtsc_update_def slc_update_def
      vtsc_update_def final_target_def Let_def inputs_stop_def inputs_off_def
      example_consts_def state_holding_def vcruise_init_def CRUISING_SPEED_def
      forced_stop_active_def

theorem forced_stop_commanded_speed_witness:
  "\<exists>s1 s2. 0 < PLANNER_TIME example_consts \<and> 0 \<le> DT_MDL example_consts
     \<and> forced_stop_active example_consts (state_holding 60.5) inputs_stop
     \<and> vcruise_update example_consts (state_holding 60.5) inputs_stop 30 10 = Inr (s1, 6)
     \<and> forced_stop_active example_consts s1 inputs_stop
     \<and> vcruise_update example_consts s1 inputs_stop 30 10 = Inr (s2, 5)
     \<and> tracked_model_length s1 = 60
     \<and> (6::real) = min (of_int \<lfloor>tracked_model_length s1 / PLANNER_TIME example_consts\<rfloor>) 30
     \<and> tracked_model_length s2 \<le> tracked_model_length s1
     \<and> (5::real) \<le> 6"
proof -
  have "\<exists>s1 s2. forced_stop_active example_consts (state_holding 60.5) inputs_stop
     \<and> vcruise_update example_consts (state_holding 60.5) inputs_stop 30 10 = Inr (s1, 6)
     \<and> forced_stop_active example_consts s1 inputs_stop
     \<and> vcruise_update example_consts s1 inputs_stop 30 10 = Inr (s2, 5)"
    by (simp add: arbiter_eval)
  then obtain s1 s2 where a1: "forced_stop_active example_consts (state_holding 60.5) inputs_stop"
     and u1: "vcruise_update example_consts (state_holding 60.5) inputs_stop 30 10 = Inr (s1, 6)"
     and a2: "forced_stop_active example_consts s1 inputs_stop"
     and u2: "vcruise_update example_consts s1 inputs_stop 30 10 = Inr (s2, 5)"
    by blast
  have p: "0 < PLANNER_TIME example_consts" and d: "0 \<le> DT_MDL example_consts"
    by (simp_all add: example_consts_def)
  have v: "(0::real) \<le> 10" by simp
  have t0: "max (tracked_model_length (state_holding 60.5) - 10 * DT_MDL example_consts) 0 = 60"
    by (simp add: state_holding_def vcruise_init_def example_consts_def)
  note c = forced_stop_commanded_speed [OF p d a1 u1 a2 u2 v]
  have c1: "tracked_model_length s1 = 60" using c t0 by simp
  have c2: "(6::real) = min (of_int \<lfloor>tracked_model_length s1 / PLANNER_TIME example_consts\<rfloor>) 30"
    using c by blast
  have c3: "tracked_model_length s2 \<le> tracked_model_length s1" using c by blast
  have c4: "(5::real) \<le> 6" using c by blast
  show ?thesis using p d a1 u1 a2 u2 c1 c2 c3 c4 by blast
qed

text \<open>
  C4 as stated fails: with 55 m tracked, 10 m/s and a planning time of 10 s, the
  remaining distance after the tick is 54.5 m and the speed returned is 5, not 5.45;
  the next tick consumes another 0.5 m and returns 5 again.
\<close>

theorem forced_stop_speed_is_floored_and_can_stall:
  "\<exists>s1 s2. forced_stop_active example_consts (state_holding 55) inputs_stop
     \<and> vcruise_update example_consts (state_holding 55) inputs_stop 30 10 = Inr (s1, 5)
     \<and> tracked_model_length s1 = 54.5
     \<and> tracked_model_length s1 / PLANNER_TIME example_consts = 5.45
     \<and> forced_stop_active example_consts s1 inputs_stop
     \<and> vcruise_update example_consts s1 inputs_stop 30 10 = Inr (s2, 5)
     \<and> tracked_model_length s2 = 54"
  by (simp add: arbiter_eval)

section \<open>Vision turn speed controller on a straight road\<close>

text \<open>
  What the active controller computes when the curvature magnitude is below \<open>1e-9\<close>, the
  lateral acceleration is not above the low threshold and no look-ahead curve is in
  range: the curvature speed is the cruise target, the smoothed target is
  \<open>reaccel_alpha \<cdot> previous target + (1 - reaccel_alpha) \<cdot> cruise target\<close>, and the output
  is the smaller of that and the jerk-limited projection \<open>v_ego - current_decel \<cdot> DT_MDL\<close>.
\<close>

lemma vtsc_straight_output:
  assumes "vision_turn_controller inp" and "CRUISING_SPEED < v_ego" and "longActive inp"
    and "\<bar>road_curvature inp\<bar> < 0.000000001"
    and "\<bar>road_curvature inp\<bar> * v_ego ^ 2 \<le> LOW_LAT_ACC s"
    and "\<not> (upcoming_curve_dist inp < LOOKAHEAD_DIST s \<and> upcoming_curvature inp > 0.0005)"
  shows "\<exists>s'. vtsc_update C s inp v_cruise v_ego = Inr s'
     \<and> vtsc_target s' = min (v_ego - current_decel s' * DT_MDL C)
           (reaccel_alpha_chauffeur s * vtsc_target_prev s
              + (1 - reaccel_alpha_chauffeur s) * v_cruise)"
proof -
  have cs: "vtsc_curvature_speed C inp v_cruise v_ego = Inr (None, v_cruise)"
    using assms(4) by (simp add: vtsc_curvature_speed_def Let_def)
  have sm: "vtsc_smoothed_target s inp v_cruise v_ego w =
         reaccel_alpha_chauffeur s * vtsc_target_prev s
           + (1 - reaccel_alpha_chauffeur s) * v_cruise" for w
    using assms(5) by (simp add: vtsc_smoothed_target_def Let_def)
  have la: "vtsc_lookahead s inp lat v = Inr v" for lat v
    using assms(6) by (auto simp: vtsc_lookahead_def Let_def)
  have jl: "vtsc_target (vtsc_jerk_limit C s v_ego v)
      = min (v_ego - current_decel (vtsc_jerk_limit C s v_ego v) * DT_MDL C) v" for v
    by (simp add: vtsc_jerk_limit_def Let_def)
  have up: "vtsc_update C s inp v_cruise v_ego =
      Inr (vtsc_jerk_limit C s v_ego (reaccel_alpha_chauffeur s * vtsc_target_prev s
           + (1 - reaccel_alpha_chauffeur s) * v_cruise))"
    using assms(1) assms(2) assms(3) by (simp add: vtsc_update_def cs Let_def sm la)
  show ?thesis using up jl by simp
qed

text \<open>
  One tick of the arbiter on a straight road, block by block: cruise target 30 m/s, ego
  speed 25 m/s, and a controller whose previous turn-speed target is already 30.
\<close>

lemma straight_inputs:
  "vision_turn_controller inputs_straight" "longActive inputs_straight"
  "\<not> map_turn_speed_controller inputs_straight" "\<not> force_standstill inputs_straight"
  "\<not> speed_limit_controller inputs_straight" "\<not> show_speed_limits inputs_straight"
  "\<not> force_stops inputs_straight" "road_curvature inputs_straight = 0"
  "upcoming_curve_dist inputs_straight = 1000" "vCruiseCluster inputs_straight = 0"
  "vEgoCluster inputs_straight = 0" "\<not> stop_light_detected inputs_straight"
  "model_length inputs_straight = 200" "\<not> gasPressed inputs_straight"
  "\<not> accelPressed inputs_straight" "\<not> standstill inputs_straight"
  by (simp_all add: inputs_straight_def inputs_off_def)

lemma straight_slc:
  "slc_update example_consts s inputs_straight 30 25 a b = s\<lparr>slc_target := 0\<rparr>"
  by (simp add: slc_update_def straight_inputs)

lemma straight_curvature_speed:
  "vtsc_curvature_speed example_consts inputs_straight 30 25 = Inr (None, 30)"
  by (simp add: vtsc_curvature_speed_def straight_inputs)

lemma cruising_force_stop:
  "force_stop_logic example_consts (vcruise_init\<lparr>vtsc_target_prev := 30\<rparr>) inputs_straight
     = (vcruise_init\<lparr>vtsc_target_prev := 30\<rparr>, False)"
  by (simp add: force_stop_logic_def Let_def straight_inputs vcruise_init_def)

lemma cruising_mtsc:
  "mtsc_update example_consts (vcruise_init\<lparr>vtsc_target_prev := 30\<rparr>) inputs_straight 30 25
    = Inr (vcruise_init\<lparr>vtsc_target_prev := 30, mtsc_target := 30\<rparr>)"
  by (simp add: mtsc_update_def straight_inputs example_consts_def)

lemma cruising_smoothed:
  "vtsc_smoothed_target (vcruise_init\<lparr>vtsc_target_prev := 30, mtsc_target := 30,
       slc_target := 0\<rparr>) inputs_straight 30 25 w = 30"
  by (simp add: vtsc_smoothed_target_def straight_inputs vcruise_init_def)

lemma cruising_lookahead:
  "vtsc_lookahead (vcruise_init\<lparr>vtsc_target_prev := 30, mtsc_target := 30,
       slc_target := 0\<rparr>) inputs_straight lat 30 = Inr 30"
  by (simp add: vtsc_lookahead_def straight_inputs vcruise_init_def)

lemma cruising_jerk_limit:
  "vtsc_jerk_limit example_consts (vcruise_init\<lparr>vtsc_target_prev := 30, mtsc_target := 30,
       slc_target := 0\<rparr>) 25 30
     = vcruise_init\<lparr>mtsc_target := 30, slc_target := 0, current_decel := 0,
                vtsc_target := 25, vtsc_target_prev := 25\<rparr>"
  by (simp add: vtsc_jerk_limit_def Let_def example_consts_def vcruise_init_def clip_def)

lemma cruising_vtsc:
  "vtsc_update example_consts (vcruise_init\<lparr>vtsc_target_prev := 30, mtsc_target := 30,
       slc_target := 0\<rparr>) inputs_straight 30 25
   = Inr (vcruise_init\<lparr>mtsc_target := 30, slc_target := 0, current_decel := 0,
                vtsc_target := 25, vtsc_target_prev := 25\<rparr>)"
  by (simp add: vtsc_update_def straight_inputs(1,2) CRUISING_SPEED_def
      straight_curvature_speed cruising_smoothed cruising_lookahead cruising_jerk_limit)

lemma cruising_final:
  "final_target example_consts
     (vcruise_init\<lparr>mtsc_target := 30, slc_target := 0, current_decel := 0,
                vtsc_target := 25, vtsc_target_prev := 25\<rparr>)
     inputs_straight False 30 25 d
   = Inr (vcruise_init\<lparr>mtsc_target := 30, slc_target := 0, current_decel := 0,
                vtsc_target := 25, vtsc_target_prev := 25, tracked_model_length := 200\<rparr>, 25)"
  by (simp add: final_target_def Let_def straight_inputs vcruise_init_def CRUISING_SPEED_def
      np_min_def)

lemma cruising_lookahead_raises:
  "vtsc_update example_consts (vcruise_init\<lparr>vtsc_target_prev := 30\<rparr>)
     (inputs_straight\<lparr>upcoming_curve_dist := 100, upcoming_curvature := 0.001\<rparr>) 30 25
   = Inl UnboundLocalError"
  by (simp add: vtsc_update_def vtsc_curvature_speed_def vtsc_lookahead_def Let_def
      inputs_straight_def inputs_off_def vcruise_init_def CRUISING_SPEED_def)

text \<open>
  C7. The source announces the claim (\<open># If extremely small curvature => no limit\<close>, and
  the branch of a controller that is off sets \<open>vtsc_target = v_cruise\<close>), but the active
  branch does not deliver it. With curvature 0, cruise target 30, ego speed 25 and the
  previous target already 30, the curvature speed is 30 and the smoothed target is 30,
  yet the output is \<open>min(v_ego - current_decel \<cdot> DT_MDL, 30) = 25\<close>, the ego speed, and the
  arbiter commands 25. With a look-ahead curve in range (100 m ahead, curvature 0.001)
  the same branch reads \<open>lat_acc\<close>, which it never assigned: UnboundLocalError.
\<close>

theorem vtsc_straight_road_capped_at_ego_speed:
  "\<bar>road_curvature inputs_straight\<bar> < 0.000000001
   \<and> vtsc_curvature_speed example_consts inputs_straight 30 25 = Inr (None, 30)
   \<and> vtsc_smoothed_target (vcruise_init\<lparr>vtsc_target_prev := 30\<rparr>) inputs_straight 30 25 30
        = 30
   \<and> (\<exists>s'. vtsc_update example_consts (vcruise_init\<lparr>vtsc_target_prev := 30\<rparr>)
              inputs_straight 30 25 = Inr s' \<and> vtsc_target s' = 25)
   \<and> (\<exists>s'. vcruise_update example_consts (vcruise_init\<lparr>vtsc_target_prev := 30\<rparr>)
              inputs_straight 30 25 = Inr (s', 25) \<and> vtsc_target s' = 25)
   \<and> vtsc_update example_consts (vcruise_init\<lparr>vtsc_target_prev := 30\<rparr>)
        (inputs_straight\<lparr>upcoming_curve_dist := 100, upcoming_curvature := 0.001\<rparr>) 30 25
      = Inl UnboundLocalError"
proof -
  have 1: "\<bar>road_curvature inputs_straight\<bar> < 0.000000001"
    by (simp add: straight_inputs)
  have 2: "vtsc_smoothed_target (vcruise_init\<lparr>vtsc_target_prev := 30\<rparr>) inputs_straight
             30 25 30 = 30"
    by (simp add: vtsc_smoothed_target_def straight_inputs vcruise_init_def)
  have 3: "\<exists>s'. vtsc_update example_consts (vcruise_init\<lparr>vtsc_target_prev := 30\<rparr>)
              inputs_straight 30 25 = Inr s' \<and> vtsc_target s' = 25"
    by (simp add: vtsc_update_def CRUISING_SPEED_def vtsc_curvature_speed_def
        vtsc_smoothed_target_def vtsc_lookahead_def vtsc_jerk_limit_def Let_def
        example_consts_def vcruise_init_def clip_def straight_inputs)
  have v: "vtsc_update example_consts (slc_update example_consts
            (vcruise_init\<lparr>vtsc_target_prev := 30, mtsc_target := 30\<rparr>) inputs_straight 30 25
            (max (vCruiseCluster inputs_straight * KPH_TO_MS example_consts) 30)
            (max (vEgoCluster inputs_straight) 25)) inputs_straight 30 25
      = Inr (vcruise_init\<lparr>mtsc_target := 30, slc_target := 0, current_decel := 0,
                vtsc_target := 25, vtsc_target_prev := 25\<rparr>)"
    unfolding straight_slc using cruising_vtsc by simp
  note u = vcruise_update_blocks [OF cruising_force_stop cruising_mtsc v cruising_final]
  have 4: "\<exists>s'. vcruise_update example_consts (vcruise_init\<lparr>vtsc_target_prev := 30\<rparr>)
              inputs_straight 30 25 = Inr (s', 25) \<and> vtsc_target s' = 25"
    using u by (simp add: straight_inputs)
  show ?thesis
    using 1 straight_curvature_speed 2 3 4 cruising_lookahead_raises by simp
qed

end
